theory Spec2Isabelle
  imports Complex_Main
begin

section \<open>RigidBodyContactEffector: data model\<close>

text \<open>
  The effector works on \<^verbatim>\<open>double\<close>s; they are modelled as the reals, so every statement
  below is about the arithmetic the code writes down, not about rounding. An
  \<^verbatim>\<open>Eigen::Vector3d\<close> is a triple of components read by index 0, 1, 2; an
  \<^verbatim>\<open>Eigen::Matrix3d\<close> is its three rows.
\<close>

datatype vec3 = Vec3 (c0: real) (c1: real) (c2: real)

datatype mat3 = Mat3 (row0: vec3) (row1: vec3) (row2: vec3)

text \<open>\<^verbatim>\<open>vectorInterval\<close>: the value of a vector at the start (\<open>lower\<close>) and at the end
  (\<open>upper\<close>) of the time interval.\<close>

record vectorInterval =
  lower :: vec3
  upper :: vec3

definition vzero :: vec3 where
  "vzero = Vec3 0 0 0"

definition vadd :: "vec3 \<Rightarrow> vec3 \<Rightarrow> vec3" where
  "vadd a b = Vec3 (c0 a + c0 b) (c1 a + c1 b) (c2 a + c2 b)"

definition vsub :: "vec3 \<Rightarrow> vec3 \<Rightarrow> vec3" where
  "vsub a b = Vec3 (c0 a - c0 b) (c1 a - c1 b) (c2 a - c2 b)"

definition vscale :: "vec3 \<Rightarrow> real \<Rightarrow> vec3" where
  "vscale a s = Vec3 (c0 a * s) (c1 a * s) (c2 a * s)"

definition vdiv :: "vec3 \<Rightarrow> real \<Rightarrow> vec3" where
  "vdiv a s = Vec3 (c0 a / s) (c1 a / s) (c2 a / s)"

definition vneg :: "vec3 \<Rightarrow> vec3" where
  "vneg a = Vec3 (- c0 a) (- c1 a) (- c2 a)"

definition vdot :: "vec3 \<Rightarrow> vec3 \<Rightarrow> real" where
  "vdot a b = c0 a * c0 b + c1 a * c1 b + c2 a * c2 b"

definition vcross :: "vec3 \<Rightarrow> vec3 \<Rightarrow> vec3" where
  "vcross a b = Vec3 (c1 a * c2 b - c2 a * c1 b)
                     (c2 a * c0 b - c0 a * c2 b)
                     (c0 a * c1 b - c1 a * c0 b)"

definition mat_vec :: "mat3 \<Rightarrow> vec3 \<Rightarrow> vec3" where
  "mat_vec m v = Vec3 (vdot (row0 m) v) (vdot (row1 m) v) (vdot (row2 m) v)"

section \<open>Interval arithmetic kernel\<close>

text \<open>\<^verbatim>\<open>*std::min_element\<close> and \<^verbatim>\<open>*std::max_element\<close> of a non-empty vector.\<close>

fun min_element :: "real list \<Rightarrow> real" where
  "min_element (x # xs) = fold min xs x"

fun max_element :: "real list \<Rightarrow> real" where
  "max_element (x # xs) = fold max xs x"

text \<open>The four products of the endpoints of one component of two intervals, in the order
  the code pushes them.\<close>

definition endpointProducts :: "real \<Rightarrow> real \<Rightarrow> real \<Rightarrow> real \<Rightarrow> real list" where
  "endpointProducts al au bl bu = [al * bl, al * bu, au * bl, au * bu]"

text \<open>\<^verbatim>\<open>IntervalDotProduct\<close>: the returned two-element vector is the pair
  (\<open>result[0]\<close>, \<open>result[1]\<close>).\<close>

definition IntervalDotProduct :: "vectorInterval \<Rightarrow> vectorInterval \<Rightarrow> real \<times> real" where
  "IntervalDotProduct vectorA vectorB =
    (let component1 = endpointProducts (c0 (lower vectorA)) (c0 (upper vectorA))
                                       (c0 (lower vectorB)) (c0 (upper vectorB));
         component2 = endpointProducts (c1 (lower vectorA)) (c1 (upper vectorA))
                                       (c1 (lower vectorB)) (c1 (upper vectorB));
         component3 = endpointProducts (c2 (lower vectorA)) (c2 (upper vectorA))
                                       (c2 (lower vectorB)) (c2 (upper vectorB))
     in (min_element component1 + min_element component2 + min_element component3,
         max_element component1 + max_element component2 + max_element component3))"

text \<open>\<^verbatim>\<open>IntervalCrossProduct\<close>: both bounds subtract like from like, minimum from
  minimum and maximum from maximum.\<close>

definition IntervalCrossProduct :: "vectorInterval \<Rightarrow> vectorInterval \<Rightarrow> vectorInterval" where
  "IntervalCrossProduct vectorA vectorB =
    (let a2b3 = endpointProducts (c1 (lower vectorA)) (c1 (upper vectorA))
                                 (c2 (lower vectorB)) (c2 (upper vectorB));
         a3b2 = endpointProducts (c2 (lower vectorA)) (c2 (upper vectorA))
                                 (c1 (lower vectorB)) (c1 (upper vectorB));
         a3b1 = endpointProducts (c2 (lower vectorA)) (c2 (upper vectorA))
                                 (c0 (lower vectorB)) (c0 (upper vectorB));
         a1b3 = endpointProducts (c0 (lower vectorA)) (c0 (upper vectorA))
                                 (c2 (lower vectorB)) (c2 (upper vectorB));
         a1b2 = endpointProducts (c0 (lower vectorA)) (c0 (upper vectorA))
                                 (c1 (lower vectorB)) (c1 (upper vectorB));
         a2b1 = endpointProducts (c1 (lower vectorA)) (c1 (upper vectorA))
                                 (c0 (lower vectorB)) (c0 (upper vectorB))
     in \<lparr> lower = Vec3 (min_element a2b3 - min_element a3b2)
                       (min_element a3b1 - min_element a1b3)
                       (min_element a1b2 - min_element a2b1),
          upper = Vec3 (max_element a2b3 - max_element a3b2)
                       (max_element a3b1 - max_element a1b3)
                       (max_element a1b2 - max_element a2b1) \<rparr>)"

text \<open>A sample lies in a vectorInterval when each component lies between the two endpoint
  components, whichever of them is the smaller.\<close>

definition between :: "real \<Rightarrow> real \<Rightarrow> real \<Rightarrow> bool" where
  "between l u x = (min l u \<le> x \<and> x \<le> max l u)"

definition inInterval :: "vec3 \<Rightarrow> vectorInterval \<Rightarrow> bool" where
  "inInterval a A = (between (c0 (lower A)) (c0 (upper A)) (c0 a) \<and>
                     between (c1 (lower A)) (c1 (upper A)) (c1 a) \<and>
                     between (c2 (lower A)) (c2 (upper A)) (c2 a))"

section \<open>Soundness of the interval kernel\<close>

lemma between_mult_right:
  assumes "between l u x"
  shows "between (l * c) (u * c) (x * c)"
proof (cases "0 \<le> c")
  case True
  have "min l u * c \<le> x * c" "x * c \<le> max l u * c"
    using assms True by (auto simp: between_def intro: mult_right_mono)
  then show ?thesis
    using True by (auto simp: between_def min_def max_def mult_right_mono split: if_splits)
next
  case False
  then have c: "c \<le> 0" by simp
  have "max l u * c \<le> x * c" "x * c \<le> min l u * c"
    using assms c by (auto simp: between_def intro: mult_right_mono_neg)
  then show ?thesis
    using c by (auto simp: between_def min_def max_def split: if_splits
        dest: mult_right_mono_neg [of _ _ c])
qed

lemma endpointProducts_bounds:
  assumes "between al au x" and "between bl bu y"
  shows "min_element (endpointProducts al au bl bu) \<le> x * y"
    and "x * y \<le> max_element (endpointProducts al au bl bu)"
proof -
  have 1: "between (bl * x) (bu * x) (y * x)"
    using assms(2) by (rule between_mult_right)
  have 2: "between (al * bl) (au * bl) (x * bl)"
    using assms(1) by (rule between_mult_right)
  have 3: "between (al * bu) (au * bu) (x * bu)"
    using assms(1) by (rule between_mult_right)
  show "min_element (endpointProducts al au bl bu) \<le> x * y"
    using 1 2 3 by (auto simp: endpointProducts_def between_def mult.commute min_def max_def
        split: if_splits)
  show "x * y \<le> max_element (endpointProducts al au bl bu)"
    using 1 2 3 by (auto simp: endpointProducts_def between_def mult.commute min_def max_def
        split: if_splits)
qed

lemma IntervalDotProduct_lower:
  assumes "inInterval a A" and "inInterval b B"
  shows "fst (IntervalDotProduct A B) \<le> vdot a b"
proof -
  have "min_element (endpointProducts (c0 (lower A)) (c0 (upper A)) (c0 (lower B)) (c0 (upper B)))
          \<le> c0 a * c0 b"
    using assms by (intro endpointProducts_bounds) (simp_all add: inInterval_def)
  moreover
  have "min_element (endpointProducts (c1 (lower A)) (c1 (upper A)) (c1 (lower B)) (c1 (upper B)))
          \<le> c1 a * c1 b"
    using assms by (intro endpointProducts_bounds) (simp_all add: inInterval_def)
  moreover
  have "min_element (endpointProducts (c2 (lower A)) (c2 (upper A)) (c2 (lower B)) (c2 (upper B)))
          \<le> c2 a * c2 b"
    using assms by (intro endpointProducts_bounds) (simp_all add: inInterval_def)
  ultimately show ?thesis
    by (simp add: IntervalDotProduct_def vdot_def Let_def)
qed

lemma IntervalDotProduct_upper:
  assumes "inInterval a A" and "inInterval b B"
  shows "vdot a b \<le> snd (IntervalDotProduct A B)"
proof -
  have "c0 a * c0 b
          \<le> max_element (endpointProducts (c0 (lower A)) (c0 (upper A)) (c0 (lower B)) (c0 (upper B)))"
    using assms by (intro endpointProducts_bounds) (simp_all add: inInterval_def)
  moreover
  have "c1 a * c1 b
          \<le> max_element (endpointProducts (c1 (lower A)) (c1 (upper A)) (c1 (lower B)) (c1 (upper B)))"
    using assms by (intro endpointProducts_bounds) (simp_all add: inInterval_def)
  moreover
  have "c2 a * c2 b
          \<le> max_element (endpointProducts (c2 (lower A)) (c2 (upper A)) (c2 (lower B)) (c2 (upper B)))"
    using assms by (intro endpointProducts_bounds) (simp_all add: inInterval_def)
  ultimately show ?thesis
    by (simp add: IntervalDotProduct_def vdot_def Let_def)
qed

text \<open>
  Extra property (first half of C1): the interval dot product is sound. For every sample
  \<open>a\<close> of \<open>A\<close> and \<open>b\<close> of \<open>B\<close>, the scalar \<open>a \<cdot> b\<close> lies between the two numbers that
  \<^verbatim>\<open>IntervalDotProduct(A, B)\<close> returns.
\<close>

theorem IntervalDotProduct_sound:
  assumes "inInterval a A" and "inInterval b B"
  shows "fst (IntervalDotProduct A B) \<le> vdot a b \<and> vdot a b \<le> snd (IntervalDotProduct A B)"
  using assms IntervalDotProduct_lower IntervalDotProduct_upper by blast

theorem IntervalDotProduct_sound_witness:
  "inInterval (Vec3 1 (-2) 0) \<lparr>lower = Vec3 0 (-3) 0, upper = Vec3 2 (-1) 0\<rparr> \<and>
   inInterval (Vec3 (-1) 1 5) \<lparr>lower = Vec3 (-1) 2 5, upper = Vec3 1 0 5\<rparr> \<and>
   IntervalDotProduct \<lparr>lower = Vec3 0 (-3) 0, upper = Vec3 2 (-1) 0\<rparr>
                      \<lparr>lower = Vec3 (-1) 2 5, upper = Vec3 1 0 5\<rparr> = (-8, 2) \<and>
   fst (IntervalDotProduct \<lparr>lower = Vec3 0 (-3) 0, upper = Vec3 2 (-1) 0\<rparr>
                           \<lparr>lower = Vec3 (-1) 2 5, upper = Vec3 1 0 5\<rparr>)
     \<le> vdot (Vec3 1 (-2) 0) (Vec3 (-1) 1 5) \<and>
   vdot (Vec3 1 (-2) 0) (Vec3 (-1) 1 5)
     \<le> snd (IntervalDotProduct \<lparr>lower = Vec3 0 (-3) 0, upper = Vec3 2 (-1) 0\<rparr>
                                \<lparr>lower = Vec3 (-1) 2 5, upper = Vec3 1 0 5\<rparr>)"
proof -
  have a: "inInterval (Vec3 1 (-2) 0) \<lparr>lower = Vec3 0 (-3) 0, upper = Vec3 2 (-1) 0\<rparr>"
    by (simp add: inInterval_def between_def)
  have b: "inInterval (Vec3 (-1) 1 5) \<lparr>lower = Vec3 (-1) 2 5, upper = Vec3 1 0 5\<rparr>"
    by (simp add: inInterval_def between_def)
  have v: "IntervalDotProduct \<lparr>lower = Vec3 0 (-3) 0, upper = Vec3 2 (-1) 0\<rparr>
                      \<lparr>lower = Vec3 (-1) 2 5, upper = Vec3 1 0 5\<rparr> = (-8, 2)"
    by (simp add: IntervalDotProduct_def endpointProducts_def)
  show ?thesis
    using a b v IntervalDotProduct_sound [OF a b] by simp
qed

text \<open>
  C1 (interval kernel soundness), second half: every component of \<open>a \<times> b\<close> lies within the
  bounds of \<^verbatim>\<open>IntervalCrossProduct(A, B)\<close>. The code breaks it. With \<open>A\<close> the point
  \<open>(0, 1, 1)\<close> and \<open>B\<close> the box from \<open>(0, 0, 0)\<close> to \<open>(0, 1, 1)\<close>, the samples
  \<open>a = (0, 1, 1)\<close> and \<open>b = (0, 0, 1)\<close> have \<open>a \<times> b = (1, 0, 0)\<close>, while the code returns
  the degenerate box \<open>[0, 0]\<close> on every axis: it subtracts the minimum of \<open>a3 b2\<close> from the
  minimum of \<open>a2 b3\<close> (and maximum from maximum), where a sound bound subtracts the maximum
  from the minimum.
\<close>

theorem IntervalCrossProduct_misses_sample:
  "inInterval (Vec3 0 1 1) \<lparr>lower = Vec3 0 1 1, upper = Vec3 0 1 1\<rparr> \<and>
   inInterval (Vec3 0 0 1) \<lparr>lower = Vec3 0 0 0, upper = Vec3 0 1 1\<rparr> \<and>
   vcross (Vec3 0 1 1) (Vec3 0 0 1) = Vec3 1 0 0 \<and>
   IntervalCrossProduct \<lparr>lower = Vec3 0 1 1, upper = Vec3 0 1 1\<rparr>
                        \<lparr>lower = Vec3 0 0 0, upper = Vec3 0 1 1\<rparr>
     = \<lparr>lower = Vec3 0 0 0, upper = Vec3 0 0 0\<rparr>"
  by (simp add: inInterval_def between_def vcross_def IntervalCrossProduct_def
      endpointProducts_def)

section \<open>Bodies and the effector\<close>

text \<open>
  \<^verbatim>\<open>dynamicData\<close>, \<^verbatim>\<open>halfEdge\<close>, \<^verbatim>\<open>boundingBoxDetail\<close>, \<^verbatim>\<open>geometry\<close> and the members of
  the \<^verbatim>\<open>RigidBodyContactEffector\<close> class, field by field. Indices are natural numbers
  (the code keeps them in \<^verbatim>\<open>int\<close>s that it only ever uses as positions); a two-element
  \<^verbatim>\<open>std::vector<int>\<close> body pair and a \<^verbatim>\<open>std::tuple\<close> are products. The message
  readers and buffers, the .obj attributes and the file names of a body play no part in
  the functions modelled here and are left out. Reading a vector out of range is
  undefined behaviour in the code; the theorems say where they need indices in range.
\<close>

record dynamicData =
  r_BN_N :: vec3
  v_BN_N :: vec3
  nonConservativeAccelpntB_B :: vec3
  m_SC :: real
  ISCPntB_B :: mat3
  ISCPntB_B_inv :: mat3
  c_B :: vec3
  omega_BN_B :: vec3
  omegaDot_BN_B :: vec3
  omegaTilde_BN_B :: mat3
  sigma_BN :: vec3
  dcm_BN :: mat3
  dcm_NB :: mat3

record halfEdge =
  faceNormals :: "vec3 list"
  faceTriangles :: "nat list list"
  faceCentroids :: "vec3 list"
  faceBoundingBoxes :: "vec3 list"
  edgeIndices :: "nat list list"
  faceIndices :: "(nat \<times> nat \<times> nat) list"
  centroid :: vec3
  uniqueVertIndices :: "nat list"
  boundingBox :: vec3

record boundingBoxDetail =
  parentIndices :: "nat \<times> nat"
  overlaps :: "(nat \<times> nat) list"

record geometry =
  boundingRadius :: real
  coefRestitution :: real
  coefFriction :: real
  vertices :: "vec3 list"
  polyhedron :: "halfEdge list"
  coarseSearchList :: boundingBoxDetail
  states :: dynamicData
  futureStates :: dynamicData
  isSpice :: bool
  bodyForceExternal_N :: "vec3 list"
  bodyTorqueExternalPntB_B :: "vec3 list"
  impactTimes :: "real list"
  impactTimeSteps :: "real list"

text \<open>The effector. \<open>randState\<close> is the position of the process-wide generator behind
  \<^verbatim>\<open>std::rand()\<close>: the number of draws made so far.\<close>

record effector =
  forceExternal_N :: vec3
  forceExternal_B :: vec3
  torqueExternalPntB_B :: vec3
  currentSimSeconds :: real
  closeBodies :: "(nat \<times> nat) list"
  currentBodyInCycle :: int
  currentMinError :: real
  responseFound :: bool
  lockedToRand :: bool
  timeFound :: real
  integrateTimeStep :: real
  newMacroTimeStep :: bool
  topTime :: real
  topTimeStep :: real
  secondInter :: bool
  Bodies :: "geometry list"
  numBodies :: int
  maxPosError :: real
  collisionIntegrationStep :: real
  boundingBoxFF :: real
  timeSynchTol :: real
  randState :: nat

section \<open>Broad phase\<close>

text \<open>The test of one body pair in \<^verbatim>\<open>CheckBoundingSphere\<close>: the interval of the position
  difference, its interval dot product with itself, and the comparison of the two square
  roots with the sum of the bounding radii.\<close>

definition bodyDifference :: "effector \<Rightarrow> nat \<Rightarrow> nat \<Rightarrow> vectorInterval" where
  "bodyDifference e bodyIt1 bodyIt2 =
    \<lparr> lower = vsub (r_BN_N (states (Bodies e ! bodyIt1))) (r_BN_N (states (Bodies e ! bodyIt2))),
      upper = vsub (r_BN_N (futureStates (Bodies e ! bodyIt1)))
                   (r_BN_N (futureStates (Bodies e ! bodyIt2))) \<rparr>"

definition bodyDistance :: "effector \<Rightarrow> nat \<Rightarrow> nat \<Rightarrow> real \<times> real" where
  "bodyDistance e bodyIt1 bodyIt2 =
    IntervalDotProduct (bodyDifference e bodyIt1 bodyIt2) (bodyDifference e bodyIt1 bodyIt2)"

definition withinBoundingSpheres :: "effector \<Rightarrow> nat \<Rightarrow> nat \<Rightarrow> bool" where
  "withinBoundingSpheres e bodyIt1 bodyIt2 =
    (sqrt \<bar>fst (bodyDistance e bodyIt1 bodyIt2)\<bar>
        < boundingRadius (Bodies e ! bodyIt1) + boundingRadius (Bodies e ! bodyIt2)
     \<or> sqrt \<bar>snd (bodyDistance e bodyIt1 bodyIt2)\<bar>
        < boundingRadius (Bodies e ! bodyIt1) + boundingRadius (Bodies e ! bodyIt2))"

text \<open>\<^verbatim>\<open>CheckBoundingSphere\<close>: \<open>closeBodies\<close> is cleared, then the two nested loops push
  the accepted pairs.\<close>

definition CheckBoundingSphere :: "effector \<Rightarrow> effector" where
  "CheckBoundingSphere e =
    e\<lparr>closeBodies :=
        fold (\<lambda>bodyIt1 cb.
                fold (\<lambda>bodyIt2 cb'.
                        if withinBoundingSpheres e bodyIt1 bodyIt2
                        then cb' @ [(bodyIt1, bodyIt2)] else cb')
                     [bodyIt1 + 1 ..< nat (numBodies e)] cb)
             [0 ..< nat (numBodies e - 1)] []\<rparr>"

subsection \<open>Example configurations\<close>

text \<open>Concrete bodies and effectors on which the theorems are exercised: a body at rest
  with identity attitude, unit mass and unit inertia, and an effector as its constructor
  leaves it.\<close>

definition mat_id :: mat3 where
  "mat_id = Mat3 (Vec3 1 0 0) (Vec3 0 1 0) (Vec3 0 0 1)"

definition mat_zero :: mat3 where
  "mat_zero = Mat3 (Vec3 0 0 0) (Vec3 0 0 0) (Vec3 0 0 0)"

definition stateAt :: "vec3 \<Rightarrow> dynamicData" where
  "stateAt r = \<lparr> r_BN_N = r, v_BN_N = vzero, nonConservativeAccelpntB_B = vzero, m_SC = 1,
                 ISCPntB_B = mat_id, ISCPntB_B_inv = mat_id, c_B = vzero, omega_BN_B = vzero,
                 omegaDot_BN_B = vzero, omegaTilde_BN_B = mat_zero, sigma_BN = vzero,
                 dcm_BN = mat_id, dcm_NB = mat_id \<rparr>"

definition bodyAt :: "vec3 \<Rightarrow> vec3 \<Rightarrow> real \<Rightarrow> halfEdge list \<Rightarrow> geometry" where
  "bodyAt r r' radius poly =
    \<lparr> boundingRadius = radius, coefRestitution = 1 / 2, coefFriction = 1 / 2, vertices = [],
      polyhedron = poly, coarseSearchList = \<lparr>parentIndices = (0, 0), overlaps = []\<rparr>,
      states = stateAt r, futureStates = stateAt r', isSpice = False,
      bodyForceExternal_N = [], bodyTorqueExternalPntB_B = [], impactTimes = [],
      impactTimeSteps = [] \<rparr>"

definition effectorOf :: "geometry list \<Rightarrow> effector" where
  "effectorOf bs =
    \<lparr> forceExternal_N = vzero, forceExternal_B = vzero, torqueExternalPntB_B = vzero,
      currentSimSeconds = 0, closeBodies = [], currentBodyInCycle = - 1, currentMinError = 1,
      responseFound = False, lockedToRand = False, timeFound = 0, integrateTimeStep = 0,
      newMacroTimeStep = True, topTime = 0, topTimeStep = 0, secondInter = False,
      Bodies = bs, numBodies = int (length bs), maxPosError = 1 / 1000,
      collisionIntegrationStep = 1 / 1000, boundingBoxFF = 1, timeSynchTol = 1 / 10 ^ 9,
      randState = 0 \<rparr>"

text \<open>A body that moves with constant velocity \<open>v\<close> over a step of length 1, from \<open>r\<close>
  to \<open>r + v\<close>. Three bodies of radius 1 on the x axis: the first rests at the origin, the
  second comes from \<open>x = 5\<close> to \<open>x = 1\<close>, the third crosses the origin from \<open>x = -3\<close> to
  \<open>x = 3\<close>.\<close>

definition movingBody :: "vec3 \<Rightarrow> vec3 \<Rightarrow> real \<Rightarrow> geometry" where
  "movingBody r v radius =
    (bodyAt r (vadd r v) radius [])
      \<lparr>states := (stateAt r)\<lparr>v_BN_N := v\<rparr>, futureStates := (stateAt (vadd r v))\<lparr>v_BN_N := v\<rparr>\<rparr>"

definition crossingSpheres :: effector where
  "crossingSpheres = effectorOf [movingBody (Vec3 0 0 0) (Vec3 0 0 0) 1,
                                 movingBody (Vec3 5 0 0) (Vec3 (- 4) 0 0) 1,
                                 movingBody (Vec3 (- 3) 0 0) (Vec3 6 0 0) 1]"

subsection \<open>Which pairs the broad phase accepts\<close>

lemma fold_push_filter:
  "fold (\<lambda>x acc. if P x then acc @ [f x] else acc) xs acc = acc @ map f (filter P xs)"
  by (induction xs arbitrary: acc) auto

lemma fold_push_concat:
  "fold (\<lambda>x acc. acc @ g x) xs acc = acc @ concat (map g xs)"
  by (induction xs arbitrary: acc) auto

lemma distinct_concat_Pair:
  "distinct xs \<Longrightarrow> (\<And>i. distinct (g i)) \<Longrightarrow>
    distinct (concat (map (\<lambda>i. map (Pair i) (g i)) xs))"
  by (induction xs) (auto simp: distinct_map inj_on_def)

lemma closeBodies_CheckBoundingSphere:
  "closeBodies (CheckBoundingSphere e) =
     concat (map (\<lambda>i. map (Pair i)
                         (filter (withinBoundingSpheres e i) [i + 1 ..< nat (numBodies e)]))
                 [0 ..< nat (numBodies e - 1)])"
  unfolding CheckBoundingSphere_def fold_push_filter
  by (simp add: fold_push_concat)

lemma CheckBoundingSphere_member:
  "(i, j) \<in> set (closeBodies (CheckBoundingSphere e)) \<longleftrightarrow>
     i < j \<and> int j < numBodies e \<and> withinBoundingSpheres e i j"
proof
  assume "(i, j) \<in> set (closeBodies (CheckBoundingSphere e))"
  then show "i < j \<and> int j < numBodies e \<and> withinBoundingSpheres e i j"
    unfolding closeBodies_CheckBoundingSphere by auto
next
  assume a: "i < j \<and> int j < numBodies e \<and> withinBoundingSpheres e i j"
  then have i: "i < nat (numBodies e - 1)" by auto
  have j: "j \<in> set (filter (withinBoundingSpheres e i) [i + 1 ..< nat (numBodies e)])"
    using a by auto
  show "(i, j) \<in> set (closeBodies (CheckBoundingSphere e))"
    unfolding closeBodies_CheckBoundingSphere using i j
    by (auto intro!: bexI [of _ i])
qed

lemma CheckBoundingSphere_distinct: "distinct (closeBodies (CheckBoundingSphere e))"
  unfolding closeBodies_CheckBoundingSphere
  by (rule distinct_concat_Pair) simp_all

text \<open>The least and the greatest of four products, and the two numbers of
  \<^verbatim>\<open>IntervalDotProduct\<close>, written out.\<close>

lemma min_element_four: "min_element [a, b, c, d] = Min {a, b, c, d}"
  by (simp add: min_def)

lemma max_element_four: "max_element [a, b, c, d] = Max {a, b, c, d}"
  by (simp add: max_def)

lemma IntervalDotProduct_explicit:
  "IntervalDotProduct A B =
    (Min {c0 (lower A) * c0 (lower B), c0 (lower A) * c0 (upper B),
          c0 (upper A) * c0 (lower B), c0 (upper A) * c0 (upper B)}
     + Min {c1 (lower A) * c1 (lower B), c1 (lower A) * c1 (upper B),
            c1 (upper A) * c1 (lower B), c1 (upper A) * c1 (upper B)}
     + Min {c2 (lower A) * c2 (lower B), c2 (lower A) * c2 (upper B),
            c2 (upper A) * c2 (lower B), c2 (upper A) * c2 (upper B)},
     Max {c0 (lower A) * c0 (lower B), c0 (lower A) * c0 (upper B),
          c0 (upper A) * c0 (lower B), c0 (upper A) * c0 (upper B)}
     + Max {c1 (lower A) * c1 (lower B), c1 (lower A) * c1 (upper B),
            c1 (upper A) * c1 (lower B), c1 (upper A) * c1 (upper B)}
     + Max {c2 (lower A) * c2 (lower B), c2 (lower A) * c2 (upper B),
            c2 (upper A) * c2 (lower B), c2 (upper A) * c2 (upper B)})"
  unfolding IntervalDotProduct_def endpointProducts_def Let_def min_element_four max_element_four
  ..

lemmas example_defs = effectorOf_def bodyAt_def stateAt_def vzero_def mat_id_def mat_zero_def

lemma crossingSpheres_fields:
  "numBodies crossingSpheres = 3"
  "r_BN_N (states (Bodies crossingSpheres ! 0)) = Vec3 0 0 0"
  "r_BN_N (futureStates (Bodies crossingSpheres ! 0)) = Vec3 0 0 0"
  "r_BN_N (states (Bodies crossingSpheres ! Suc 0)) = Vec3 5 0 0"
  "r_BN_N (futureStates (Bodies crossingSpheres ! Suc 0)) = Vec3 1 0 0"
  "r_BN_N (states (Bodies crossingSpheres ! 2)) = Vec3 (- 3) 0 0"
  "r_BN_N (futureStates (Bodies crossingSpheres ! 2)) = Vec3 3 0 0"
  "boundingRadius (Bodies crossingSpheres ! 0) = 1"
  "boundingRadius (Bodies crossingSpheres ! Suc 0) = 1"
  "boundingRadius (Bodies crossingSpheres ! 2) = 1"
  by (simp_all add: crossingSpheres_def effectorOf_def movingBody_def bodyAt_def stateAt_def
      vadd_def)

text \<open>
  C3 as stated (the pair is accepted when the lower or the upper bound computed on the norm
  of \<open>r\<^sub>i - r\<^sub>j\<close> over the step is below the sum of the radii) fails: the first of the two
  numbers the code computes is not a lower bound of the norm. In \<open>crossingSpheres\<close> the
  third body passes through the first, which rests at the origin: the position difference
  goes from \<open>(3, 0, 0)\<close> to \<open>(-3, 0, 0)\<close> and is \<open>0\<close> half way, where the two bodies
  coincide. The interval dot product of the difference with itself is \<open>(-9, 9)\<close>, both
  numbers compared with the radii are \<open>3\<close>, and with radii \<open>1 + 1\<close> the pair is not
  accepted.
\<close>

theorem CheckBoundingSphere_rejects_crossing_bodies:
  "r_BN_N (states (Bodies crossingSpheres ! 0)) = Vec3 0 0 0 \<and>
   r_BN_N (futureStates (Bodies crossingSpheres ! 0)) = Vec3 0 0 0 \<and>
   r_BN_N (states (Bodies crossingSpheres ! 2)) = Vec3 (- 3) 0 0 \<and>
   r_BN_N (futureStates (Bodies crossingSpheres ! 2)) = Vec3 3 0 0 \<and>
   boundingRadius (Bodies crossingSpheres ! 0) + boundingRadius (Bodies crossingSpheres ! 2) = 2 \<and>
   bodyDifference crossingSpheres 0 2 = \<lparr>lower = Vec3 3 0 0, upper = Vec3 (- 3) 0 0\<rparr> \<and>
   inInterval (Vec3 0 0 0) (bodyDifference crossingSpheres 0 2) \<and>
   sqrt (vdot (Vec3 0 0 0) (Vec3 0 0 0)) = 0 \<and>
   IntervalDotProduct (bodyDifference crossingSpheres 0 2) (bodyDifference crossingSpheres 0 2)
     = (- 9, 9) \<and>
   sqrt \<bar>- 9\<bar> = 3 \<and>
   (0, 2) \<notin> set (closeBodies (CheckBoundingSphere crossingSpheres))"
proof -
  have d: "bodyDifference crossingSpheres 0 2 = \<lparr>lower = Vec3 3 0 0, upper = Vec3 (- 3) 0 0\<rparr>"
    by (simp add: bodyDifference_def crossingSpheres_fields vsub_def)
  have p: "IntervalDotProduct \<lparr>lower = Vec3 3 0 0, upper = Vec3 (- 3) 0 0\<rparr>
             \<lparr>lower = Vec3 3 0 0, upper = Vec3 (- 3) 0 0\<rparr> = (- 9, 9)"
    by (simp add: IntervalDotProduct_def endpointProducts_def)
  have s: "sqrt 9 = 3"
    using real_sqrt_abs [of 3] by simp
  have "\<not> withinBoundingSpheres crossingSpheres 0 2"
    by (simp add: withinBoundingSpheres_def bodyDistance_def d p s crossingSpheres_fields)
  then have "(0, 2) \<notin> set (closeBodies (CheckBoundingSphere crossingSpheres))"
    by (simp add: CheckBoundingSphere_member)
  then show ?thesis
    by (simp add: d p s crossingSpheres_fields inInterval_def between_def vdot_def)
qed

text \<open>
  C3, amended. For \<open>i < j\<close> both bodies of the effector, \<^verbatim>\<open>CheckBoundingSphere\<close> appends the
  pair \<open>(i, j)\<close>, in that order and once, exactly when \<open>\<surd>|lo|\<close> or \<open>\<surd>|hi|\<close> is strictly
  below the sum of the two bounding radii. Here \<open>l\<close> is \<open>r\<^sub>i - r\<^sub>j\<close> at the start of the step
  (\<open>states\<close>) and \<open>u\<close> is \<open>r\<^sub>i - r\<^sub>j\<close> at its end (\<open>futureStates\<close>); \<open>lo\<close> is the sum over
  the three components of the least of the four products \<open>l\<^sub>k l\<^sub>k\<close>, \<open>l\<^sub>k u\<^sub>k\<close>, \<open>u\<^sub>k l\<^sub>k\<close>,
  \<open>u\<^sub>k u\<^sub>k\<close>, and \<open>hi\<close> the sum of the greatest. \<open>\<surd>|hi|\<close> is an upper bound of the norm of
  every vector between \<open>l\<close> and \<open>u\<close>; \<open>\<surd>|lo|\<close> is not a lower bound of it.
\<close>

theorem CheckBoundingSphere_accepts:
  "(let l = (\<lambda>k. k (r_BN_N (states (Bodies e ! i))) - k (r_BN_N (states (Bodies e ! j))));
        u = (\<lambda>k. k (r_BN_N (futureStates (Bodies e ! i)))
                   - k (r_BN_N (futureStates (Bodies e ! j))));
        least = (\<lambda>k. Min {l k * l k, l k * u k, u k * l k, u k * u k});
        greatest = (\<lambda>k. Max {l k * l k, l k * u k, u k * l k, u k * u k});
        radii = boundingRadius (Bodies e ! i) + boundingRadius (Bodies e ! j)
    in ((i, j) \<in> set (closeBodies (CheckBoundingSphere e)) \<longleftrightarrow>
          i < j \<and> int j < numBodies e \<and>
          (sqrt \<bar>least c0 + least c1 + least c2\<bar> < radii
           \<or> sqrt \<bar>greatest c0 + greatest c1 + greatest c2\<bar> < radii))
       \<and> (\<forall>a. min (l c0) (u c0) \<le> c0 a \<and> c0 a \<le> max (l c0) (u c0) \<and>
               min (l c1) (u c1) \<le> c1 a \<and> c1 a \<le> max (l c1) (u c1) \<and>
               min (l c2) (u c2) \<le> c2 a \<and> c2 a \<le> max (l c2) (u c2)
               \<longrightarrow> sqrt (c0 a * c0 a + c1 a * c1 a + c2 a * c2 a)
                     \<le> sqrt \<bar>greatest c0 + greatest c1 + greatest c2\<bar>))
   \<and> distinct (closeBodies (CheckBoundingSphere e))"
proof -
  let ?d = "bodyDifference e i j"
  have sel: "c0 (lower ?d) = c0 (r_BN_N (states (Bodies e ! i))) - c0 (r_BN_N (states (Bodies e ! j)))"
    "c1 (lower ?d) = c1 (r_BN_N (states (Bodies e ! i))) - c1 (r_BN_N (states (Bodies e ! j)))"
    "c2 (lower ?d) = c2 (r_BN_N (states (Bodies e ! i))) - c2 (r_BN_N (states (Bodies e ! j)))"
    "c0 (upper ?d) = c0 (r_BN_N (futureStates (Bodies e ! i)))
                       - c0 (r_BN_N (futureStates (Bodies e ! j)))"
    "c1 (upper ?d) = c1 (r_BN_N (futureStates (Bodies e ! i)))
                       - c1 (r_BN_N (futureStates (Bodies e ! j)))"
    "c2 (upper ?d) = c2 (r_BN_N (futureStates (Bodies e ! i)))
                       - c2 (r_BN_N (futureStates (Bodies e ! j)))"
    by (simp_all add: bodyDifference_def vsub_def)
  have up: "sqrt (c0 a * c0 a + c1 a * c1 a + c2 a * c2 a) \<le> sqrt \<bar>snd (IntervalDotProduct ?d ?d)\<bar>"
    if "min (c0 (lower ?d)) (c0 (upper ?d)) \<le> c0 a \<and> c0 a \<le> max (c0 (lower ?d)) (c0 (upper ?d)) \<and>
        min (c1 (lower ?d)) (c1 (upper ?d)) \<le> c1 a \<and> c1 a \<le> max (c1 (lower ?d)) (c1 (upper ?d)) \<and>
        min (c2 (lower ?d)) (c2 (upper ?d)) \<le> c2 a \<and> c2 a \<le> max (c2 (lower ?d)) (c2 (upper ?d))"
    for a
  proof -
    have "inInterval a ?d" using that unfolding inInterval_def between_def by blast
    then have "vdot a a \<le> snd (IntervalDotProduct ?d ?d)"
      using \<open>inInterval a ?d\<close> by (rule IntervalDotProduct_upper)
    then have "vdot a a \<le> \<bar>snd (IntervalDotProduct ?d ?d)\<bar>" by linarith
    then have "sqrt (vdot a a) \<le> sqrt \<bar>snd (IntervalDotProduct ?d ?d)\<bar>"
      by (rule real_sqrt_le_mono)
    then show ?thesis unfolding vdot_def .
  qed
  have mem: "(i, j) \<in> set (closeBodies (CheckBoundingSphere e)) \<longleftrightarrow>
      i < j \<and> int j < numBodies e \<and>
      (sqrt \<bar>fst (IntervalDotProduct ?d ?d)\<bar>
          < boundingRadius (Bodies e ! i) + boundingRadius (Bodies e ! j)
       \<or> sqrt \<bar>snd (IntervalDotProduct ?d ?d)\<bar>
          < boundingRadius (Bodies e ! i) + boundingRadius (Bodies e ! j))"
    unfolding CheckBoundingSphere_member withinBoundingSpheres_def bodyDistance_def ..
  have "((i, j) \<in> set (closeBodies (CheckBoundingSphere e)) \<longleftrightarrow>
          i < j \<and> int j < numBodies e \<and>
          (sqrt \<bar>fst (IntervalDotProduct ?d ?d)\<bar>
              < boundingRadius (Bodies e ! i) + boundingRadius (Bodies e ! j)
           \<or> sqrt \<bar>snd (IntervalDotProduct ?d ?d)\<bar>
              < boundingRadius (Bodies e ! i) + boundingRadius (Bodies e ! j)))
       \<and> (\<forall>a. min (c0 (lower ?d)) (c0 (upper ?d)) \<le> c0 a \<and> c0 a \<le> max (c0 (lower ?d)) (c0 (upper ?d)) \<and>
        min (c1 (lower ?d)) (c1 (upper ?d)) \<le> c1 a \<and> c1 a \<le> max (c1 (lower ?d)) (c1 (upper ?d)) \<and>
        min (c2 (lower ?d)) (c2 (upper ?d)) \<le> c2 a \<and> c2 a \<le> max (c2 (lower ?d)) (c2 (upper ?d))
               \<longrightarrow> sqrt (c0 a * c0 a + c1 a * c1 a + c2 a * c2 a)
                     \<le> sqrt \<bar>snd (IntervalDotProduct ?d ?d)\<bar>)"
    using mem up by blast
  then show ?thesis
    unfolding IntervalDotProduct_explicit fst_conv snd_conv sel Let_def
    using CheckBoundingSphere_distinct [of e] by (rule conjI)
qed


theorem CheckBoundingSphere_accepts_witness:
  "r_BN_N (states (Bodies crossingSpheres ! 1)) = Vec3 5 0 0 \<and>
   r_BN_N (futureStates (Bodies crossingSpheres ! 1)) = Vec3 1 0 0 \<and>
   (0, 1) \<in> set (closeBodies (CheckBoundingSphere crossingSpheres)) \<and>
   (1, 2) \<notin> set (closeBodies (CheckBoundingSphere crossingSpheres)) \<and>
   Min {(- 5) * (- 5), (- 5) * (- 1), (- 1) * (- 5), (- 1) * (- 1 :: real)} = 1 \<and>
   Min {8 * 8, 8 * (- 2), (- 2) * 8, (- 2) * (- 2 :: real)} = - 16 \<and>
   Max {8 * 8, 8 * (- 2), (- 2) * 8, (- 2) * (- 2 :: real)} = 64 \<and>
   distinct (closeBodies (CheckBoundingSphere crossingSpheres))"
proof -
  have s16: "sqrt 16 = 4" using real_sqrt_abs [of 4] by simp
  have s64: "sqrt 64 = 8" using real_sqrt_abs [of 8] by simp
  note a = CheckBoundingSphere_accepts [of crossingSpheres 0 1, unfolded Let_def]
  note b = CheckBoundingSphere_accepts [of crossingSpheres 1 2, unfolded Let_def]
  have 1: "(0, 1) \<in> set (closeBodies (CheckBoundingSphere crossingSpheres))"
    unfolding a [THEN conjunct1, THEN conjunct1]
    by (simp add: crossingSpheres_fields [unfolded One_nat_def])
  have 2: "(1, 2) \<notin> set (closeBodies (CheckBoundingSphere crossingSpheres))"
    unfolding b [THEN conjunct1, THEN conjunct1]
    by (simp add: crossingSpheres_fields [unfolded One_nat_def] s16 s64)
  show ?thesis
    using 1 2 a [THEN conjunct2]
    by (simp add: crossingSpheres_fields [unfolded One_nat_def])
qed

section \<open>Impulse solver\<close>

text \<open>
  An \<^verbatim>\<open>Eigen::VectorXd\<close> is a list of reals and an \<^verbatim>\<open>Eigen::MatrixXd\<close> the list of its
  rows. A contact is the triple (point on body 1, point on body 2, normal), all inertial.
  The collision state \<open>X_c\<close> of \<open>K\<close> contacts has \<open>8K\<close> entries: the velocity blocks at
  \<open>3k\<close>, the impulse blocks at \<open>3K + 3k\<close>, and for each contact the compression work at
  \<open>6K + 2k\<close> and the restitution work at \<open>6K + 2k + 1\<close>.
\<close>

type_synonym impact = "vec3 \<times> vec3 \<times> vec3"

definition mat_mul_vec :: "real list list \<Rightarrow> real list \<Rightarrow> real list" where
  "mat_mul_vec M v = map (\<lambda>row. sum_list (map2 (*) row v)) M"

definition vec_add :: "real list \<Rightarrow> real list \<Rightarrow> real list" where
  "vec_add a b = map2 (+) a b"

definition vec_scale :: "real \<Rightarrow> real list \<Rightarrow> real list" where
  "vec_scale s a = map (\<lambda>x. s * x) a"

text \<open>The C library's \<^verbatim>\<open>atan2\<close>, on the reals.\<close>

definition atan2 :: "real \<Rightarrow> real \<Rightarrow> real" where
  "atan2 y x =
    (if 0 < x then arctan (y / x)
     else if x < 0 \<and> 0 \<le> y then arctan (y / x) + pi
     else if x < 0 then arctan (y / x) - pi
     else if 0 < y then pi / 2
     else if y < 0 then - (pi / 2)
     else 0)"

text \<open>The test that appears three times in the solver: contact \<open>impNum\<close> has not yet met
  the restitution energy requirement.\<close>

definition energyNotMet :: "real list \<Rightarrow> nat \<Rightarrow> real \<Rightarrow> nat \<Rightarrow> bool" where
  "energyNotMet X_c numImpacts coefRes impNum =
    (X_c ! (numImpacts * 6 + impNum * 2 + 1)
       < - 1 * (coefRes\<^sup>2 * X_c ! (numImpacts * 6 + impNum * 2)))"

text \<open>One pass of the loop body of \<^verbatim>\<open>CollisionStateDerivative\<close>, for contact \<open>impNum\<close>.\<close>

definition contactDerivative ::
  "real list \<Rightarrow> nat \<Rightarrow> real \<Rightarrow> real \<Rightarrow> nat \<Rightarrow> real list \<Rightarrow> real list" where
  "contactDerivative X_c numImpacts coefRes coefFric impNum Xdot_c =
    (let Xdot1 =
       (if energyNotMet X_c numImpacts coefRes impNum
        then (let phi = atan2 (X_c ! (impNum * 3 + 1)) (X_c ! (impNum * 3))
              in Xdot_c[numImpacts * 3 + impNum * 3 := - coefFric * cos phi,
                        numImpacts * 3 + impNum * 3 + 1 := - coefFric * sin phi,
                        numImpacts * 3 + impNum * 3 + 2 := 1])
        else Xdot_c)
     in if X_c ! (impNum * 3 + 2) < 0
        then Xdot1[numImpacts * 6 + impNum * 2 := X_c ! (impNum * 3 + 2)]
        else if energyNotMet X_c numImpacts coefRes impNum
        then Xdot1[numImpacts * 6 + impNum * 2 + 1 := X_c ! (impNum * 3 + 2)]
        else Xdot1)"

text \<open>\<^verbatim>\<open>CollisionStateDerivative\<close>: the loop over the contacts on a zero vector, then the
  head of the result is overwritten by \<open>M_tot\<close> times the impulse-rate segment.\<close>

definition CollisionStateDerivative ::
  "real list \<Rightarrow> impact list \<Rightarrow> real list list \<Rightarrow> real \<Rightarrow> real \<Rightarrow> real list" where
  "CollisionStateDerivative X_c impacts M_tot coefRes coefFric =
    (let numImpacts = length impacts;
         Xdot_c = fold (contactDerivative X_c numImpacts coefRes coefFric) [0 ..< numImpacts]
                       (replicate (length X_c) 0)
     in mat_mul_vec M_tot (take (numImpacts * 3) (drop (numImpacts * 3) Xdot_c))
        @ drop (numImpacts * 3) Xdot_c)"

text \<open>The initial collision state of \<^verbatim>\<open>computeForceTorque\<close>. The velocity block of
  contact \<open>impNum\<close> is the velocity of the contact point on body 1 relative to the one on
  body 2, rotated into the contact frame by \<open>dcm_CN[impNum]\<close>, whose rows are the two
  tangents and then the normal.\<close>

definition contactVelocity_C :: "mat3 \<Rightarrow> dynamicData \<Rightarrow> dynamicData \<Rightarrow> impact \<Rightarrow> vec3" where
  "contactVelocity_C dcm body1Current body2Current imp =
    mat_vec dcm
      (vsub (vadd (v_BN_N body1Current)
                  (mat_vec (dcm_NB body1Current)
                     (mat_vec (omegaTilde_BN_B body1Current)
                        (vsub (mat_vec (dcm_BN body1Current) (fst imp)) (r_BN_N body1Current)))))
            (vadd (v_BN_N body2Current)
                  (mat_vec (dcm_NB body2Current)
                     (mat_vec (omegaTilde_BN_B body2Current)
                        (vsub (mat_vec (dcm_BN body2Current) (fst (snd imp)))
                              (r_BN_N body2Current))))))"

definition seedContact ::
  "mat3 list \<Rightarrow> dynamicData \<Rightarrow> dynamicData \<Rightarrow> impact list \<Rightarrow> nat \<Rightarrow> real list \<Rightarrow> real list" where
  "seedContact dcm_CN body1Current body2Current impacts impNum X_c =
    (let numImpacts = length impacts;
         v = contactVelocity_C (dcm_CN ! impNum) body1Current body2Current (impacts ! impNum);
         X1 = X_c[impNum * 3 := c0 v, impNum * 3 + 1 := c1 v, impNum * 3 + 2 := c2 v]
     in if X1 ! (impNum * 3) < 0
        then X1[numImpacts * 6 + impNum * 2 + 1 := - (1 / 10 ^ 14)]
        else X1[numImpacts * 6 + impNum * 2 + 1 := 1 / 10 ^ 14])"

definition initialCollisionState ::
  "mat3 list \<Rightarrow> dynamicData \<Rightarrow> dynamicData \<Rightarrow> impact list \<Rightarrow> real list" where
  "initialCollisionState dcm_CN body1Current body2Current impacts =
    fold (seedContact dcm_CN body1Current body2Current impacts) [0 ..< length impacts]
         (replicate (length impacts * 8) 0)"

text \<open>One classical Runge-Kutta step of the collision state, of size
  \<open>collisionIntegrationStep\<close>.\<close>

definition vec_div :: "real list \<Rightarrow> real \<Rightarrow> real list" where
  "vec_div a s = map (\<lambda>x. x / s) a"

definition rk4Step ::
  "impact list \<Rightarrow> real list list \<Rightarrow> real \<Rightarrow> real \<Rightarrow> real \<Rightarrow> real list \<Rightarrow> real list" where
  "rk4Step impacts M_tot coefRes coefFric h X_c =
    (let k1 = CollisionStateDerivative X_c impacts M_tot coefRes coefFric;
         k2 = CollisionStateDerivative (vec_add X_c (vec_scale h (vec_div k1 2)))
                impacts M_tot coefRes coefFric;
         k3 = CollisionStateDerivative (vec_add X_c (vec_scale h (vec_div k2 2)))
                impacts M_tot coefRes coefFric;
         k4 = CollisionStateDerivative (vec_add X_c (vec_scale h k3))
                impacts M_tot coefRes coefFric
     in vec_add X_c
          (vec_scale (h / 6)
             (vec_add (vec_add (vec_add k1 (vec_scale 2 k2)) (vec_scale 2 k3)) k4)))"

text \<open>The check after each step: no contact is left that has not met the restitution
  energy requirement.\<close>

definition energyMetAll :: "real list \<Rightarrow> nat \<Rightarrow> real \<Rightarrow> bool" where
  "energyMetAll X_c numImpacts coefRes =
    list_all (\<lambda>impNum. \<not> energyNotMet X_c numImpacts coefRes impNum) [0 ..< numImpacts]"

definition loopMax :: nat where
  "loopMax = 10 ^ 9"

text \<open>The \<^verbatim>\<open>while (!energyMet)\<close> loop. It is entered with \<open>energyMet\<close> false, so the body
  runs at least once; each pass counts itself in \<open>currLoop\<close>, integrates one step, and ends
  the loop when the energy check passes or \<open>currLoop\<close> has gone past \<open>loopMax\<close>. The
  function returns the final \<open>currLoop\<close> with the final state.\<close>

function integrateCollision ::
  "impact list \<Rightarrow> real list list \<Rightarrow> real \<Rightarrow> real \<Rightarrow> real \<Rightarrow> nat \<Rightarrow> real list \<Rightarrow> nat \<times> real list" where
  "integrateCollision impacts M_tot coefRes coefFric h currLoop X_c =
    (let currLoop' = currLoop + 1;
         X_c' = rk4Step impacts M_tot coefRes coefFric h X_c;
         energyMet = energyMetAll X_c' (length impacts) coefRes
     in if energyMet \<or> currLoop' > loopMax then (currLoop', X_c')
        else integrateCollision impacts M_tot coefRes coefFric h currLoop' X_c')"
  by pat_completeness auto
termination
  by (relation "measure (\<lambda>(impacts, M_tot, coefRes, coefFric, h, currLoop, X_c).
                  loopMax + 1 - currLoop)") auto

declare integrateCollision.simps [simp del]

subsection \<open>Where the derivative writes\<close>

definition contactSlots :: "nat \<Rightarrow> nat \<Rightarrow> nat set" where
  "contactSlots K k =
    {K * 3 + k * 3, K * 3 + k * 3 + 1, K * 3 + k * 3 + 2, K * 6 + k * 2, K * 6 + k * 2 + 1}"

lemma length_contactDerivative [simp]:
  "length (contactDerivative X K e mu k Xd) = length Xd"
  by (simp add: contactDerivative_def Let_def)

lemma contactDerivative_other:
  "i \<notin> contactSlots K k \<Longrightarrow> contactDerivative X K e mu k Xd ! i = Xd ! i"
  by (simp add: contactDerivative_def Let_def contactSlots_def)

lemma length_fold_contactDerivative [simp]:
  "length (fold (contactDerivative X K e mu) ks Xd) = length Xd"
  by (induction ks arbitrary: Xd) simp_all

lemma fold_contactDerivative_other:
  "(\<And>k. k \<in> set ks \<Longrightarrow> i \<notin> contactSlots K k) \<Longrightarrow>
    fold (contactDerivative X K e mu) ks Xd ! i = Xd ! i"
  by (induction ks arbitrary: Xd) (simp_all add: contactDerivative_other)

lemma slots_disjoint:
  "j \<noteq> k \<Longrightarrow> k < K \<Longrightarrow> c < 3 \<Longrightarrow> K * 3 + k * 3 + c \<notin> contactSlots K j"
  unfolding contactSlots_def by auto

lemma upt_split_at:
  assumes "k < K"
  shows "[0..<K] = [0..<k] @ k # [Suc k..<K]"
proof -
  have "[0..<K] = [0..<k] @ [k..<K]"
    using upt_add_eq_append [of 0 k "K - k"] assms by simp
  also have "[k..<K] = k # [Suc k..<K]"
    using assms by (rule upt_conv_Cons)
  finally show ?thesis .
qed

lemma contactDerivative_impulse_slot:
  assumes "k < K" and "K * 8 \<le> length Xd" and "c < 3"
  shows "contactDerivative X K e mu k Xd ! (K * 3 + k * 3 + c)
       = (if energyNotMet X K e k
          then [- mu * cos (atan2 (X ! (k * 3 + 1)) (X ! (k * 3))),
                - mu * sin (atan2 (X ! (k * 3 + 1)) (X ! (k * 3))), 1] ! c
          else Xd ! (K * 3 + k * 3 + c))"
proof -
  from assms(3) consider "c = 0" | "c = 1" | "c = 2" by linarith
  then show ?thesis
    using assms(1,2) by cases (simp_all add: contactDerivative_def Let_def)
qed

lemma fold_contactDerivative_impulse_slot:
  assumes "k < K" and "K * 8 \<le> length Xd" and "c < 3"
  shows "fold (contactDerivative X K e mu) [0..<K] Xd ! (K * 3 + k * 3 + c)
       = (if energyNotMet X K e k
          then [- mu * cos (atan2 (X ! (k * 3 + 1)) (X ! (k * 3))),
                - mu * sin (atan2 (X ! (k * 3 + 1)) (X ! (k * 3))), 1] ! c
          else Xd ! (K * 3 + k * 3 + c))"
proof -
  let ?f = "contactDerivative X K e mu"
  let ?i = "K * 3 + k * 3 + c"
  have "fold ?f [0..<K] Xd ! ?i = ?f k (fold ?f [0..<k] Xd) ! ?i"
    unfolding upt_split_at [OF assms(1)] fold_append fold_Cons comp_apply
  proof (rule fold_contactDerivative_other)
    fix j assume "j \<in> set [Suc k..<K]"
    then have "j \<noteq> k" by simp
    then show "?i \<notin> contactSlots K j" using assms by (intro slots_disjoint)
  qed
  moreover have "fold ?f [0..<k] Xd ! ?i = Xd ! ?i"
  proof (rule fold_contactDerivative_other)
    fix j assume "j \<in> set [0..<k]"
    then have "j \<noteq> k" by simp
    then show "?i \<notin> contactSlots K j" using assms by (intro slots_disjoint)
  qed
  ultimately show ?thesis
    using assms by (simp add: contactDerivative_impulse_slot)
qed

lemma CollisionStateDerivative_impulse_slot:
  assumes "k < length impacts" and "length X_c = length impacts * 8"
    and "length M_tot = length impacts * 3" and "c < 3"
  shows "CollisionStateDerivative X_c impacts M_tot e mu ! (length impacts * 3 + k * 3 + c)
       = (if energyNotMet X_c (length impacts) e k
          then [- mu * cos (atan2 (X_c ! (k * 3 + 1)) (X_c ! (k * 3))),
                - mu * sin (atan2 (X_c ! (k * 3 + 1)) (X_c ! (k * 3))), 1] ! c
          else 0)"
proof -
  let ?K = "length impacts"
  let ?Xd = "fold (contactDerivative X_c ?K e mu) [0..<?K] (replicate (length X_c) 0)"
  have len: "length (mat_mul_vec M_tot (take (?K * 3) (drop (?K * 3) ?Xd))) = ?K * 3"
    using assms(3) by (simp add: mat_mul_vec_def)
  have "CollisionStateDerivative X_c impacts M_tot e mu ! (?K * 3 + k * 3 + c)
      = drop (?K * 3) ?Xd ! (k * 3 + c)"
    unfolding CollisionStateDerivative_def Let_def
    using len by (simp add: nth_append add.assoc)
  also have "\<dots> = ?Xd ! (?K * 3 + k * 3 + c)"
    using assms by (simp add: add.assoc)
  also have "\<dots> = (if energyNotMet X_c ?K e k
          then [- mu * cos (atan2 (X_c ! (k * 3 + 1)) (X_c ! (k * 3))),
                - mu * sin (atan2 (X_c ! (k * 3 + 1)) (X_c ! (k * 3))), 1] ! c
          else replicate (length X_c) 0 ! (?K * 3 + k * 3 + c))"
    using assms by (intro fold_contactDerivative_impulse_slot) simp_all
  finally show ?thesis using assms by simp
qed

subsection \<open>A single contact, for the examples\<close>

text \<open>One contact with normal \<open>z\<close>, the identity as inverse-inertia matrix, and body 1
  approaching body 2 with velocity \<open>(-1, 0, -1)\<close> (or \<open>(1, 0, -1)\<close>, sliding the other
  way) while body 2 rests.\<close>

definition idM3 :: "real list list" where
  "idM3 = [[1, 0, 0], [0, 1, 0], [0, 0, 1]]"

definition oneImpact :: "impact list" where
  "oneImpact = [(Vec3 0 0 0, Vec3 0 0 0, Vec3 0 0 1)]"

definition approachState :: "real \<Rightarrow> dynamicData" where
  "approachState vx = (stateAt (Vec3 0 0 0))\<lparr>v_BN_N := Vec3 vx 0 (- 1)\<rparr>"

lemma replicate_numeral: "replicate (numeral k) x = x # replicate (pred_numeral k) x"
  by (simp add: numeral_eq_Suc)

lemma length_oneImpact: "length oneImpact = 1"
  by (simp add: oneImpact_def)

lemmas derivative_defs = CollisionStateDerivative_def contactDerivative_def energyNotMet_def
  atan2_def mat_mul_vec_def idM3_def oneImpact_def power2_eq_square

subsection \<open>Friction in the derivative\<close>

text \<open>
  C4 as stated (friction only during restitution, zero during compression) fails. In the
  state that the solver starts from for a contact approaching with velocity
  \<open>(-1, 0, -1)\<close>, the normal velocity is negative and the compression work is
  accumulating (its rate is \<open>-1\<close>), and the tangential impulse rate is \<open>1/2\<close>, not zero.
\<close>

theorem CollisionStateDerivative_friction_in_compression:
  "[- 1, 0, - 1, 0, 0, 0, 0, - (1 / 10 ^ 14)] ! 2 < (0::real) \<and>
   CollisionStateDerivative [- 1, 0, - 1, 0, 0, 0, 0, - (1 / 10 ^ 14)] oneImpact idM3
       (1 / 2) (1 / 2)
     = [1 / 2, 0, 1, 1 / 2, 0, 1, - 1, 0]"
  by (simp add: derivative_defs)

text \<open>
  C4, amended. For every contact \<open>k\<close>, the impulse rates that
  \<^verbatim>\<open>CollisionStateDerivative\<close> returns are \<open>-\<mu> cos \<phi>\<close> and \<open>-\<mu> sin \<phi>\<close> in the tangent
  plane, with \<open>\<phi> = atan2(v\<^sub>y, v\<^sub>x)\<close>, and 1 along the normal, exactly while the contact has
  not met the energy requirement, \<open>W\<^sub>r(k) < -e\<^sup>2 W\<^sub>c(k)\<close>; once it has, all three are
  zero. The normal velocity plays no part in the test, so friction acts during
  compression as well as during restitution.
\<close>

theorem CollisionStateDerivative_friction:
  assumes "k < length impacts" and "length X_c = length impacts * 8"
    and "length M_tot = length impacts * 3"
  shows "CollisionStateDerivative X_c impacts M_tot coefRes coefFric
             ! (length impacts * 3 + k * 3)
           = (if X_c ! (length impacts * 6 + k * 2 + 1)
                   < - (coefRes\<^sup>2 * X_c ! (length impacts * 6 + k * 2))
              then - coefFric * cos (atan2 (X_c ! (k * 3 + 1)) (X_c ! (k * 3))) else 0)
       \<and> CollisionStateDerivative X_c impacts M_tot coefRes coefFric
             ! (length impacts * 3 + k * 3 + 1)
           = (if X_c ! (length impacts * 6 + k * 2 + 1)
                   < - (coefRes\<^sup>2 * X_c ! (length impacts * 6 + k * 2))
              then - coefFric * sin (atan2 (X_c ! (k * 3 + 1)) (X_c ! (k * 3))) else 0)
       \<and> CollisionStateDerivative X_c impacts M_tot coefRes coefFric
             ! (length impacts * 3 + k * 3 + 2)
           = (if X_c ! (length impacts * 6 + k * 2 + 1)
                   < - (coefRes\<^sup>2 * X_c ! (length impacts * 6 + k * 2))
              then 1 else 0)"
  using CollisionStateDerivative_impulse_slot [OF assms, of 0 coefRes coefFric]
    CollisionStateDerivative_impulse_slot [OF assms, of 1 coefRes coefFric]
    CollisionStateDerivative_impulse_slot [OF assms, of 2 coefRes coefFric]
  by (simp add: energyNotMet_def)

theorem CollisionStateDerivative_friction_witness:
  "0 < length oneImpact \<and>
   length [- 1, 0, - 1, 0, 0, 0, 0, - (1 / 10 ^ 14) :: real] = length oneImpact * 8 \<and>
   length idM3 = length oneImpact * 3 \<and>
   CollisionStateDerivative [- 1, 0, - 1, 0, 0, 0, 0, - (1 / 10 ^ 14)] oneImpact idM3
       (1 / 2) (1 / 2) ! 3 = 1 / 2 \<and>
   CollisionStateDerivative [- 1, 0, - 1, 0, 0, 0, 0, - (1 / 10 ^ 14)] oneImpact idM3
       (1 / 2) (1 / 2) ! 4 = 0 \<and>
   CollisionStateDerivative [- 1, 0, - 1, 0, 0, 0, 0, 1 / 10 ^ 14] oneImpact idM3
       (1 / 2) (1 / 2) ! 3 = 0"
proof -
  have l: "0 < length oneImpact" "length idM3 = length oneImpact * 3"
    by (simp_all add: oneImpact_def idM3_def)
  have x: "length [- 1, 0, - 1, 0, 0, 0, 0, - (1 / 10 ^ 14) :: real] = length oneImpact * 8"
    "length [- 1, 0, - 1, 0, 0, 0, 0, (1 / 10 ^ 14) :: real] = length oneImpact * 8"
    by (simp_all add: oneImpact_def)
  show ?thesis
    using CollisionStateDerivative_friction [OF l(1) x(1) l(2), of "1 / 2" "1 / 2"]
      CollisionStateDerivative_friction [OF l(1) x(2) l(2), of "1 / 2" "1 / 2"] l x
    by (simp add: length_oneImpact atan2_def)
qed

subsection \<open>Seeding of the collision state\<close>

lemma length_seedContact [simp]: "length (seedContact d b1 b2 imps k X) = length X"
  by (simp add: seedContact_def Let_def)

lemma length_fold_seedContact [simp]:
  "length (fold (seedContact d b1 b2 imps) ks X) = length X"
  by (induction ks arbitrary: X) simp_all

lemma seedContact_other:
  "i \<notin> {k * 3, k * 3 + 1, k * 3 + 2, length imps * 6 + k * 2 + 1} \<Longrightarrow>
     seedContact d b1 b2 imps k X ! i = X ! i"
  by (simp add: seedContact_def Let_def)

lemma fold_seedContact_other:
  "(\<And>k. k \<in> set ks \<Longrightarrow> i \<notin> {k * 3, k * 3 + 1, k * 3 + 2, length imps * 6 + k * 2 + 1}) \<Longrightarrow>
     fold (seedContact d b1 b2 imps) ks X ! i = X ! i"
  by (induction ks arbitrary: X) (simp_all add: seedContact_other)

lemma seedContact_restitution:
  "length imps * 8 \<le> length X \<Longrightarrow> k < length imps \<Longrightarrow>
   seedContact d b1 b2 imps k X ! (length imps * 6 + k * 2 + 1) = - (1 / 10 ^ 14) \<or>
   seedContact d b1 b2 imps k X ! (length imps * 6 + k * 2 + 1) = 1 / 10 ^ 14"
  by (simp add: seedContact_def Let_def)

lemmas seed_defs = initialCollisionState_def seedContact_def contactVelocity_C_def mat_vec_def
  vdot_def vadd_def vsub_def approachState_def example_defs oneImpact_def replicate_numeral

text \<open>
  C5 as stated (both work entries seeded, by the sign of the normal velocity) fails. For
  one contact whose velocity block is \<open>(-1, 0, -1)\<close>, normal component negative, the
  compression-work entry \<open>X_c[6]\<close> is 0 and not \<open>-10\<^sup>-\<^sup>1\<^sup>4\<close>: the loop writes the
  restitution-work entry only.
\<close>

theorem initialCollisionState_compression_unseeded:
  "initialCollisionState [mat_id] (approachState (- 1)) (stateAt (Vec3 0 0 0)) oneImpact
     = [- 1, 0, - 1, 0, 0, 0, 0, - (1 / 10 ^ 14)]"
  by (simp add: seed_defs)

text \<open>The sign that the restitution-work entry gets is that of the first entry of the
  velocity block, a tangential component, where \<^verbatim>\<open>CollisionStateDerivative\<close> reads the
  normal velocity from the third: with velocity block \<open>(1, 0, -1)\<close> the contact is
  approaching and the entry is seeded positive.\<close>

lemma initialCollisionState_sign_of_first_entry:
  "initialCollisionState [mat_id] (approachState 1) (stateAt (Vec3 0 0 0)) oneImpact
     = [1, 0, - 1, 0, 0, 0, 0, 1 / 10 ^ 14]"
  by (simp add: seed_defs)

text \<open>
  C5, amended. When \<^verbatim>\<open>computeForceTorque\<close> initialises \<open>X_c\<close> for \<open>K\<close> contacts, for every
  contact \<open>k\<close> the compression-work entry \<open>X_c[6K + 2k]\<close> is left at zero and the
  restitution-work entry \<open>X_c[6K + 2k + 1]\<close> is seeded with \<open>-10\<^sup>-\<^sup>1\<^sup>4\<close> or \<open>+10\<^sup>-\<^sup>1\<^sup>4\<close>.
\<close>

theorem initialCollisionState_work_entries:
  assumes "k < length impacts"
  shows "initialCollisionState dcm_CN body1Current body2Current impacts
             ! (length impacts * 6 + k * 2) = 0
     \<and> (initialCollisionState dcm_CN body1Current body2Current impacts
             ! (length impacts * 6 + k * 2 + 1) = - (1 / 10 ^ 14)
        \<or> initialCollisionState dcm_CN body1Current body2Current impacts
             ! (length impacts * 6 + k * 2 + 1) = 1 / 10 ^ 14)"
proof -
  let ?K = "length impacts"
  let ?f = "seedContact dcm_CN body1Current body2Current impacts"
  let ?X0 = "replicate (?K * 8) (0::real)"
  have "fold ?f [0..<?K] ?X0 ! (?K * 6 + k * 2) = ?X0 ! (?K * 6 + k * 2)"
  proof (rule fold_seedContact_other)
    fix j assume "j \<in> set [0..<?K]"
    then show "?K * 6 + k * 2 \<notin> {j * 3, j * 3 + 1, j * 3 + 2, ?K * 6 + j * 2 + 1}"
      by auto presburger
  qed
  then have a: "initialCollisionState dcm_CN body1Current body2Current impacts
                  ! (?K * 6 + k * 2) = 0"
    using assms by (simp add: initialCollisionState_def)
  let ?i = "?K * 6 + k * 2 + 1"
  have "fold ?f [0..<?K] ?X0 ! ?i = ?f k (fold ?f [0..<k] ?X0) ! ?i"
    unfolding upt_split_at [OF assms] fold_append fold_Cons comp_apply
  proof (rule fold_seedContact_other)
    fix j assume "j \<in> set [Suc k..<?K]"
    then show "?i \<notin> {j * 3, j * 3 + 1, j * 3 + 2, ?K * 6 + j * 2 + 1}"
      by auto
  qed
  moreover have "?f k (fold ?f [0..<k] ?X0) ! ?i = - (1 / 10 ^ 14) \<or>
                 ?f k (fold ?f [0..<k] ?X0) ! ?i = 1 / 10 ^ 14"
    using assms by (intro seedContact_restitution) simp_all
  ultimately show ?thesis using a by (simp add: initialCollisionState_def)
qed

theorem initialCollisionState_work_entries_witness:
  "0 < length oneImpact \<and>
   initialCollisionState [mat_id] (approachState (- 1)) (stateAt (Vec3 0 0 0)) oneImpact ! 6 = 0 \<and>
   initialCollisionState [mat_id] (approachState (- 1)) (stateAt (Vec3 0 0 0)) oneImpact ! 7
     = - (1 / 10 ^ 14)"
proof -
  have l: "0 < length oneImpact" by (simp add: oneImpact_def)
  have v: "initialCollisionState [mat_id] (approachState (- 1)) (stateAt (Vec3 0 0 0)) oneImpact
     = [- 1, 0, - 1, 0, 0, 0, 0, - (1 / 10 ^ 14)]"
    by (simp add: seed_defs)
  show ?thesis
    using initialCollisionState_work_entries [OF l, of "[mat_id]" "approachState (- 1)"
        "stateAt (Vec3 0 0 0)"] l
    by (simp add: v)
qed

subsection \<open>Termination of the collision integration\<close>

lemma integrateCollision_bounds:
  "currLoop \<le> loopMax \<Longrightarrow>
    currLoop < fst (integrateCollision impacts M_tot coefRes coefFric h currLoop X_c) \<and>
    fst (integrateCollision impacts M_tot coefRes coefFric h currLoop X_c) \<le> loopMax + 1 \<and>
    (energyMetAll (snd (integrateCollision impacts M_tot coefRes coefFric h currLoop X_c))
        (length impacts) coefRes
     \<or> fst (integrateCollision impacts M_tot coefRes coefFric h currLoop X_c) = loopMax + 1)"
proof (induction impacts M_tot coefRes coefFric h currLoop X_c rule: integrateCollision.induct)
  case (1 impacts M_tot coefRes coefFric h currLoop X_c)
  let ?X = "rk4Step impacts M_tot coefRes coefFric h X_c"
  show ?case
  proof (cases "energyMetAll ?X (length impacts) coefRes \<or> currLoop + 1 > loopMax")
    case True
    then have "integrateCollision impacts M_tot coefRes coefFric h currLoop X_c
                 = (currLoop + 1, ?X)"
      by (subst integrateCollision.simps) (simp add: Let_def)
    then show ?thesis using True "1.prems" by auto
  next
    case False
    then have eq: "integrateCollision impacts M_tot coefRes coefFric h currLoop X_c
        = integrateCollision impacts M_tot coefRes coefFric h (currLoop + 1) ?X"
      by (subst integrateCollision.simps) (simp add: Let_def)
    from False have le: "currLoop + 1 \<le> loopMax" by simp
    have "currLoop + 1
            < fst (integrateCollision impacts M_tot coefRes coefFric h (currLoop + 1) ?X) \<and>
      fst (integrateCollision impacts M_tot coefRes coefFric h (currLoop + 1) ?X)
        \<le> loopMax + 1 \<and>
      (energyMetAll (snd (integrateCollision impacts M_tot coefRes coefFric h (currLoop + 1) ?X))
        (length impacts) coefRes
       \<or> fst (integrateCollision impacts M_tot coefRes coefFric h (currLoop + 1) ?X)
           = loopMax + 1)"
      using False le by (intro "1.IH") auto
    then show ?thesis unfolding eq by auto
  qed
qed

lemma energyMetAll_iff:
  "energyMetAll X K e \<longleftrightarrow> (\<forall>k<K. - (e\<^sup>2 * X ! (K * 6 + k * 2)) \<le> X ! (K * 6 + k * 2 + 1))"
  by (auto simp: energyMetAll_def energyNotMet_def list_all_iff not_less)

text \<open>
  C6 (impulse-solver termination). The integration loop, started with \<open>currLoop = 0\<close>, is a
  total function: it returns after at least one and at most \<open>10\<^sup>9 + 1\<close> passes, and the
  state it returns either satisfies \<open>W\<^sub>r(k) \<ge> -e\<^sup>2 W\<^sub>c(k)\<close> at every contact or is the
  state reached when the pass count hit \<open>10\<^sup>9 + 1\<close>, the first count past the cap.
\<close>

theorem integrateCollision_terminates:
  "1 \<le> fst (integrateCollision impacts M_tot coefRes coefFric h 0 X_c) \<and>
   fst (integrateCollision impacts M_tot coefRes coefFric h 0 X_c) \<le> 10 ^ 9 + 1 \<and>
   ((\<forall>k < length impacts.
        - (coefRes\<^sup>2 * snd (integrateCollision impacts M_tot coefRes coefFric h 0 X_c)
                            ! (length impacts * 6 + k * 2))
         \<le> snd (integrateCollision impacts M_tot coefRes coefFric h 0 X_c)
             ! (length impacts * 6 + k * 2 + 1))
    \<or> fst (integrateCollision impacts M_tot coefRes coefFric h 0 X_c) = 10 ^ 9 + 1)"
  using integrateCollision_bounds [of 0 impacts M_tot coefRes coefFric h X_c]
  by (simp add: energyMetAll_iff loopMax_def Suc_le_eq)

text \<open>A run of two passes: a frictionless head-on contact with restitution \<open>1/2\<close>,
  integrated with step 1. The first pass ends the compression, the second returns enough
  work.\<close>

lemma rk4Step_first_pass:
  "rk4Step oneImpact idM3 (1 / 2) 0 1 [0, 0, - 1, 0, 0, 0, 0, - (1 / 100000000000000)]
    = [0, 0, 0, 0, 0, 1, - (1 / 2), - (1 / 100000000000000)]"
proof -
  have k1: "CollisionStateDerivative [0, 0, - 1, 0, 0, 0, 0, - (1 / 100000000000000)]
              oneImpact idM3 (1 / 2) 0 = [0, 0, 1, 0, 0, 1, - 1, 0]"
    by (simp add: derivative_defs)
  have k2: "CollisionStateDerivative
              [0, 0, - (1 / 2), 0, 0, 1 / 2, - (1 / 2), - (1 / 100000000000000)]
              oneImpact idM3 (1 / 2) 0 = [0, 0, 1, 0, 0, 1, - (1 / 2), 0]"
    by (simp add: derivative_defs)
  have k3: "CollisionStateDerivative
              [0, 0, - (1 / 2), 0, 0, 1 / 2, - (1 / 4), - (1 / 100000000000000)]
              oneImpact idM3 (1 / 2) 0 = [0, 0, 1, 0, 0, 1, - (1 / 2), 0]"
    by (simp add: derivative_defs)
  have k4: "CollisionStateDerivative [0, 0, 0, 0, 0, 1, - (1 / 2), - (1 / 100000000000000)]
              oneImpact idM3 (1 / 2) 0 = [0, 0, 1, 0, 0, 1, 0, 0]"
    by (simp add: derivative_defs)
  show ?thesis
    by (simp add: rk4Step_def Let_def k1 k2 k3 k4 vec_add_def vec_scale_def vec_div_def)
qed

lemma rk4Step_second_pass:
  "rk4Step oneImpact idM3 (1 / 2) 0 1 [0, 0, 0, 0, 0, 1, - (1 / 2), - (1 / 100000000000000)]
    = [0, 0, 2 / 3, 0, 0, 5 / 3, - (1 / 2), 49999999999997 / 300000000000000]"
proof -
  have k1: "CollisionStateDerivative [0, 0, 0, 0, 0, 1, - (1 / 2), - (1 / 100000000000000)]
              oneImpact idM3 (1 / 2) 0 = [0, 0, 1, 0, 0, 1, 0, 0]"
    by (simp add: derivative_defs)
  have k2: "CollisionStateDerivative
              [0, 0, 1 / 2, 0, 0, 3 / 2, - (1 / 2), - (1 / 100000000000000)]
              oneImpact idM3 (1 / 2) 0 = [0, 0, 1, 0, 0, 1, 0, 1 / 2]"
    by (simp add: derivative_defs)
  have k3: "CollisionStateDerivative
              [0, 0, 1 / 2, 0, 0, 3 / 2, - (1 / 2), 24999999999999 / 100000000000000]
              oneImpact idM3 (1 / 2) 0 = [0, 0, 0, 0, 0, 0, 0, 0]"
    by (simp add: derivative_defs)
  show ?thesis
    by (simp add: rk4Step_def Let_def k1 k2 k3 vec_add_def vec_scale_def vec_div_def)
qed

lemma integrateCollision_two_passes:
  "integrateCollision oneImpact idM3 (1 / 2) 0 1 0
       [0, 0, - 1, 0, 0, 0, 0, - (1 / 100000000000000)]
   = (2, [0, 0, 2 / 3, 0, 0, 5 / 3, - (1 / 2), 49999999999997 / 300000000000000])"
proof -
  have m1: "\<not> energyMetAll [0, 0, 0, 0, 0, 1, - (1 / 2), - (1 / 100000000000000)]
              (length oneImpact) (1 / 2)"
    by (simp add: energyMetAll_def energyNotMet_def length_oneImpact power2_eq_square)
  have m2: "energyMetAll
              [0, 0, 2 / 3, 0, 0, 5 / 3, - (1 / 2), 49999999999997 / 300000000000000]
              (length oneImpact) (1 / 2)"
    by (simp add: energyMetAll_def energyNotMet_def length_oneImpact power2_eq_square)
  have l: "\<not> (0::nat) + 1 > loopMax"
    by (simp add: loopMax_def)
  have s1: "integrateCollision oneImpact idM3 (1 / 2) 0 1 0
              [0, 0, - 1, 0, 0, 0, 0, - (1 / 100000000000000)]
    = integrateCollision oneImpact idM3 (1 / 2) 0 1 (0 + 1)
              [0, 0, 0, 0, 0, 1, - (1 / 2), - (1 / 100000000000000)]"
    by (subst integrateCollision.simps)
      (simp only: Let_def rk4Step_first_pass m1 l if_False simp_thms)
  have s2: "integrateCollision oneImpact idM3 (1 / 2) 0 1 (0 + 1)
              [0, 0, 0, 0, 0, 1, - (1 / 2), - (1 / 100000000000000)]
    = (0 + 1 + 1, [0, 0, 2 / 3, 0, 0, 5 / 3, - (1 / 2), 49999999999997 / 300000000000000])"
    by (subst integrateCollision.simps)
      (simp only: Let_def rk4Step_second_pass m2 if_True simp_thms)
  show ?thesis unfolding s1 s2 by simp
qed

theorem integrateCollision_terminates_witness:
  "integrateCollision oneImpact idM3 (1 / 2) 0 1 0
       [0, 0, - 1, 0, 0, 0, 0, - (1 / 100000000000000)]
     = (2, [0, 0, 2 / 3, 0, 0, 5 / 3, - (1 / 2), 49999999999997 / 300000000000000]) \<and>
   fst (integrateCollision oneImpact idM3 (1 / 2) 0 1 0
       [0, 0, - 1, 0, 0, 0, 0, - (1 / 100000000000000)]) \<le> 10 ^ 9 + 1 \<and>
   - ((1 / 2)\<^sup>2 * snd (integrateCollision oneImpact idM3 (1 / 2) 0 1 0
                          [0, 0, - 1, 0, 0, 0, 0, - (1 / 100000000000000)]) ! 6)
     \<le> snd (integrateCollision oneImpact idM3 (1 / 2) 0 1 0
              [0, 0, - 1, 0, 0, 0, 0, - (1 / 100000000000000)]) ! 7"
  using integrateCollision_terminates [of oneImpact idM3 "1 / 2" 0 1
      "[0, 0, - 1, 0, 0, 0, 0, - (1 / 100000000000000)]"]
  by (simp add: integrateCollision_two_passes length_oneImpact power2_eq_square)

section \<open>Mid phase\<close>

record indivBoundingBox =
  xAxisInterval :: vectorInterval
  yAxisInterval :: vectorInterval
  zAxisInterval :: vectorInterval
  halfSize :: vec3

text \<open>The larger of the absolute values of the two ends of an interval dot product:
  \<^verbatim>\<open>std::max(abs(tempInterval[0]), abs(tempInterval[1]))\<close>.\<close>

definition maxAbsEndpoint :: "real \<times> real \<Rightarrow> real" where
  "maxAbsEndpoint tempInterval = max \<bar>fst tempInterval\<bar> \<bar>snd tempInterval\<bar>"

definition SeparatingPlane ::
  "vectorInterval \<Rightarrow> vectorInterval \<Rightarrow> indivBoundingBox \<Rightarrow> indivBoundingBox \<Rightarrow> bool" where
  "SeparatingPlane displacementInterval candidateInterval box1 box2 =
    (let lhs = maxAbsEndpoint (IntervalDotProduct candidateInterval displacementInterval);
         rhs = c0 (halfSize box1)
                 * maxAbsEndpoint (IntervalDotProduct candidateInterval (xAxisInterval box1))
             + c1 (halfSize box1)
                 * maxAbsEndpoint (IntervalDotProduct candidateInterval (yAxisInterval box1))
             + c2 (halfSize box1)
                 * maxAbsEndpoint (IntervalDotProduct candidateInterval (zAxisInterval box1))
             + c0 (halfSize box2)
                 * maxAbsEndpoint (IntervalDotProduct candidateInterval (xAxisInterval box2))
             + c1 (halfSize box2)
                 * maxAbsEndpoint (IntervalDotProduct candidateInterval (yAxisInterval box2))
             + c2 (halfSize box2)
                 * maxAbsEndpoint (IntervalDotProduct candidateInterval (zAxisInterval box2))
     in lhs > rhs)"

text \<open>What \<^verbatim>\<open>CheckBoundingBox\<close> sets up for cluster \<open>boxIt\<close> of body \<open>b\<close>: the position of the
  cluster centroid now and at the end of the step, and the box with its three swept axes
  and its half sizes scaled by \<open>boundingBoxFF\<close>.\<close>

definition centroidInterval :: "geometry \<Rightarrow> nat \<Rightarrow> vectorInterval" where
  "centroidInterval b boxIt =
    \<lparr> lower = vadd (r_BN_N (states b))
                    (mat_vec (dcm_NB (states b)) (centroid (polyhedron b ! boxIt))),
      upper = vadd (r_BN_N (futureStates b))
                    (mat_vec (dcm_NB (futureStates b)) (centroid (polyhedron b ! boxIt))) \<rparr>"

definition axisInterval :: "geometry \<Rightarrow> vec3 \<Rightarrow> vectorInterval" where
  "axisInterval b axis = \<lparr> lower = mat_vec (dcm_NB (states b)) axis,
                            upper = mat_vec (dcm_NB (futureStates b)) axis \<rparr>"

definition clusterBox :: "real \<Rightarrow> geometry \<Rightarrow> nat \<Rightarrow> indivBoundingBox" where
  "clusterBox ff b boxIt =
    \<lparr> xAxisInterval = axisInterval b (Vec3 1 0 0),
      yAxisInterval = axisInterval b (Vec3 0 1 0),
      zAxisInterval = axisInterval b (Vec3 0 0 1),
      halfSize = vscale (boundingBox (polyhedron b ! boxIt)) ff \<rparr>"

definition displacementInterval :: "geometry \<Rightarrow> geometry \<Rightarrow> nat \<Rightarrow> nat \<Rightarrow> vectorInterval" where
  "displacementInterval b1 b2 boxIt1 boxIt2 =
    \<lparr> lower = vsub (lower (centroidInterval b1 boxIt1)) (lower (centroidInterval b2 boxIt2)),
      upper = vsub (upper (centroidInterval b1 boxIt1)) (upper (centroidInterval b2 boxIt2)) \<rparr>"

text \<open>The fifteen candidate axes in the order the code tries them: the three axes of each
  box, then the nine interval cross products.\<close>

definition candidateAxes :: "indivBoundingBox \<Rightarrow> indivBoundingBox \<Rightarrow> vectorInterval list" where
  "candidateAxes box1 box2 =
    [xAxisInterval box1, yAxisInterval box1, zAxisInterval box1,
     xAxisInterval box2, yAxisInterval box2, zAxisInterval box2,
     IntervalCrossProduct (xAxisInterval box1) (xAxisInterval box2),
     IntervalCrossProduct (xAxisInterval box1) (yAxisInterval box2),
     IntervalCrossProduct (xAxisInterval box1) (zAxisInterval box2),
     IntervalCrossProduct (yAxisInterval box1) (xAxisInterval box2),
     IntervalCrossProduct (yAxisInterval box1) (yAxisInterval box2),
     IntervalCrossProduct (yAxisInterval box1) (zAxisInterval box2),
     IntervalCrossProduct (zAxisInterval box1) (xAxisInterval box2),
     IntervalCrossProduct (zAxisInterval box1) (yAxisInterval box2),
     IntervalCrossProduct (zAxisInterval box1) (zAxisInterval box2)]"

text \<open>A cluster pair is dropped (\<^verbatim>\<open>continue\<close>) as soon as one candidate separates it.\<close>

definition clustersSeparated :: "effector \<Rightarrow> nat \<Rightarrow> nat \<Rightarrow> nat \<Rightarrow> nat \<Rightarrow> bool" where
  "clustersSeparated e bodyA bodyB boxIt1 boxIt2 =
    (let box1 = clusterBox (boundingBoxFF e) (Bodies e ! bodyA) boxIt1;
         box2 = clusterBox (boundingBoxFF e) (Bodies e ! bodyB) boxIt2;
         d = displacementInterval (Bodies e ! bodyA) (Bodies e ! bodyB) boxIt1 boxIt2
     in list_ex (\<lambda>candidate. SeparatingPlane d candidate box1 box2) (candidateAxes box1 box2))"

text \<open>The two loops over the clusters of a close pair, pushing the pairs that no
  candidate separates.\<close>

definition clusterOverlaps :: "effector \<Rightarrow> nat \<Rightarrow> nat \<Rightarrow> (nat \<times> nat) list" where
  "clusterOverlaps e bodyA bodyB =
    fold (\<lambda>boxIt1 ov.
            fold (\<lambda>boxIt2 ov'.
                    if clustersSeparated e bodyA bodyB boxIt1 boxIt2 then ov'
                    else ov' @ [(boxIt1, boxIt2)])
                 [0 ..< length (polyhedron (Bodies e ! bodyB))] ov)
         [0 ..< length (polyhedron (Bodies e ! bodyA))] []"

text \<open>One pass of the outer loop of \<^verbatim>\<open>CheckBoundingBox\<close>: the list is stored on the first
  body of the pair only when it is not empty.\<close>

definition checkBodyPair :: "nat \<times> nat \<Rightarrow> effector \<Rightarrow> effector" where
  "checkBodyPair pair e =
    (let layer1Box = \<lparr> parentIndices = pair,
                       overlaps = clusterOverlaps e (fst pair) (snd pair) \<rparr>
     in if length (overlaps layer1Box) > 0
        then e\<lparr>Bodies := (Bodies e)[fst pair :=
                  (Bodies e ! fst pair)\<lparr>coarseSearchList := layer1Box\<rparr>]\<rparr>
        else e)"

definition CheckBoundingBox :: "effector \<Rightarrow> effector" where
  "CheckBoundingBox e = fold checkBodyPair (closeBodies e) e"

text \<open>Which close pair's list a body ends up with: the last pair of \<open>closeBodies\<close> that has
  the body as its first index and a non-empty list of overlaps.\<close>

definition storesOn :: "effector \<Rightarrow> nat \<Rightarrow> nat \<times> nat \<Rightarrow> bool" where
  "storesOn e A pair \<longleftrightarrow> fst pair = A \<and> clusterOverlaps e (fst pair) (snd pair) \<noteq> []"

definition lastStored :: "effector \<Rightarrow> nat \<Rightarrow> (nat \<times> nat) list \<Rightarrow> (nat \<times> nat) option" where
  "lastStored e A pairs = find (storesOn e A) (rev pairs)"

text \<open>Two effectors have the same geometry when they agree on everything the mid phase
  reads.\<close>

definition sameGeometry :: "effector \<Rightarrow> effector \<Rightarrow> bool" where
  "sameGeometry e e' \<longleftrightarrow>
     boundingBoxFF e' = boundingBoxFF e \<and> closeBodies e' = closeBodies e \<and>
     length (Bodies e') = length (Bodies e) \<and>
     (\<forall>j. states (Bodies e' ! j) = states (Bodies e ! j) \<and>
          futureStates (Bodies e' ! j) = futureStates (Bodies e ! j) \<and>
          polyhedron (Bodies e' ! j) = polyhedron (Bodies e ! j))"

subsection \<open>Two unit boxes, for the examples\<close>

text \<open>Two bodies of bounding radius 10, each with one cluster of half size 1 centred on
  the body, the first at the origin and the second at \<open>(x, 0, 0)\<close>; the pair is close.
  \<open>moveBody\<close> gives a body a new position, as reading its state message does.
  \<open>staleBoxes\<close> is the effector after a mid phase with the boxes overlapping, followed by
  the second body moving away to \<open>x = 5\<close>.\<close>

definition unitCluster :: halfEdge where
  "unitCluster = \<lparr> faceNormals = [], faceTriangles = [], faceCentroids = [],
                    faceBoundingBoxes = [], edgeIndices = [], faceIndices = [],
                    centroid = Vec3 0 0 0, uniqueVertIndices = [],
                    boundingBox = Vec3 1 1 1 \<rparr>"

definition twoBoxes :: "real \<Rightarrow> effector" where
  "twoBoxes x = (effectorOf [bodyAt (Vec3 0 0 0) (Vec3 0 0 0) 10 [unitCluster],
                            bodyAt (Vec3 x 0 0) (Vec3 x 0 0) 10 [unitCluster]])
                \<lparr>closeBodies := [(0, 1)]\<rparr>"

definition moveBody :: "nat \<Rightarrow> vec3 \<Rightarrow> effector \<Rightarrow> effector" where
  "moveBody i r e =
    e\<lparr>Bodies := (Bodies e)[i := (Bodies e ! i)\<lparr>states := stateAt r, futureStates := stateAt r\<rparr>]\<rparr>"

definition staleBoxes :: effector where
  "staleBoxes = moveBody 1 (Vec3 5 0 0) (CheckBoundingBox (twoBoxes 1))"

definition ax :: "real \<Rightarrow> real \<Rightarrow> real \<Rightarrow> vectorInterval" where
  "ax x y z = \<lparr>lower = Vec3 x y z, upper = Vec3 x y z\<rparr>"

definition unitBox :: indivBoundingBox where
  "unitBox = \<lparr>xAxisInterval = ax 1 0 0, yAxisInterval = ax 0 1 0, zAxisInterval = ax 0 0 1,
              halfSize = Vec3 1 1 1\<rparr>"

text \<open>\<open>tiltedBoxes\<close>: body 0 at rest at the origin with the identity attitude and three
  clusters of half size \<open>1/2\<close>, centred at \<open>(0, 0, 0)\<close>, \<open>(-2, -5/2, 0)\<close> and \<open>(2, 0, 0)\<close>;
  body 1 with the attitude \<open>tiltedDcm\<close>, moving from the origin to \<open>(0, 0, 1/2)\<close> over
  the step, with one cluster of half size \<open>1/2\<close> on its centre. The pair is close and
  \<open>boundingBoxFF\<close> is 2, so every box has the scaled half sizes \<open>(1, 1, 1)\<close>; \<open>tiltedBox\<close>
  is the box of body 1.\<close>

definition tiltedDcm :: mat3 where
  "tiltedDcm = Mat3 (Vec3 (3 / 5) (- 4 / 5) 0) (Vec3 (12 / 25) (9 / 25) (- 4 / 5))
                    (Vec3 (16 / 25) (12 / 25) (3 / 5))"

definition smallCluster :: "vec3 \<Rightarrow> halfEdge" where
  "smallCluster ctr = unitCluster\<lparr>centroid := ctr, boundingBox := Vec3 (1 / 2) (1 / 2) (1 / 2)\<rparr>"

definition tiltedBoxes :: effector where
  "tiltedBoxes =
    (effectorOf
       [bodyAt (Vec3 0 0 0) (Vec3 0 0 0) 10
          [smallCluster (Vec3 0 0 0), smallCluster (Vec3 (- 2) (- 5 / 2) 0),
           smallCluster (Vec3 2 0 0)],
        (bodyAt (Vec3 0 0 0) (Vec3 0 0 (1 / 2)) 10 [smallCluster (Vec3 0 0 0)])
          \<lparr>states := (stateAt (Vec3 0 0 0))
              \<lparr>v_BN_N := Vec3 0 0 (1 / 2), dcm_NB := tiltedDcm,
               dcm_BN := Mat3 (Vec3 (3 / 5) (12 / 25) (16 / 25)) (Vec3 (- 4 / 5) (9 / 25) (12 / 25))
                              (Vec3 0 (- 4 / 5) (3 / 5))\<rparr>,
           futureStates := (stateAt (Vec3 0 0 (1 / 2)))
              \<lparr>v_BN_N := Vec3 0 0 (1 / 2), dcm_NB := tiltedDcm,
               dcm_BN := Mat3 (Vec3 (3 / 5) (12 / 25) (16 / 25)) (Vec3 (- 4 / 5) (9 / 25) (12 / 25))
                              (Vec3 0 (- 4 / 5) (3 / 5))\<rparr>\<rparr>])
    \<lparr>closeBodies := [(0, 1)], boundingBoxFF := 2\<rparr>"

definition tiltedBox :: indivBoundingBox where
  "tiltedBox = \<lparr>xAxisInterval = ax (3 / 5) (12 / 25) (16 / 25),
                yAxisInterval = ax (- 4 / 5) (9 / 25) (12 / 25),
                zAxisInterval = ax 0 (- 4 / 5) (3 / 5), halfSize = Vec3 1 1 1\<rparr>"

subsection \<open>What the mid phase stores\<close>

lemma fold_skip_filter:
  "fold (\<lambda>x acc. if P x then acc else acc @ [f x]) xs acc
     = acc @ map f (filter (\<lambda>x. \<not> P x) xs)"
  by (induction xs arbitrary: acc) auto

lemma clusterOverlaps_list:
  "clusterOverlaps e A B =
     concat (map (\<lambda>p. map (Pair p) (filter (\<lambda>q. \<not> clustersSeparated e A B p q)
                                        [0 ..< length (polyhedron (Bodies e ! B))]))
                 [0 ..< length (polyhedron (Bodies e ! A))])"
  unfolding clusterOverlaps_def fold_skip_filter
  by (simp add: fold_push_concat)

lemma sameGeometry_refl: "sameGeometry e e"
  by (simp add: sameGeometry_def)

lemma sameGeometry_trans: "sameGeometry e e' \<Longrightarrow> sameGeometry e' e'' \<Longrightarrow> sameGeometry e e''"
  by (simp add: sameGeometry_def)

lemma clustersSeparated_cong:
  "sameGeometry e e' \<Longrightarrow> clustersSeparated e' A B p q = clustersSeparated e A B p q"
  by (simp add: sameGeometry_def clustersSeparated_def clusterBox_def displacementInterval_def
      centroidInterval_def axisInterval_def)

lemma clusterOverlaps_cong:
  "sameGeometry e e' \<Longrightarrow> clusterOverlaps e' A B = clusterOverlaps e A B"
  unfolding clusterOverlaps_def
  by (simp add: clustersSeparated_cong) (simp add: sameGeometry_def)

lemma storesOn_cong: "sameGeometry e e' \<Longrightarrow> storesOn e' A pair = storesOn e A pair"
  by (simp add: storesOn_def clusterOverlaps_cong)

lemma nth_update_field:
  assumes "\<And>x. f (g x) = f x"
  shows "f ((xs[i := g (xs ! i)]) ! j) = f (xs ! j)"
proof (cases "i < length xs")
  case True
  then show ?thesis by (cases "i = j") (simp_all add: assms)
next
  case False
  then have "xs[i := g (xs ! i)] = xs" by (simp add: list_update_beyond)
  then show ?thesis by simp
qed

lemma sameGeometry_checkBodyPair: "sameGeometry e (checkBodyPair pair e)"
proof (cases "clusterOverlaps e (fst pair) (snd pair) = []")
  case True
  then show ?thesis by (simp add: checkBodyPair_def sameGeometry_refl)
next
  case False
  let ?g = "\<lambda>b. b\<lparr>coarseSearchList :=
                     \<lparr>parentIndices = pair,
                        overlaps = clusterOverlaps e (fst pair) (snd pair)\<rparr>\<rparr>"
  have eq: "checkBodyPair pair e
              = e\<lparr>Bodies := (Bodies e)[fst pair := ?g (Bodies e ! fst pair)]\<rparr>"
    using False by (simp add: checkBodyPair_def)
  have "states ((Bodies e)[fst pair := ?g (Bodies e ! fst pair)] ! j) = states (Bodies e ! j)"
    "futureStates ((Bodies e)[fst pair := ?g (Bodies e ! fst pair)] ! j)
       = futureStates (Bodies e ! j)"
    "polyhedron ((Bodies e)[fst pair := ?g (Bodies e ! fst pair)] ! j)
       = polyhedron (Bodies e ! j)"
    for j
    by (rule nth_update_field, simp)+
  then show ?thesis
    unfolding eq sameGeometry_def by simp
qed

lemma sameGeometry_fold: "sameGeometry e (fold checkBodyPair xs e)"
proof (induction xs arbitrary: e)
  case Nil
  show ?case by (simp add: sameGeometry_refl)
next
  case (Cons x xs)
  show ?case
    using sameGeometry_trans [OF sameGeometry_checkBodyPair Cons.IH] by simp
qed

lemma coarseSearchList_checkBodyPair:
  assumes "A < length (Bodies e)"
  shows "coarseSearchList (Bodies (checkBodyPair pair e) ! A) =
     (if storesOn e A pair
      then \<lparr>parentIndices = pair, overlaps = clusterOverlaps e (fst pair) (snd pair)\<rparr>
      else coarseSearchList (Bodies e ! A))"
proof (cases "clusterOverlaps e (fst pair) (snd pair) = []")
  case True
  then show ?thesis by (simp add: checkBodyPair_def storesOn_def)
next
  case False
  then show ?thesis
    using assms by (cases "fst pair = A") (simp_all add: checkBodyPair_def storesOn_def)
qed

lemma coarseSearchList_fold:
  assumes "A < length (Bodies e)"
  shows "coarseSearchList (Bodies (fold checkBodyPair pairs e) ! A) =
     (case lastStored e A pairs of
        None \<Rightarrow> coarseSearchList (Bodies e ! A)
      | Some pair \<Rightarrow>
          \<lparr>parentIndices = pair, overlaps = clusterOverlaps e (fst pair) (snd pair)\<rparr>)"
proof (induction pairs rule: rev_induct)
  case Nil
  show ?case by (simp add: lastStored_def)
next
  case (snoc pair pairs)
  let ?e' = "fold checkBodyPair pairs e"
  have sg: "sameGeometry e ?e'" by (rule sameGeometry_fold)
  have len: "A < length (Bodies ?e')"
    using sg assms by (simp add: sameGeometry_def)
  have ov: "clusterOverlaps ?e' (fst pair) (snd pair) = clusterOverlaps e (fst pair) (snd pair)"
    using sg by (rule clusterOverlaps_cong)
  have step: "coarseSearchList (Bodies (fold checkBodyPair (pairs @ [pair]) e) ! A) =
     (if storesOn e A pair
      then \<lparr>parentIndices = pair, overlaps = clusterOverlaps e (fst pair) (snd pair)\<rparr>
      else coarseSearchList (Bodies ?e' ! A))"
    using coarseSearchList_checkBodyPair [OF len, of pair]
    unfolding ov storesOn_cong [OF sg] by simp
  show ?case
  proof (cases "storesOn e A pair")
    case True
    then have "lastStored e A (pairs @ [pair]) = Some pair"
      by (simp add: lastStored_def)
    then show ?thesis using True step by simp
  next
    case False
    then have "lastStored e A (pairs @ [pair]) = lastStored e A pairs"
      by (simp add: lastStored_def)
    then show ?thesis using False step snoc.IH by simp
  qed
qed

subsection \<open>The two unit boxes, evaluated\<close>

lemma twoBoxes_body0: "Bodies (twoBoxes x) ! 0 = bodyAt (Vec3 0 0 0) (Vec3 0 0 0) 10 [unitCluster]"
  and twoBoxes_body1:
    "Bodies (twoBoxes x) ! Suc 0 = bodyAt (Vec3 x 0 0) (Vec3 x 0 0) 10 [unitCluster]"
  and twoBoxes_FF: "boundingBoxFF (twoBoxes x) = 1"
  and twoBoxes_close: "closeBodies (twoBoxes x) = [(0, 1)]"
  by (simp_all add: twoBoxes_def effectorOf_def)

lemma clusterBox_unit: "clusterBox 1 (bodyAt r r' radius [unitCluster]) 0 = unitBox"
  by (simp add: clusterBox_def axisInterval_def bodyAt_def stateAt_def mat_id_def mat_vec_def
      vdot_def unitCluster_def vscale_def unitBox_def ax_def)

lemma displacement_unit:
  "displacementInterval (bodyAt (Vec3 0 0 0) (Vec3 0 0 0) 10 [unitCluster])
                        (bodyAt (Vec3 x 0 0) (Vec3 x 0 0) 10 [unitCluster]) 0 0
   = ax (- x) 0 0"
  by (simp add: displacementInterval_def centroidInterval_def bodyAt_def stateAt_def mat_id_def
      mat_vec_def vdot_def unitCluster_def vadd_def vsub_def ax_def)

lemma candidateAxes_unit:
  "candidateAxes unitBox unitBox =
     [ax 1 0 0, ax 0 1 0, ax 0 0 1, ax 1 0 0, ax 0 1 0, ax 0 0 1,
      ax 0 0 0, ax 0 0 1, ax 0 (- 1) 0, ax 0 0 (- 1), ax 0 0 0, ax 1 0 0,
      ax 0 1 0, ax (- 1) 0 0, ax 0 0 0]"
  by (simp add: candidateAxes_def unitBox_def ax_def IntervalCrossProduct_def
      endpointProducts_def)

lemma IntervalDotProduct_ax:
  "IntervalDotProduct (ax a b c) (ax x y z)
     = (a * x + b * y + c * z, a * x + b * y + c * z)"
  by (simp add: IntervalDotProduct_def endpointProducts_def ax_def)

lemma SeparatingPlane_unit:
  "SeparatingPlane (ax (- x) 0 0) (ax a b c) unitBox unitBox
     \<longleftrightarrow> \<bar>a * x\<bar> > 2 * (\<bar>a\<bar> + \<bar>b\<bar> + \<bar>c\<bar>)"
  by (simp add: SeparatingPlane_def unitBox_def IntervalDotProduct_ax maxAbsEndpoint_def)
    linarith

lemmas twoBoxes_eval = clustersSeparated_def twoBoxes_body0 twoBoxes_body1 twoBoxes_FF
  clusterBox_unit displacement_unit candidateAxes_unit SeparatingPlane_unit

lemma twoBoxes_near: "\<not> clustersSeparated (twoBoxes 1) 0 1 0 0"
  by (simp add: twoBoxes_eval)

lemma twoBoxes_far: "clustersSeparated (twoBoxes 5) 0 1 0 0"
  by (simp add: twoBoxes_eval)

lemma clusterOverlaps_near: "clusterOverlaps (twoBoxes 1) 0 1 = [(0, 0)]"
  using twoBoxes_near by (simp add: clusterOverlaps_def twoBoxes_body0 twoBoxes_body1 bodyAt_def)

lemma clusterOverlaps_far: "clusterOverlaps (twoBoxes 5) 0 1 = []"
  using twoBoxes_far by (simp add: clusterOverlaps_def twoBoxes_body0 twoBoxes_body1 bodyAt_def)

lemma CheckBoundingBox_near:
  "CheckBoundingBox (twoBoxes 1) =
     (twoBoxes 1)\<lparr>Bodies := (Bodies (twoBoxes 1))[0 := (Bodies (twoBoxes 1) ! 0)
        \<lparr>coarseSearchList := \<lparr>parentIndices = (0, 1), overlaps = [(0, 0)]\<rparr>\<rparr>]\<rparr>"
  by (simp add: CheckBoundingBox_def twoBoxes_close checkBodyPair_def
      clusterOverlaps_near [unfolded One_nat_def])

lemma staleBoxes_Bodies:
  "Bodies staleBoxes =
     [(bodyAt (Vec3 0 0 0) (Vec3 0 0 0) 10 [unitCluster])
         \<lparr>coarseSearchList := \<lparr>parentIndices = (0, 1), overlaps = [(0, 0)]\<rparr>\<rparr>,
      bodyAt (Vec3 5 0 0) (Vec3 5 0 0) 10 [unitCluster]]"
  unfolding staleBoxes_def CheckBoundingBox_near moveBody_def
  by (simp add: twoBoxes_def effectorOf_def bodyAt_def)

lemma staleBoxes_sameGeometry: "sameGeometry (twoBoxes 5) staleBoxes"
  unfolding sameGeometry_def staleBoxes_Bodies
  apply (simp add: staleBoxes_def CheckBoundingBox_near moveBody_def)
  apply (simp add: twoBoxes_def effectorOf_def bodyAt_def nth_Cons split: nat.split)
  done

lemma staleBoxes_close: "closeBodies staleBoxes = [(0, 1)]"
  by (simp add: staleBoxes_def CheckBoundingBox_near moveBody_def twoBoxes_close)

lemma staleBoxes_separated: "clustersSeparated staleBoxes 0 1 0 0"
  using twoBoxes_far clustersSeparated_cong [OF staleBoxes_sameGeometry] by simp

lemma staleBoxes_overlaps: "clusterOverlaps staleBoxes 0 1 = []"
  using clusterOverlaps_far clusterOverlaps_cong [OF staleBoxes_sameGeometry] by simp

subsection \<open>The mid phase in arithmetic\<close>

lemma IntervalCrossProduct_explicit:
  "IntervalCrossProduct A B =
    \<lparr>lower = Vec3 (Min {c1 (lower A) * c2 (lower B), c1 (lower A) * c2 (upper B),
                        c1 (upper A) * c2 (lower B), c1 (upper A) * c2 (upper B)}
                   - Min {c2 (lower A) * c1 (lower B), c2 (lower A) * c1 (upper B),
                          c2 (upper A) * c1 (lower B), c2 (upper A) * c1 (upper B)})
                  (Min {c2 (lower A) * c0 (lower B), c2 (lower A) * c0 (upper B),
                        c2 (upper A) * c0 (lower B), c2 (upper A) * c0 (upper B)}
                   - Min {c0 (lower A) * c2 (lower B), c0 (lower A) * c2 (upper B),
                          c0 (upper A) * c2 (lower B), c0 (upper A) * c2 (upper B)})
                  (Min {c0 (lower A) * c1 (lower B), c0 (lower A) * c1 (upper B),
                        c0 (upper A) * c1 (lower B), c0 (upper A) * c1 (upper B)}
                   - Min {c1 (lower A) * c0 (lower B), c1 (lower A) * c0 (upper B),
                          c1 (upper A) * c0 (lower B), c1 (upper A) * c0 (upper B)}),
     upper = Vec3 (Max {c1 (lower A) * c2 (lower B), c1 (lower A) * c2 (upper B),
                        c1 (upper A) * c2 (lower B), c1 (upper A) * c2 (upper B)}
                   - Max {c2 (lower A) * c1 (lower B), c2 (lower A) * c1 (upper B),
                          c2 (upper A) * c1 (lower B), c2 (upper A) * c1 (upper B)})
                  (Max {c2 (lower A) * c0 (lower B), c2 (lower A) * c0 (upper B),
                        c2 (upper A) * c0 (lower B), c2 (upper A) * c0 (upper B)}
                   - Max {c0 (lower A) * c2 (lower B), c0 (lower A) * c2 (upper B),
                          c0 (upper A) * c2 (lower B), c0 (upper A) * c2 (upper B)})
                  (Max {c0 (lower A) * c1 (lower B), c0 (lower A) * c1 (upper B),
                        c0 (upper A) * c1 (lower B), c0 (upper A) * c1 (upper B)}
                   - Max {c1 (lower A) * c0 (lower B), c1 (lower A) * c0 (upper B),
                          c1 (upper A) * c0 (lower B), c1 (upper A) * c0 (upper B)})\<rparr>"
  unfolding IntervalCrossProduct_def endpointProducts_def Let_def min_element_four
    max_element_four ..

lemma LetI: "(\<And>x. x = t \<Longrightarrow> f x) \<Longrightarrow> Let t f"
  by (simp add: Let_def)

lemma LetE: "Let t f \<Longrightarrow> (\<And>x. x = t \<Longrightarrow> f x \<Longrightarrow> R) \<Longrightarrow> R"
  by (simp add: Let_def)

text \<open>The mid phase in arithmetic: the functions of the statement of C2 are those of the
  model.\<close>

lemma overlaps_in_arithmetic:
  fixes e :: effector
  assumes p: "prods = (\<lambda>(k1 :: vec3 \<Rightarrow> real) (k2 :: vec3 \<Rightarrow> real) (a :: vectorInterval) (b :: vectorInterval). {k1 (lower a) * k2 (lower b), k1 (lower a) * k2 (upper b),
                                      k1 (upper a) * k2 (lower b), k1 (upper a) * k2 (upper b)})"
    and i: "idot = (\<lambda>a b. (Min (prods c0 c0 a b) + Min (prods c1 c1 a b) + Min (prods c2 c2 a b),
                           Max (prods c0 c0 a b) + Max (prods c1 c1 a b) + Max (prods c2 c2 a b)))"
    and c: "icross = (\<lambda>a b.
               \<lparr>lower = Vec3 (Min (prods c1 c2 a b) - Min (prods c2 c1 a b))
                             (Min (prods c2 c0 a b) - Min (prods c0 c2 a b))
                             (Min (prods c0 c1 a b) - Min (prods c1 c0 a b)),
                upper = Vec3 (Max (prods c1 c2 a b) - Max (prods c2 c1 a b))
                             (Max (prods c2 c0 a b) - Max (prods c0 c2 a b))
                             (Max (prods c0 c1 a b) - Max (prods c1 c0 a b))\<rparr>)"
    and r: "reach = (\<lambda>axis v. max \<bar>fst (idot axis v)\<bar> \<bar>snd (idot axis v)\<bar>)"
    and t: "turned = (\<lambda>m v. Vec3 (c0 (row0 m) * c0 v + c1 (row0 m) * c1 v + c2 (row0 m) * c2 v)
                                (c0 (row1 m) * c0 v + c1 (row1 m) * c1 v + c2 (row1 m) * c2 v)
                                (c0 (row2 m) * c0 v + c1 (row2 m) * c1 v + c2 (row2 m) * c2 v))"
    and s: "swept = (\<lambda>(b :: geometry) v. \<lparr>lower = turned (dcm_NB (states b)) v,
                             upper = turned (dcm_NB (futureStates b)) v\<rparr>)"
    and m: "centre = (\<lambda>(st :: geometry \<Rightarrow> dynamicData) (b :: geometry) boxIt.
               Vec3 (c0 (r_BN_N (st b)) + c0 (turned (dcm_NB (st b)) (centroid (polyhedron b ! boxIt))))
                    (c1 (r_BN_N (st b)) + c1 (turned (dcm_NB (st b)) (centroid (polyhedron b ! boxIt))))
                    (c2 (r_BN_N (st b)) + c2 (turned (dcm_NB (st b)) (centroid (polyhedron b ! boxIt)))))"
    and d: "offset = (\<lambda>b1 b2 boxIt1 boxIt2.
               \<lparr>lower = Vec3 (c0 (centre states b1 boxIt1) - c0 (centre states b2 boxIt2))
                             (c1 (centre states b1 boxIt1) - c1 (centre states b2 boxIt2))
                             (c2 (centre states b1 boxIt1) - c2 (centre states b2 boxIt2)),
                upper = Vec3 (c0 (centre futureStates b1 boxIt1) - c0 (centre futureStates b2 boxIt2))
                             (c1 (centre futureStates b1 boxIt1) - c1 (centre futureStates b2 boxIt2))
                             (c2 (centre futureStates b1 boxIt1) - c2 (centre futureStates b2 boxIt2))\<rparr>)"
    and x: "separates = (\<lambda>b1 b2 boxIt1 boxIt2 axis.
               reach axis (offset b1 b2 boxIt1 boxIt2)
                 > c0 (boundingBox (polyhedron b1 ! boxIt1)) * boundingBoxFF e
                     * reach axis (swept b1 (Vec3 1 0 0))
                 + c1 (boundingBox (polyhedron b1 ! boxIt1)) * boundingBoxFF e
                     * reach axis (swept b1 (Vec3 0 1 0))
                 + c2 (boundingBox (polyhedron b1 ! boxIt1)) * boundingBoxFF e
                     * reach axis (swept b1 (Vec3 0 0 1))
                 + c0 (boundingBox (polyhedron b2 ! boxIt2)) * boundingBoxFF e
                     * reach axis (swept b2 (Vec3 1 0 0))
                 + c1 (boundingBox (polyhedron b2 ! boxIt2)) * boundingBoxFF e
                     * reach axis (swept b2 (Vec3 0 1 0))
                 + c2 (boundingBox (polyhedron b2 ! boxIt2)) * boundingBoxFF e
                     * reach axis (swept b2 (Vec3 0 0 1)))"
    and a: "axes = (\<lambda>b1 b2.
               [swept b1 (Vec3 1 0 0), swept b1 (Vec3 0 1 0), swept b1 (Vec3 0 0 1),
                swept b2 (Vec3 1 0 0), swept b2 (Vec3 0 1 0), swept b2 (Vec3 0 0 1),
                icross (swept b1 (Vec3 1 0 0)) (swept b2 (Vec3 1 0 0)),
                icross (swept b1 (Vec3 1 0 0)) (swept b2 (Vec3 0 1 0)),
                icross (swept b1 (Vec3 1 0 0)) (swept b2 (Vec3 0 0 1)),
                icross (swept b1 (Vec3 0 1 0)) (swept b2 (Vec3 1 0 0)),
                icross (swept b1 (Vec3 0 1 0)) (swept b2 (Vec3 0 1 0)),
                icross (swept b1 (Vec3 0 1 0)) (swept b2 (Vec3 0 0 1)),
                icross (swept b1 (Vec3 0 0 1)) (swept b2 (Vec3 1 0 0)),
                icross (swept b1 (Vec3 0 0 1)) (swept b2 (Vec3 0 1 0)),
                icross (swept b1 (Vec3 0 0 1)) (swept b2 (Vec3 0 0 1))])"
    and k: "kept = (\<lambda>bodyA bodyB.
               concat (map (\<lambda>boxIt1. map (Pair boxIt1)
                              (filter (\<lambda>boxIt2. \<not> (\<exists>axis\<in>set (axes (Bodies e ! bodyA) (Bodies e ! bodyB)).
                                          separates (Bodies e ! bodyA) (Bodies e ! bodyB)
                                            boxIt1 boxIt2 axis))
                                 [0 ..< length (polyhedron (Bodies e ! bodyB))]))
                           [0 ..< length (polyhedron (Bodies e ! bodyA))]))"
  shows "kept = clusterOverlaps e"
proof -
  have i': "idot = IntervalDotProduct"
    unfolding i p by (intro ext) (simp only: IntervalDotProduct_explicit)
  have c': "icross = IntervalCrossProduct"
    unfolding c p by (intro ext) (simp only: IntervalCrossProduct_explicit)
  have r': "reach = (\<lambda>axis v. maxAbsEndpoint (IntervalDotProduct axis v))"
    unfolding r i' maxAbsEndpoint_def ..
  have t': "turned = mat_vec"
    unfolding t by (intro ext) (simp add: mat_vec_def vdot_def)
  have s': "swept = axisInterval"
    unfolding s t' by (intro ext) (simp add: axisInterval_def)
  have d': "offset = displacementInterval"
    unfolding d m t'
    by (intro ext) (simp add: displacementInterval_def centroidInterval_def vadd_def vsub_def)
  have x': "separates b1 b2 boxIt1 boxIt2 axis
              = SeparatingPlane (displacementInterval b1 b2 boxIt1 boxIt2) axis
                  (clusterBox (boundingBoxFF e) b1 boxIt1) (clusterBox (boundingBoxFF e) b2 boxIt2)"
    for b1 b2 boxIt1 boxIt2 axis
    unfolding x r' d' s'
    by (simp add: SeparatingPlane_def clusterBox_def vscale_def Let_def)
  have a': "axes b1 b2 = candidateAxes (clusterBox ff b1 boxIt1) (clusterBox ff' b2 boxIt2)"
    for b1 b2 ff ff' boxIt1 boxIt2
    unfolding a c' s' by (simp add: candidateAxes_def clusterBox_def)
  have sep: "(\<exists>axis\<in>set (axes (Bodies e ! bodyA) (Bodies e ! bodyB)).
                separates (Bodies e ! bodyA) (Bodies e ! bodyB) boxIt1 boxIt2 axis)
             = clustersSeparated e bodyA bodyB boxIt1 boxIt2" for bodyA bodyB boxIt1 boxIt2
    unfolding clustersSeparated_def Let_def list_ex_iff x'
      a' [of _ _ "boundingBoxFF e" boxIt1 "boundingBoxFF e" boxIt2] ..
  show ?thesis
    unfolding k sep by (intro ext) (simp only: clusterOverlaps_list)
qed

subsection \<open>The tilted boxes, evaluated\<close>

lemma tiltedBoxes_fields:
  "boundingBoxFF tiltedBoxes = 2" "closeBodies tiltedBoxes = [(0, 1)]"
  "length (Bodies tiltedBoxes) = 2"
  "length (polyhedron (Bodies tiltedBoxes ! 0)) = 3"
  "length (polyhedron (Bodies tiltedBoxes ! Suc 0)) = 1"
  by (simp_all add: tiltedBoxes_def effectorOf_def bodyAt_def)

lemma tiltedBoxes_boxes:
  "clusterBox 2 (Bodies tiltedBoxes ! 0) 0 = unitBox"
  "clusterBox 2 (Bodies tiltedBoxes ! 0) (Suc 0) = unitBox"
  "clusterBox 2 (Bodies tiltedBoxes ! 0) 2 = unitBox"
  "clusterBox 2 (Bodies tiltedBoxes ! Suc 0) 0 = tiltedBox"
  by (simp_all add: tiltedBoxes_def effectorOf_def bodyAt_def stateAt_def smallCluster_def
      unitCluster_def clusterBox_def axisInterval_def mat_id_def tiltedDcm_def mat_vec_def
      vdot_def vscale_def unitBox_def tiltedBox_def ax_def)

lemma tiltedBoxes_displacements:
  "displacementInterval (Bodies tiltedBoxes ! 0) (Bodies tiltedBoxes ! Suc 0) 0 0
     = \<lparr>lower = Vec3 0 0 0, upper = Vec3 0 0 (- 1 / 2)\<rparr>"
  "displacementInterval (Bodies tiltedBoxes ! 0) (Bodies tiltedBoxes ! Suc 0) (Suc 0) 0
     = \<lparr>lower = Vec3 (- 2) (- 5 / 2) 0, upper = Vec3 (- 2) (- 5 / 2) (- 1 / 2)\<rparr>"
  "displacementInterval (Bodies tiltedBoxes ! 0) (Bodies tiltedBoxes ! Suc 0) 2 0
     = \<lparr>lower = Vec3 2 0 0, upper = Vec3 2 0 (- 1 / 2)\<rparr>"
  by (simp_all add: tiltedBoxes_def effectorOf_def bodyAt_def stateAt_def smallCluster_def
      unitCluster_def displacementInterval_def centroidInterval_def mat_id_def tiltedDcm_def
      mat_vec_def vdot_def vadd_def vsub_def)

lemma candidateAxes_tilted:
  "candidateAxes unitBox tiltedBox =
     [ax 1 0 0, ax 0 1 0, ax 0 0 1,
      ax (3 / 5) (12 / 25) (16 / 25), ax (- 4 / 5) (9 / 25) (12 / 25), ax 0 (- 4 / 5) (3 / 5),
      ax 0 (- 16 / 25) (12 / 25), ax 0 (- 12 / 25) (9 / 25), ax 0 (- 3 / 5) (- 4 / 5),
      ax (16 / 25) 0 (- 3 / 5), ax (12 / 25) 0 (4 / 5), ax (3 / 5) 0 0,
      ax (- 12 / 25) (3 / 5) 0, ax (- 9 / 25) (- 4 / 5) 0, ax (4 / 5) 0 0]"
  by (simp add: candidateAxes_def unitBox_def tiltedBox_def ax_def IntervalCrossProduct_def
      endpointProducts_def)

lemma IntervalDotProduct_ax_swept:
  "IntervalDotProduct (ax a b c) \<lparr>lower = Vec3 x y z, upper = Vec3 x' y' z'\<rparr>
     = (min (a * x) (a * x') + min (b * y) (b * y') + min (c * z) (c * z'),
        max (a * x) (a * x') + max (b * y) (b * y') + max (c * z) (c * z'))"
  by (simp add: IntervalDotProduct_def endpointProducts_def ax_def min.commute max.commute)

lemma SeparatingPlane_tilted:
  "SeparatingPlane \<lparr>lower = Vec3 x y z, upper = Vec3 x' y' z'\<rparr> (ax a b c) unitBox tiltedBox
     \<longleftrightarrow> max \<bar>min (a * x) (a * x') + min (b * y) (b * y') + min (c * z) (c * z')\<bar>
              \<bar>max (a * x) (a * x') + max (b * y) (b * y') + max (c * z) (c * z')\<bar>
          > \<bar>a\<bar> + \<bar>b\<bar> + \<bar>c\<bar>
            + \<bar>a * (3 / 5) + b * (12 / 25) + c * (16 / 25)\<bar>
            + \<bar>a * (- 4 / 5) + b * (9 / 25) + c * (12 / 25)\<bar>
            + \<bar>b * (- 4 / 5) + c * (3 / 5)\<bar>"
  by (simp add: SeparatingPlane_def unitBox_def tiltedBox_def IntervalDotProduct_ax
      IntervalDotProduct_ax_swept maxAbsEndpoint_def)

lemmas tilted_eval = clustersSeparated_def tiltedBoxes_fields tiltedBoxes_boxes
  tiltedBoxes_displacements candidateAxes_tilted SeparatingPlane_tilted Let_def

lemma tilted_pair_0: "\<not> clustersSeparated tiltedBoxes 0 (Suc 0) 0 0"
  by (simp add: tilted_eval)

lemma tilted_pair_1: "clustersSeparated tiltedBoxes 0 (Suc 0) (Suc 0) 0"
  by (simp add: tilted_eval)

lemma tilted_pair_2: "\<not> clustersSeparated tiltedBoxes 0 (Suc 0) 2 0"
  by (simp add: tilted_eval)

lemma upt_3: "[0..<3] = [0, Suc 0, 2]"
  by (simp add: upt_conv_Cons)

lemma clusterOverlaps_tilted: "clusterOverlaps tiltedBoxes 0 (Suc 0) = [(0, 0), (2, 0)]"
  unfolding clusterOverlaps_list tiltedBoxes_fields upt_3
  by (simp add: tilted_pair_0 tilted_pair_1 tilted_pair_2)


lemma tilted_cross_axis:
  "IntervalCrossProduct (zAxisInterval unitBox) (yAxisInterval tiltedBox)
     = ax (- 9 / 25) (- 4 / 5) 0"
  by (simp add: unitBox_def tiltedBox_def ax_def IntervalCrossProduct_def endpointProducts_def)

lemma tilted_only_cross_axis:
  "filter (\<lambda>axis. SeparatingPlane \<lparr>lower = Vec3 (- 2) (- 5 / 2) 0,
                                     upper = Vec3 (- 2) (- 5 / 2) (- 1 / 2)\<rparr>
                     axis unitBox tiltedBox)
          (candidateAxes unitBox tiltedBox) = [ax (- 9 / 25) (- 4 / 5) 0]"
  by (simp add: candidateAxes_tilted SeparatingPlane_tilted)

lemma tilted_cross_axis_numbers:
  "maxAbsEndpoint (IntervalDotProduct (ax (- 9 / 25) (- 4 / 5) 0)
       \<lparr>lower = Vec3 (- 2) (- 5 / 2) 0, upper = Vec3 (- 2) (- 5 / 2) (- 1 / 2)\<rparr>) = 68 / 25"
  "maxAbsEndpoint (IntervalDotProduct (ax (- 9 / 25) (- 4 / 5) 0) (ax 1 0 0))
   + maxAbsEndpoint (IntervalDotProduct (ax (- 9 / 25) (- 4 / 5) 0) (ax 0 1 0))
   + maxAbsEndpoint (IntervalDotProduct (ax (- 9 / 25) (- 4 / 5) 0) (ax 0 0 1))
   + maxAbsEndpoint (IntervalDotProduct (ax (- 9 / 25) (- 4 / 5) 0) (ax (3 / 5) (12 / 25) (16 / 25)))
   + maxAbsEndpoint (IntervalDotProduct (ax (- 9 / 25) (- 4 / 5) 0) (ax (- 4 / 5) (9 / 25) (12 / 25)))
   + maxAbsEndpoint (IntervalDotProduct (ax (- 9 / 25) (- 4 / 5) 0) (ax 0 (- 4 / 5) (3 / 5)))
   = 12 / 5"
  by (simp_all add: IntervalDotProduct_ax IntervalDotProduct_ax_swept maxAbsEndpoint_def)

lemma staleBoxes_geometry:
  "boundingBoxFF staleBoxes = 1"
  "clusterBox 1 (Bodies staleBoxes ! 0) 0 = unitBox"
  "clusterBox 1 (Bodies staleBoxes ! Suc 0) 0 = unitBox"
  "displacementInterval (Bodies staleBoxes ! 0) (Bodies staleBoxes ! Suc 0) 0 0 = ax (- 5) 0 0"
  unfolding staleBoxes_Bodies
  by (simp_all add: staleBoxes_def CheckBoundingBox_near moveBody_def twoBoxes_FF
      clusterBox_unit displacement_unit
      clusterBox_def axisInterval_def bodyAt_def stateAt_def mat_id_def mat_vec_def
      vdot_def unitCluster_def vscale_def unitBox_def ax_def displacementInterval_def
      centroidInterval_def vadd_def vsub_def)

text \<open>
  C2 as stated (after the mid phase, body A's list holds exactly the cluster pairs that no
  axis separates) fails. In \<open>staleBoxes\<close> the pair of bodies \<open>(0, 1)\<close> is close,
  \<open>boundingBoxFF\<close> is 1, both boxes are unit boxes and the centroids are 5 apart along
  \<open>x\<close>: on the candidate axis \<open>x\<close> the displacement reaches 5 and the two boxes together
  reach 2, so the only pair of clusters is separated. Yet after \<^verbatim>\<open>CheckBoundingBox\<close> the
  list of body 0 still holds the cluster pair \<open>(0, 0)\<close> of the previous mid phase: an
  empty list of overlaps is not stored.
\<close>

theorem CheckBoundingBox_keeps_stale_list:
  "closeBodies staleBoxes = [(0, 1)] \<and>
   boundingBoxFF staleBoxes = 1 \<and>
   clusterBox 1 (Bodies staleBoxes ! 0) 0 = unitBox \<and>
   clusterBox 1 (Bodies staleBoxes ! 1) 0 = unitBox \<and>
   displacementInterval (Bodies staleBoxes ! 0) (Bodies staleBoxes ! 1) 0 0 = ax (- 5) 0 0 \<and>
   maxAbsEndpoint (IntervalDotProduct (ax 1 0 0) (ax (- 5) 0 0)) = 5 \<and>
   maxAbsEndpoint (IntervalDotProduct (ax 1 0 0) (ax 1 0 0))
   + maxAbsEndpoint (IntervalDotProduct (ax 1 0 0) (ax 0 1 0))
   + maxAbsEndpoint (IntervalDotProduct (ax 1 0 0) (ax 0 0 1))
   + maxAbsEndpoint (IntervalDotProduct (ax 1 0 0) (ax 1 0 0))
   + maxAbsEndpoint (IntervalDotProduct (ax 1 0 0) (ax 0 1 0))
   + maxAbsEndpoint (IntervalDotProduct (ax 1 0 0) (ax 0 0 1)) = 2 \<and>
   SeparatingPlane (ax (- 5) 0 0) (xAxisInterval unitBox) unitBox unitBox \<and>
   clustersSeparated staleBoxes 0 1 0 0 \<and>
   coarseSearchList (Bodies staleBoxes ! 0)
     = \<lparr>parentIndices = (0, 1), overlaps = [(0, 0)]\<rparr> \<and>
   coarseSearchList (Bodies (CheckBoundingBox staleBoxes) ! 0)
     = \<lparr>parentIndices = (0, 1), overlaps = [(0, 0)]\<rparr>"
proof -
  have same: "CheckBoundingBox staleBoxes = staleBoxes"
    by (simp add: CheckBoundingBox_def staleBoxes_close checkBodyPair_def
        staleBoxes_overlaps [unfolded One_nat_def])
  have numbers: "maxAbsEndpoint (IntervalDotProduct (ax 1 0 0) (ax (- 5) 0 0)) = 5"
    "maxAbsEndpoint (IntervalDotProduct (ax 1 0 0) (ax 1 0 0))
     + maxAbsEndpoint (IntervalDotProduct (ax 1 0 0) (ax 0 1 0))
     + maxAbsEndpoint (IntervalDotProduct (ax 1 0 0) (ax 0 0 1))
     + maxAbsEndpoint (IntervalDotProduct (ax 1 0 0) (ax 1 0 0))
     + maxAbsEndpoint (IntervalDotProduct (ax 1 0 0) (ax 0 1 0))
     + maxAbsEndpoint (IntervalDotProduct (ax 1 0 0) (ax 0 0 1)) = 2"
    by (simp_all add: IntervalDotProduct_ax maxAbsEndpoint_def)
  have xaxis: "xAxisInterval unitBox = ax 1 0 0"
    by (simp add: unitBox_def)
  have plane: "SeparatingPlane (ax (- 5) 0 0) (xAxisInterval unitBox) unitBox unitBox"
    unfolding xaxis by (simp add: SeparatingPlane_unit)
  have stale: "coarseSearchList (Bodies staleBoxes ! 0)
                 = \<lparr>parentIndices = (0, 1), overlaps = [(0, 0)]\<rparr>"
    by (simp add: staleBoxes_Bodies)
  show ?thesis
    unfolding same
    using staleBoxes_close staleBoxes_separated staleBoxes_geometry numbers plane stale
    by simp
qed

text \<open>
  C2, amended. Write \<open>reach axis v\<close> for the maximum absolute endpoint of the interval dot
  product of a candidate axis with \<open>v\<close>. A candidate axis separates cluster \<open>boxIt1\<close> of
  body \<open>b1\<close> from cluster \<open>boxIt2\<close> of body \<open>b2\<close> iff its reach on the interval of the
  centroid displacement (current to future) exceeds the sum, over both boxes, of each
  half-extent, scaled by \<open>boundingBoxFF\<close>, times its reach on the swept box axis. The
  candidates are the three swept axes of each box and the nine interval cross products,
  fifteen in all. For a pair of bodies the mid phase keeps exactly the cluster pairs that
  no candidate separates, in the order of the two loops (\<open>kept\<close>). The list is stored on
  body \<open>A\<close> only when it is not empty: after \<^verbatim>\<open>CheckBoundingBox\<close>, the \<open>coarseSearchList\<close>
  of a body \<open>A\<close> is the kept list of the last close pair with first index \<open>A\<close> whose
  kept list is not empty, and it is what it was before when there is no such pair.
\<close>

theorem CheckBoundingBox_stores:
  assumes "A < length (Bodies e)"
  shows "let prods = (\<lambda>(k1 :: vec3 \<Rightarrow> real) (k2 :: vec3 \<Rightarrow> real) (a :: vectorInterval) (b :: vectorInterval).
                        {k1 (lower a) * k2 (lower b), k1 (lower a) * k2 (upper b),
                         k1 (upper a) * k2 (lower b), k1 (upper a) * k2 (upper b)});
             idot = (\<lambda>a b. (Min (prods c0 c0 a b) + Min (prods c1 c1 a b) + Min (prods c2 c2 a b),
                             Max (prods c0 c0 a b) + Max (prods c1 c1 a b) + Max (prods c2 c2 a b)));
             icross = (\<lambda>a b.
               \<lparr>lower = Vec3 (Min (prods c1 c2 a b) - Min (prods c2 c1 a b))
                             (Min (prods c2 c0 a b) - Min (prods c0 c2 a b))
                             (Min (prods c0 c1 a b) - Min (prods c1 c0 a b)),
                upper = Vec3 (Max (prods c1 c2 a b) - Max (prods c2 c1 a b))
                             (Max (prods c2 c0 a b) - Max (prods c0 c2 a b))
                             (Max (prods c0 c1 a b) - Max (prods c1 c0 a b))\<rparr>);
             reach = (\<lambda>axis v. max \<bar>fst (idot axis v)\<bar> \<bar>snd (idot axis v)\<bar>);
             turned = (\<lambda>m v. Vec3 (c0 (row0 m) * c0 v + c1 (row0 m) * c1 v + c2 (row0 m) * c2 v)
                                  (c0 (row1 m) * c0 v + c1 (row1 m) * c1 v + c2 (row1 m) * c2 v)
                                  (c0 (row2 m) * c0 v + c1 (row2 m) * c1 v + c2 (row2 m) * c2 v));
             swept = (\<lambda>(b :: geometry) v. \<lparr>lower = turned (dcm_NB (states b)) v,
                               upper = turned (dcm_NB (futureStates b)) v\<rparr>);
             centre = (\<lambda>(st :: geometry \<Rightarrow> dynamicData) (b :: geometry) boxIt.
               Vec3 (c0 (r_BN_N (st b)) + c0 (turned (dcm_NB (st b)) (centroid (polyhedron b ! boxIt))))
                    (c1 (r_BN_N (st b)) + c1 (turned (dcm_NB (st b)) (centroid (polyhedron b ! boxIt))))
                    (c2 (r_BN_N (st b)) + c2 (turned (dcm_NB (st b)) (centroid (polyhedron b ! boxIt)))));
             offset = (\<lambda>b1 b2 boxIt1 boxIt2.
               \<lparr>lower = Vec3 (c0 (centre states b1 boxIt1) - c0 (centre states b2 boxIt2))
                             (c1 (centre states b1 boxIt1) - c1 (centre states b2 boxIt2))
                             (c2 (centre states b1 boxIt1) - c2 (centre states b2 boxIt2)),
                upper = Vec3 (c0 (centre futureStates b1 boxIt1) - c0 (centre futureStates b2 boxIt2))
                             (c1 (centre futureStates b1 boxIt1) - c1 (centre futureStates b2 boxIt2))
                             (c2 (centre futureStates b1 boxIt1) - c2 (centre futureStates b2 boxIt2))\<rparr>);
             separates = (\<lambda>b1 b2 boxIt1 boxIt2 axis.
               reach axis (offset b1 b2 boxIt1 boxIt2)
                 > c0 (boundingBox (polyhedron b1 ! boxIt1)) * boundingBoxFF e
                     * reach axis (swept b1 (Vec3 1 0 0))
                 + c1 (boundingBox (polyhedron b1 ! boxIt1)) * boundingBoxFF e
                     * reach axis (swept b1 (Vec3 0 1 0))
                 + c2 (boundingBox (polyhedron b1 ! boxIt1)) * boundingBoxFF e
                     * reach axis (swept b1 (Vec3 0 0 1))
                 + c0 (boundingBox (polyhedron b2 ! boxIt2)) * boundingBoxFF e
                     * reach axis (swept b2 (Vec3 1 0 0))
                 + c1 (boundingBox (polyhedron b2 ! boxIt2)) * boundingBoxFF e
                     * reach axis (swept b2 (Vec3 0 1 0))
                 + c2 (boundingBox (polyhedron b2 ! boxIt2)) * boundingBoxFF e
                     * reach axis (swept b2 (Vec3 0 0 1)));
             axes = (\<lambda>b1 b2.
               [swept b1 (Vec3 1 0 0), swept b1 (Vec3 0 1 0), swept b1 (Vec3 0 0 1),
                swept b2 (Vec3 1 0 0), swept b2 (Vec3 0 1 0), swept b2 (Vec3 0 0 1),
                icross (swept b1 (Vec3 1 0 0)) (swept b2 (Vec3 1 0 0)),
                icross (swept b1 (Vec3 1 0 0)) (swept b2 (Vec3 0 1 0)),
                icross (swept b1 (Vec3 1 0 0)) (swept b2 (Vec3 0 0 1)),
                icross (swept b1 (Vec3 0 1 0)) (swept b2 (Vec3 1 0 0)),
                icross (swept b1 (Vec3 0 1 0)) (swept b2 (Vec3 0 1 0)),
                icross (swept b1 (Vec3 0 1 0)) (swept b2 (Vec3 0 0 1)),
                icross (swept b1 (Vec3 0 0 1)) (swept b2 (Vec3 1 0 0)),
                icross (swept b1 (Vec3 0 0 1)) (swept b2 (Vec3 0 1 0)),
                icross (swept b1 (Vec3 0 0 1)) (swept b2 (Vec3 0 0 1))]);
             kept = (\<lambda>bodyA bodyB.
               concat (map (\<lambda>boxIt1. map (Pair boxIt1)
                              (filter (\<lambda>boxIt2. \<not> (\<exists>axis\<in>set (axes (Bodies e ! bodyA) (Bodies e ! bodyB)).
                                          separates (Bodies e ! bodyA) (Bodies e ! bodyB)
                                            boxIt1 boxIt2 axis))
                                 [0 ..< length (polyhedron (Bodies e ! bodyB))]))
                           [0 ..< length (polyhedron (Bodies e ! bodyA))]))
         in coarseSearchList (Bodies (CheckBoundingBox e) ! A) =
              (case find (\<lambda>pair. fst pair = A \<and> kept (fst pair) (snd pair) \<noteq> [])
                         (rev (closeBodies e)) of
                 None \<Rightarrow> coarseSearchList (Bodies e ! A)
               | Some pair \<Rightarrow> \<lparr>parentIndices = pair, overlaps = kept (fst pair) (snd pair)\<rparr>)"
proof (intro LetI, goal_cases)
  case (1 prods idot icross reach turned swept centre offset separates axes kept)
  have k: "kept = clusterOverlaps e"
    by (rule overlaps_in_arithmetic [OF 1])
  have so: "storesOn e A = (\<lambda>pair. fst pair = A \<and> clusterOverlaps e (fst pair) (snd pair) \<noteq> [])"
    by (intro ext) (simp add: storesOn_def)
  show ?case
    unfolding k using coarseSearchList_fold [OF assms, of "closeBodies e"]
    by (simp add: CheckBoundingBox_def lastStored_def so)
qed

text \<open>On \<open>tiltedBoxes\<close> the mid phase stores the cluster pairs \<open>(0, 0)\<close> and \<open>(2, 0)\<close>
  on body 0. Cluster 1 of body 0 is dropped, and the only candidate of the fifteen that
  separates it from the cluster of body 1 is a cross product, that of the \<open>z\<close> axis of
  the first box with the \<open>y\<close> axis of the second: there the displacement reaches
  \<open>68/25\<close> and the boxes \<open>12/5\<close>.\<close>

theorem CheckBoundingBox_stores_witness:
  "0 < length (Bodies tiltedBoxes) \<and>
   closeBodies tiltedBoxes = [(0, 1)] \<and> boundingBoxFF tiltedBoxes = 2 \<and>
   map (\<lambda>c. (centroid c, boundingBox c)) (polyhedron (Bodies tiltedBoxes ! 0))
     = [(Vec3 0 0 0, Vec3 (1 / 2) (1 / 2) (1 / 2)),
        (Vec3 (- 2) (- 5 / 2) 0, Vec3 (1 / 2) (1 / 2) (1 / 2)),
        (Vec3 2 0 0, Vec3 (1 / 2) (1 / 2) (1 / 2))] \<and>
   map (\<lambda>c. (centroid c, boundingBox c)) (polyhedron (Bodies tiltedBoxes ! 1))
     = [(Vec3 0 0 0, Vec3 (1 / 2) (1 / 2) (1 / 2))] \<and>
   r_BN_N (states (Bodies tiltedBoxes ! 1)) = Vec3 0 0 0 \<and>
   r_BN_N (futureStates (Bodies tiltedBoxes ! 1)) = Vec3 0 0 (1 / 2) \<and>
   dcm_NB (states (Bodies tiltedBoxes ! 1)) = tiltedDcm \<and>
   coarseSearchList (Bodies (CheckBoundingBox tiltedBoxes) ! 0)
     = \<lparr>parentIndices = (0, 1), overlaps = [(0, 0), (2, 0)]\<rparr> \<and>
   filter (\<lambda>axis. SeparatingPlane
                     (displacementInterval (Bodies tiltedBoxes ! 0) (Bodies tiltedBoxes ! 1) 1 0)
                     axis
                     (clusterBox 2 (Bodies tiltedBoxes ! 0) 1)
                     (clusterBox 2 (Bodies tiltedBoxes ! 1) 0))
          (candidateAxes (clusterBox 2 (Bodies tiltedBoxes ! 0) 1)
                         (clusterBox 2 (Bodies tiltedBoxes ! 1) 0))
     = [IntervalCrossProduct (zAxisInterval unitBox) (yAxisInterval tiltedBox)]"
proof -
  have l: "0 < length (Bodies tiltedBoxes)"
    by (simp add: tiltedBoxes_fields)
  have stored: "coarseSearchList (Bodies (CheckBoundingBox tiltedBoxes) ! 0)
                  = \<lparr>parentIndices = (0, 1), overlaps = [(0, 0), (2, 0)]\<rparr>"
    using CheckBoundingBox_stores [OF l]
  proof (elim LetE, goal_cases)
    case (1 prods idot icross reach turned swept centre offset separates axes kept)
    have k: "kept = clusterOverlaps tiltedBoxes"
      by (rule overlaps_in_arithmetic [OF 1(1-11)])
    show ?case
      using 1(12) unfolding k
      by (simp add: tiltedBoxes_fields clusterOverlaps_tilted)
  qed
  have geometry:
    "map (\<lambda>c. (centroid c, boundingBox c)) (polyhedron (Bodies tiltedBoxes ! 0))
      = [(Vec3 0 0 0, Vec3 (1 / 2) (1 / 2) (1 / 2)),
         (Vec3 (- 2) (- 5 / 2) 0, Vec3 (1 / 2) (1 / 2) (1 / 2)),
         (Vec3 2 0 0, Vec3 (1 / 2) (1 / 2) (1 / 2))]"
    "map (\<lambda>c. (centroid c, boundingBox c)) (polyhedron (Bodies tiltedBoxes ! 1))
      = [(Vec3 0 0 0, Vec3 (1 / 2) (1 / 2) (1 / 2))]"
    "r_BN_N (states (Bodies tiltedBoxes ! 1)) = Vec3 0 0 0"
    "r_BN_N (futureStates (Bodies tiltedBoxes ! 1)) = Vec3 0 0 (1 / 2)"
    "dcm_NB (states (Bodies tiltedBoxes ! 1)) = tiltedDcm"
    by (simp_all add: tiltedBoxes_def effectorOf_def bodyAt_def stateAt_def smallCluster_def
        unitCluster_def)
  have only: "filter (\<lambda>axis. SeparatingPlane
                     (displacementInterval (Bodies tiltedBoxes ! 0) (Bodies tiltedBoxes ! 1) 1 0)
                     axis
                     (clusterBox 2 (Bodies tiltedBoxes ! 0) 1)
                     (clusterBox 2 (Bodies tiltedBoxes ! 1) 0))
          (candidateAxes (clusterBox 2 (Bodies tiltedBoxes ! 0) 1)
                         (clusterBox 2 (Bodies tiltedBoxes ! 1) 0))
     = [IntervalCrossProduct (zAxisInterval unitBox) (yAxisInterval tiltedBox)]"
    unfolding One_nat_def tiltedBoxes_boxes tiltedBoxes_displacements tilted_cross_axis
    by (rule tilted_only_cross_axis)
  show ?thesis
    using l stored geometry only tiltedBoxes_fields(1,2) by blast
qed

section \<open>Narrow phase\<close>

subsection \<open>Vector and matrix helpers\<close>

definition vnorm :: "vec3 \<Rightarrow> real" where
  "vnorm v = sqrt (vdot v v)"

text \<open>Eigen's \<^verbatim>\<open>normalized()\<close> returns the vector itself when its squared norm is not
  positive.\<close>

definition vnormalized :: "vec3 \<Rightarrow> vec3" where
  "vnormalized v = (if vdot v v > 0 then vdiv v (sqrt (vdot v v)) else v)"

definition mat_col :: "mat3 \<Rightarrow> nat \<Rightarrow> vec3" where
  "mat_col m j =
    (if j = 0 then Vec3 (c0 (row0 m)) (c0 (row1 m)) (c0 (row2 m))
     else if j = 1 then Vec3 (c1 (row0 m)) (c1 (row1 m)) (c1 (row2 m))
     else Vec3 (c2 (row0 m)) (c2 (row1 m)) (c2 (row2 m)))"

definition mat_transpose :: "mat3 \<Rightarrow> mat3" where
  "mat_transpose m = Mat3 (mat_col m 0) (mat_col m 1) (mat_col m 2)"

definition vec_mat :: "vec3 \<Rightarrow> mat3 \<Rightarrow> vec3" where
  "vec_mat v m = Vec3 (vdot v (mat_col m 0)) (vdot v (mat_col m 1)) (vdot v (mat_col m 2))"

definition mat_mul :: "mat3 \<Rightarrow> mat3 \<Rightarrow> mat3" where
  "mat_mul a b = Mat3 (vec_mat (row0 a) b) (vec_mat (row1 a) b) (vec_mat (row2 a) b)"

definition mat_scale :: "mat3 \<Rightarrow> real \<Rightarrow> mat3" where
  "mat_scale m s = Mat3 (vscale (row0 m) s) (vscale (row1 m) s) (vscale (row2 m) s)"

definition mat_add :: "mat3 \<Rightarrow> mat3 \<Rightarrow> mat3" where
  "mat_add a b = Mat3 (vadd (row0 a) (row0 b)) (vadd (row1 a) (row1 b)) (vadd (row2 a) (row2 b))"

definition mat_sub :: "mat3 \<Rightarrow> mat3 \<Rightarrow> mat3" where
  "mat_sub a b = Mat3 (vsub (row0 a) (row0 b)) (vsub (row1 a) (row1 b)) (vsub (row2 a) (row2 b))"

definition mat_neg :: "mat3 \<Rightarrow> mat3" where
  "mat_neg m = Mat3 (vneg (row0 m)) (vneg (row1 m)) (vneg (row2 m))"

subsection \<open>Point against triangle, line against line\<close>

text \<open>\<^verbatim>\<open>PointInTriangle\<close>: the returned flag, with the two values written through the
  pointers, the projected point and its distance from the plane.\<close>

definition PointInTriangle :: "vec3 \<Rightarrow> vec3 \<Rightarrow> vec3 \<Rightarrow> vec3 \<Rightarrow> int \<times> vec3 \<times> real" where
  "PointInTriangle supportPoint triVertex0 triVertex1 triVertex2 =
    (let u01 = vsub triVertex1 triVertex0;
         u02 = vsub triVertex2 triVertex0;
         u12 = vsub triVertex2 triVertex1;
         n = vnormalized (vcross u01 u02);
         w = vsub supportPoint triVertex0;
         alpha = vdot w n;
         vecToPlane = vscale n (- alpha);
         contactPoint = vadd supportPoint vecToPlane;
         distance = \<bar>alpha\<bar>;
         V1 = vsub (vneg (vnormalized u01)) (vnormalized u02);
         V2 = vadd (vneg (vnormalized u12)) (vnormalized u01);
         V3 = vadd (vnormalized u02) (vnormalized u12);
         f1 = vdot (vcross V1 (vsub contactPoint triVertex0)) n;
         f2 = vdot (vcross V2 (vsub contactPoint triVertex1)) n;
         f3 = vdot (vcross V3 (vsub contactPoint triVertex2)) n;
         flag =
           (if f2 \<le> 0 \<and> f1 > 0
            then (if vdot (vcross (vsub triVertex0 contactPoint) (vsub triVertex1 contactPoint)) n
                       \<ge> - (1 / 10 ^ 9) then 1 else - 1)
            else if f3 \<le> 0 \<and> f2 > 0
            then (if vdot (vcross (vsub triVertex1 contactPoint) (vsub triVertex2 contactPoint)) n
                       \<ge> - (1 / 10 ^ 9) then 1 else - 1)
            else if f1 \<le> 0 \<and> f3 > 0
            then (if vdot (vcross (vsub triVertex2 contactPoint) (vsub triVertex0 contactPoint)) n
                       \<ge> - (1 / 10 ^ 9) then 1 else - 1)
            else - 1)
     in (flag, contactPoint, distance))"

text \<open>\<^verbatim>\<open>LineLineDistance\<close>: the returned flag with the values of \<open>*pointA\<close> and \<open>*pointB\<close>
  after the call; \<open>pointA0\<close> and \<open>pointB0\<close> are their values before it, which the parallel
  branch that returns \<open>-1\<close> leaves in place.\<close>

definition LineLineDistance ::
  "vec3 \<Rightarrow> vec3 \<Rightarrow> vec3 \<Rightarrow> vec3 \<Rightarrow> vec3 \<Rightarrow> vec3 \<Rightarrow> int \<times> vec3 \<times> vec3" where
  "LineLineDistance vertex1 vertex2 vertex3in vertex4in pointA0 pointB0 =
    (let line21 = vsub vertex2 vertex1;
         swap = vdot line21 (vsub vertex4in vertex3in) < 0;
         vertex3 = (if swap then vertex4in else vertex3in);
         vertex4 = (if swap then vertex3in else vertex4in);
         line13 = vsub vertex1 vertex3;
         line43 = vsub vertex4 vertex3;
         d1343 = c0 line13 * c0 line43 + c1 line13 * c1 line43 + c2 line13 * c2 line43;
         d4321 = c0 line43 * c0 line21 + c1 line43 * c1 line21 + c2 line43 * c2 line21;
         d1321 = c0 line13 * c0 line21 + c1 line13 * c1 line21 + c2 line13 * c2 line21;
         d4343 = c0 line43 * c0 line43 + c1 line43 * c1 line43 + c2 line43 * c2 line43;
         d2121 = c0 line21 * c0 line21 + c1 line21 * c1 line21 + c2 line21 * c2 line21;
         denom = d2121 * d4343 - d4321 * d4321
     in if \<bar>denom\<bar> < 1 / 10 ^ 9
        then
          (let line23 = vsub vertex2 vertex3;
               line24 = vsub vertex2 vertex4;
               line41 = vsub vertex4 vertex1
           in if vdot line13 line43 < 0 \<and> vdot line24 (vneg line43) > 0
              then (0,
                    vdiv (vadd (vadd vertex1 (vscale line21 (vdot (vneg line13) line21 / d2121)))
                               vertex2) 2,
                    vdiv (vadd (vadd vertex3 (vscale line43 (vdot line23 line43 / d4343)))
                               vertex3) 2)
              else if vdot line13 line43 < 0 \<and> vdot line24 (vneg line43) < 0
              then (0,
                    vdiv (vadd (vadd vertex1 (vscale line21 (vdot (vneg line13) line21 / d2121)))
                               (vadd vertex1 (vscale line21 (vdot line41 line21 / d2121)))) 2,
                    vdiv (vadd vertex3 vertex4) 2)
              else if vdot (vneg line43) line24 < 0 \<and> vdot line13 line43 > 0
              then (0,
                    vdiv (vadd (vadd vertex1 (vscale line21 (vdot line41 line21 / d2121)))
                               vertex1) 2,
                    vdiv (vadd (vadd vertex3 (vscale line43 (vdot line13 line43 / d4343)))
                               vertex4) 2)
              else if vdot (vneg line43) line24 > 0 \<and> vdot line13 line43 > 0
              then (0,
                    vdiv (vadd vertex1 vertex2) 2,
                    vdiv (vadd (vadd vertex3 (vscale line43 (vdot line13 line43 / d4343)))
                               (vadd vertex3 (vscale line43 (vdot line23 line43 / d4343)))) 2)
              else if vdot line21 (vneg line23) \<ge> - (1 / 10 ^ 6)
                      \<and> vdot line21 (vneg line23) \<le> 1 / 10 ^ 6
              then (0, vertex2, vertex3)
              else if vdot (vneg line41) line21 \<ge> - (1 / 10 ^ 6)
                      \<and> vdot (vneg line41) line21 \<le> 1 / 10 ^ 6
              then (0, vertex1, vertex4)
              else if vdot line21 line13 \<ge> - (1 / 10 ^ 6) \<and> vdot line21 line13 \<le> 1 / 10 ^ 6
                      \<and> vdot line21 line24 \<ge> - (1 / 10 ^ 6) \<and> vdot line21 line24 \<le> 1 / 10 ^ 6
              then (0, vdiv (vadd vertex1 vertex2) 2, vdiv (vadd vertex3 vertex4) 2)
              else (- 1, pointA0, pointB0))
        else
          (let numer = d1343 * d4321 - d1321 * d4343;
               mua = numer / denom;
               mub = (d1343 + d4321 * mua) / d4343;
               pointA = (if mua < 0 then vertex1 else if mua > 1 then vertex2
                         else vadd vertex1 (vscale line21 mua));
               pointB = (if mub < 0 then vertex3 else if mub > 1 then vertex4
                         else vadd vertex3 (vscale line43 mub));
               retValue = (if mua < 0 \<or> mua > 1 \<or> mub < 0 \<or> mub > 1 then - 1 else 1)
           in (retValue, pointA, pointB)))"

subsection \<open>The contact manifold\<close>

text \<open>What the narrow phase builds up: the manifold \<open>impacts\<close>, the largest and the
  smallest contact error so far (\<open>currentMaxError\<close>, and the member
  \<open>this->currentMinError\<close>), and the position \<open>maxErrorInd\<close> of the contact with the
  largest error.\<close>

record narrowState =
  ns_impacts :: "impact list"
  ns_currentMaxError :: real
  ns_currentMinError :: real
  ns_maxErrorInd :: int

type_synonym edgeInter = "vectorInterval \<times> vectorInterval \<times> vec3 \<times> vec3"

text \<open>A body-frame point swept from the current to the future pose.\<close>

definition sweptPoint :: "dynamicData \<Rightarrow> dynamicData \<Rightarrow> vec3 \<Rightarrow> vectorInterval" where
  "sweptPoint bodyCurrent bodyFuture v =
    \<lparr> lower = vadd (r_BN_N bodyCurrent) (mat_vec (dcm_NB bodyCurrent) v),
      upper = vadd (r_BN_N bodyFuture) (mat_vec (dcm_NB bodyFuture) v) \<rparr>"

definition intervalDiff :: "vectorInterval \<Rightarrow> vectorInterval \<Rightarrow> vectorInterval" where
  "intervalDiff a b = \<lparr> lower = vsub (lower a) (lower b), upper = vsub (upper a) (upper b) \<rparr>"

text \<open>The two straddle tests on \<open>elemTest\<close>: with the margin \<open>10\<^sup>-\<^sup>1\<^sup>2\<close> for a vertex
  against a face, strict around zero for two edges.\<close>

definition straddlesMargin :: "real \<times> real \<Rightarrow> bool" where
  "straddlesMargin elemTest =
    ((fst elemTest \<le> - (1 / 10 ^ 12) \<and> snd elemTest \<ge> 1 / 10 ^ 12)
     \<or> (fst elemTest \<ge> 1 / 10 ^ 12 \<and> snd elemTest \<le> - (1 / 10 ^ 12)))"

definition straddlesZero :: "real \<times> real \<Rightarrow> bool" where
  "straddlesZero elemTest =
    ((fst elemTest < 0 \<and> snd elemTest > 0) \<or> (fst elemTest > 0 \<and> snd elemTest < 0))"

definition acceptableError :: "real \<Rightarrow> real \<Rightarrow> narrowState \<Rightarrow> bool" where
  "acceptableError maxPosErr contactError st =
    (contactError \<le> maxPosErr \<or> contactError \<le> ns_currentMinError st + 1 / 10 ^ 15)"

text \<open>The scan of the manifold for a contact that shares a point, within a millimetre,
  with the candidate: the position of the first such contact.\<close>

fun findSharedPoint :: "vec3 \<Rightarrow> vec3 \<Rightarrow> impact list \<Rightarrow> nat \<Rightarrow> nat option" where
  "findSharedPoint p1 p2 [] impInd = None"
| "findSharedPoint p1 p2 (imp # rest) impInd =
    (if vnorm (vsub p1 (fst imp)) < 1 / 10 ^ 3 \<or> vnorm (vsub p2 (fst (snd imp))) < 1 / 10 ^ 3
     then Some impInd
     else findSharedPoint p1 p2 rest (impInd + 1))"

definition eraseAt :: "nat \<Rightarrow> 'a list \<Rightarrow> 'a list" where
  "eraseAt i xs = take i xs @ drop (i + 1) xs"

definition removeSharedPoint :: "vec3 \<Rightarrow> vec3 \<Rightarrow> narrowState \<Rightarrow> narrowState" where
  "removeSharedPoint p1 p2 st =
    (case findSharedPoint p1 p2 (ns_impacts st) 0 of
       None \<Rightarrow> st
     | Some impInd \<Rightarrow>
         (if int impInd = ns_maxErrorInd st
          then st\<lparr>ns_currentMaxError := ns_currentMinError st\<rparr> else st)
         \<lparr>ns_impacts := eraseAt impInd (ns_impacts st)\<rparr>)"

definition pushContact :: "impact \<Rightarrow> real \<Rightarrow> narrowState \<Rightarrow> narrowState" where
  "pushContact imp contactError st =
    (let st1 = st\<lparr>ns_impacts := ns_impacts st @ [imp]\<rparr>
     in if contactError > ns_currentMaxError st1
        then st1\<lparr>ns_currentMaxError := contactError,
                 ns_maxErrorInd := int (length (ns_impacts st1)) - 1\<rparr>
        else st1\<lparr>ns_currentMinError := contactError\<rparr>)"

text \<open>One vertex against one face. \<open>faceOnBody1\<close> tells the two passes apart: with the
  face on body 1 the projected point is the contact's first point and the vertex its
  second, with the face on body 2 it is the other way round. \<open>normal_N\<close> is the contact
  normal the pass uses for this face. The state carries the list \<open>usedVerts\<close>.\<close>

definition vertexFaceTest ::
  "real \<Rightarrow> bool \<Rightarrow> vec3 \<Rightarrow> vectorInterval \<times> vectorInterval \<times> vectorInterval \<Rightarrow>
   vectorInterval list \<Rightarrow> nat \<Rightarrow> narrowState \<times> nat list \<Rightarrow> narrowState \<times> nat list" where
  "vertexFaceTest maxPosErr faceOnBody1 normal_N faceVertInter vertInter vertInd acc =
    (let st = fst acc;
         usedVerts = snd acc;
         f0 = fst faceVertInter;
         f1 = fst (snd faceVertInter);
         f2 = snd (snd faceVertInter);
         faceLegInterval1 = intervalDiff f0 f1;
         faceLegInterval2 = intervalDiff f0 f2;
         supportInterval = intervalDiff (vertInter ! vertInd) f0;
         elemTest = IntervalDotProduct supportInterval
                      (IntervalCrossProduct faceLegInterval1 faceLegInterval2)
     in if straddlesMargin elemTest
        then (let pit = PointInTriangle (lower (vertInter ! vertInd))
                          (lower f0) (lower f1) (lower f2);
                  intersectFlag = fst pit;
                  contactPoint = fst (snd pit);
                  contactError = snd (snd pit)
              in if intersectFlag = 1 \<and> acceptableError maxPosErr contactError st
                 then (let p1 = (if faceOnBody1 then contactPoint
                                 else lower (vertInter ! vertInd));
                           p2 = (if faceOnBody1 then lower (vertInter ! vertInd)
                                 else contactPoint)
                       in (pushContact (p1, p2, normal_N) contactError
                             (removeSharedPoint p1 p2 st),
                           usedVerts @ [vertInd]))
                 else acc)
        else acc)"

text \<open>One face against all the remaining vertices of the other cluster; afterwards the
  vertices that made a contact are erased from the list, last first.\<close>

definition facePass ::
  "real \<Rightarrow> bool \<Rightarrow> vec3 \<Rightarrow> vectorInterval \<times> vectorInterval \<times> vectorInterval \<Rightarrow>
   narrowState \<times> vectorInterval list \<Rightarrow> narrowState \<times> vectorInterval list" where
  "facePass maxPosErr faceOnBody1 normal_N faceVertInter acc =
    (let vertInter = snd acc;
         res = fold (vertexFaceTest maxPosErr faceOnBody1 normal_N faceVertInter vertInter)
                    [0 ..< length vertInter] (fst acc, [])
     in (fst res, fold eraseAt (rev (snd res)) vertInter))"

text \<open>The swept vertices of face \<open>faceInd\<close> of a cluster.\<close>

definition faceVertexIntervals ::
  "dynamicData \<Rightarrow> dynamicData \<Rightarrow> vec3 list \<Rightarrow> halfEdge \<Rightarrow> nat \<Rightarrow>
   vectorInterval \<times> vectorInterval \<times> vectorInterval" where
  "faceVertexIntervals bodyCurrent bodyFuture verts poly faceInd =
    (sweptPoint bodyCurrent bodyFuture (verts ! (faceTriangles poly ! faceInd ! 0)),
     sweptPoint bodyCurrent bodyFuture (verts ! (faceTriangles poly ! faceInd ! 1)),
     sweptPoint bodyCurrent bodyFuture (verts ! (faceTriangles poly ! faceInd ! 2)))"

text \<open>The swept end points of edge \<open>edgeInd\<close> of a cluster with the inertial normals of the
  two faces that meet in it; the second face may lie in another cluster of the body.\<close>

definition edgeIntervals ::
  "dynamicData \<Rightarrow> dynamicData \<Rightarrow> geometry \<Rightarrow> halfEdge \<Rightarrow> nat \<Rightarrow> edgeInter" where
  "edgeIntervals bodyCurrent bodyFuture body poly edgeInd =
    (sweptPoint bodyCurrent bodyFuture (vertices body ! (edgeIndices poly ! edgeInd ! 0)),
     sweptPoint bodyCurrent bodyFuture (vertices body ! (edgeIndices poly ! edgeInd ! 1)),
     mat_vec (dcm_NB bodyCurrent) (faceNormals poly ! fst (faceIndices poly ! edgeInd)),
     mat_vec (dcm_NB bodyCurrent)
       (faceNormals (polyhedron body ! fst (snd (faceIndices poly ! edgeInd)))
          ! snd (snd (faceIndices poly ! edgeInd))))"

text \<open>One edge of body 1 against one edge of body 2. When \<^verbatim>\<open>LineLineDistance\<close> returns 0
  or 1 it has written both points, so the values the two pointers held before the call
  are never read; the model passes zero vectors for them. Where no normal opposes the
  relative velocity the code leaves the iteration after the duplicate has been erased.\<close>

definition edgeEdgeTest ::
  "real \<Rightarrow> dynamicData \<Rightarrow> dynamicData \<Rightarrow> edgeInter \<Rightarrow> edgeInter \<Rightarrow> narrowState \<Rightarrow> narrowState" where
  "edgeEdgeTest maxPosErr body1Current body2Current edge1 edge2 st =
    (let faceLegInterval1 = intervalDiff (fst (snd edge1)) (fst edge1);
         faceLegInterval2 = intervalDiff (fst (snd edge2)) (fst edge2);
         supportInterval = intervalDiff (fst edge2) (fst edge1);
         elemTest = IntervalDotProduct supportInterval
                      (IntervalCrossProduct faceLegInterval1 faceLegInterval2)
     in if straddlesZero elemTest
        then (let lld = LineLineDistance (lower (fst edge1)) (lower (fst (snd edge1)))
                          (lower (fst edge2)) (lower (fst (snd edge2))) vzero vzero;
                  intersectFlag = fst lld;
                  contactPoint = fst (snd lld);
                  contactPoint2 = snd (snd lld);
                  contactError = vnorm (vsub contactPoint contactPoint2)
              in if (intersectFlag = 0 \<or> intersectFlag = 1)
                     \<and> acceptableError maxPosErr contactError st
                 then (let st1 = removeSharedPoint contactPoint contactPoint2 st;
                           contactVelocity_N =
                             vsub (vadd (v_BN_N body1Current)
                                     (mat_vec (dcm_NB body1Current)
                                        (mat_vec (mat_mul (omegaTilde_BN_B body1Current)
                                                          (dcm_BN body1Current))
                                           (vsub contactPoint (r_BN_N body1Current)))))
                                  (vadd (v_BN_N body2Current)
                                     (mat_vec (dcm_NB body2Current)
                                        (mat_vec (mat_mul (omegaTilde_BN_B body2Current)
                                                          (dcm_BN body2Current))
                                           (vsub contactPoint2 (r_BN_N body2Current)))));
                           n2 = fst (snd (snd edge2));
                           n3 = snd (snd (snd edge2))
                       in if vdot contactVelocity_N n2 < - (1 / 10 ^ 12)
                             \<and> vdot contactVelocity_N n3 < - (1 / 10 ^ 12)
                          then pushContact (contactPoint, contactPoint2,
                                            vnormalized (vadd n2 n3)) contactError st1
                          else if vdot contactVelocity_N n2 < - (1 / 10 ^ 12)
                          then pushContact (contactPoint, contactPoint2, n2) contactError st1
                          else if vdot contactVelocity_N n3 < - (1 / 10 ^ 12)
                          then pushContact (contactPoint, contactPoint2, n3) contactError st1
                          else st1)
                 else st)
        else st)"

text \<open>One pair of clusters \<open>(p, q)\<close> of the coarse search list: the swept unique vertices
  and edges of both clusters, then the faces of cluster \<open>p\<close> of body 1 against the
  vertices of cluster \<open>q\<close> of body 2, the faces of \<open>q\<close> against the vertices of \<open>p\<close>, and
  every edge of \<open>p\<close> against every edge of \<open>q\<close>.\<close>

definition narrowPair ::
  "real \<Rightarrow> geometry \<Rightarrow> geometry \<Rightarrow> dynamicData \<Rightarrow> dynamicData \<Rightarrow> dynamicData \<Rightarrow> dynamicData \<Rightarrow>
   nat \<times> nat \<Rightarrow> narrowState \<Rightarrow> narrowState" where
  "narrowPair maxPosErr body1 body2 body1Current body1Future body2Current body2Future
              polyPair st =
    (let poly1 = polyhedron body1 ! fst polyPair;
         poly2 = polyhedron body2 ! snd polyPair;
         body1UniqueVertInter =
           map (\<lambda>vi. sweptPoint body1Current body1Future (vertices body1 ! vi))
               (uniqueVertIndices poly1);
         body2UniqueVertInter =
           map (\<lambda>vi. sweptPoint body2Current body2Future (vertices body2 ! vi))
               (uniqueVertIndices poly2);
         body1EdgeInter = map (edgeIntervals body1Current body1Future body1 poly1)
                              [0 ..< length (edgeIndices poly1)];
         body2EdgeInter = map (edgeIntervals body2Current body2Future body2 poly2)
                              [0 ..< length (edgeIndices poly2)];
         pass1 = fold (\<lambda>faceInd.
                         facePass maxPosErr True
                           (mat_vec (dcm_NB body1Current) (vneg (faceNormals poly1 ! faceInd)))
                           (faceVertexIntervals body1Current body1Future (vertices body1)
                              poly1 faceInd))
                      [0 ..< length (faceTriangles poly1)] (st, body2UniqueVertInter);
         pass2 = fold (\<lambda>faceInd.
                         facePass maxPosErr False
                           (mat_vec (dcm_NB body2Current) (faceNormals poly2 ! faceInd))
                           (faceVertexIntervals body2Current body2Future (vertices body2)
                              poly2 faceInd))
                      [0 ..< length (faceTriangles poly2)] (fst pass1, body1UniqueVertInter)
     in fold (\<lambda>edge1 st1.
                fold (edgeEdgeTest maxPosErr body1Current body2Current edge1)
                     body2EdgeInter st1)
             body1EdgeInter (fst pass2))"

subsection \<open>Kinematic predictor\<close>

text \<open>
  Modelled from the spec: \<^verbatim>\<open>eigenTilde\<close> of avsEigenSupport, which is not among the source
  files. Section 4.8 calls it the skew matrix of a vector: \<open>tilde(v) w = v \<times> w\<close>.
\<close>

definition eigenTilde :: "vec3 \<Rightarrow> mat3" where
  "eigenTilde v = Mat3 (Vec3 0 (- c2 v) (c1 v)) (Vec3 (c2 v) 0 (- c0 v)) (Vec3 (- c1 v) (c0 v) 0)"

text \<open>What the effector uses and this file does not define: the two functions of the
  modified Rodrigues parameters class (avsEigenMRP, not among the source files), taken as
  parameters, and the sequence of numbers that \<^verbatim>\<open>std::rand()\<close> returns, draw by draw.\<close>

record externals =
  Bmat :: "vec3 \<Rightarrow> mat3"
  toRotationMatrix :: "vec3 \<Rightarrow> mat3"
  rand :: "nat \<Rightarrow> nat"

text \<open>The pose of a body at the sub-step time, \<open>tau\<close> after the time of the stored states.
  The local \<^verbatim>\<open>dynamicData\<close> starts uninitialised; the fields that the code does not
  assign are never read afterwards, and the model leaves the stored values in them.\<close>

definition predictCurrent :: "externals \<Rightarrow> geometry \<Rightarrow> real \<Rightarrow> dynamicData" where
  "predictCurrent ext body tau =
    (let s = states body
     in if isSpice body
        then (let dcm = mat_add (mat_scale (mat_mul (mat_neg (omegaTilde_BN_B s)) (dcm_BN s)) tau)
                                (dcm_BN s)
              in s\<lparr> r_BN_N := vadd (r_BN_N s) (vscale (v_BN_N s) tau),
                    v_BN_N := v_BN_N s,
                    dcm_BN := dcm,
                    dcm_NB := mat_transpose dcm,
                    omegaTilde_BN_B := omegaTilde_BN_B s \<rparr>)
        else (let omega = vadd (omega_BN_B s) (vscale (omegaDot_BN_B s) tau);
                  sigma = vadd (vscale (mat_vec (mat_scale (Bmat ext (sigma_BN s)) (1 / 4)) omega)
                                       tau)
                               (sigma_BN s);
                  dcm = toRotationMatrix ext sigma
              in s\<lparr> r_BN_N := vadd (vadd (r_BN_N s) (vscale (v_BN_N s) tau))
                                   (mat_vec (dcm_NB s)
                                      (vscale (vscale (nonConservativeAccelpntB_B s) tau) tau)),
                    v_BN_N := vadd (v_BN_N s)
                                   (mat_vec (dcm_NB s)
                                      (vscale (nonConservativeAccelpntB_B s) tau)),
                    omega_BN_B := omega,
                    sigma_BN := sigma,
                    dcm_NB := dcm,
                    dcm_BN := mat_transpose dcm,
                    omegaTilde_BN_B := eigenTilde omega \<rparr>))"

text \<open>The pose at the end of the sub-step. \<open>omegaDot\<close> is the angular acceleration the code
  uses: for both bodies of a pair it reads the one stored for the first body.\<close>

definition predictFuture ::
  "externals \<Rightarrow> geometry \<Rightarrow> dynamicData \<Rightarrow> vec3 \<Rightarrow> real \<Rightarrow> dynamicData" where
  "predictFuture ext body bodyCurrent omegaDot timeStep =
    (let s = states body
     in if isSpice body
        then (let dcm = mat_add (mat_scale (mat_mul (mat_neg (omegaTilde_BN_B s))
                                              (dcm_BN bodyCurrent)) timeStep)
                                (dcm_BN bodyCurrent)
              in s\<lparr> r_BN_N := vadd (r_BN_N bodyCurrent) (vscale (v_BN_N s) timeStep),
                    v_BN_N := v_BN_N s,
                    dcm_BN := dcm,
                    dcm_NB := mat_transpose dcm \<rparr>)
        else (let omega = vadd (omega_BN_B bodyCurrent) (vscale omegaDot timeStep);
                  sigma = vadd (vscale (mat_vec (mat_scale (Bmat ext (sigma_BN bodyCurrent))
                                                   (1 / 4)) omega) timeStep)
                               (sigma_BN bodyCurrent);
                  dcm = toRotationMatrix ext sigma
              in s\<lparr> r_BN_N := vadd (vadd (r_BN_N bodyCurrent)
                                         (vscale (v_BN_N bodyCurrent) timeStep))
                                   (mat_vec (dcm_NB bodyCurrent)
                                      (vscale (vscale (nonConservativeAccelpntB_B s) timeStep)
                                              timeStep)),
                    omega_BN_B := omega,
                    sigma_BN := sigma,
                    dcm_NB := dcm,
                    dcm_BN := mat_transpose dcm \<rparr>))"

text \<open>The fine collision detection of \<^verbatim>\<open>computeForceTorque\<close> for the close pair
  \<open>(bodyA, bodyB)\<close>: the four predicted poses, and all cluster pairs of the coarse search
  list of the first body. It starts from an empty manifold with \<open>currentMaxError = 0\<close>,
  \<open>maxErrorInd = -1\<close> and the effector's \<open>currentMinError\<close>.\<close>

definition narrowPhase ::
  "externals \<Rightarrow> real \<Rightarrow> real \<Rightarrow> nat \<Rightarrow> nat \<Rightarrow> effector \<Rightarrow> narrowState" where
  "narrowPhase ext currentTime timeStep bodyA bodyB e =
    (let body1 = Bodies e ! bodyA;
         body2 = Bodies e ! bodyB;
         body1Current = predictCurrent ext body1 (currentTime - currentSimSeconds e);
         body1Future = predictFuture ext body1 body1Current (omegaDot_BN_B (states body1))
                         timeStep;
         body2Current = predictCurrent ext body2 (currentTime - currentSimSeconds e);
         body2Future = predictFuture ext body2 body2Current (omegaDot_BN_B (states body1))
                         timeStep
     in fold (narrowPair (maxPosError e) body1 body2 body1Current body1Future
                         body2Current body2Future)
             (overlaps (coarseSearchList body1))
             \<lparr> ns_impacts = [], ns_currentMaxError = 0,
               ns_currentMinError = currentMinError e, ns_maxErrorInd = - 1 \<rparr>)"

section \<open>Impulse solve and the cycle coordinator\<close>

text \<open>The local contact frame of one contact: rows \<open>cHat_1\<close>, \<open>cHat_2\<close>, \<open>cHat_3\<close>.\<close>

definition contactFrame :: "dynamicData \<Rightarrow> impact \<Rightarrow> mat3" where
  "contactFrame body2Current imp =
    (let cHat_3 = vnormalized (snd (snd imp));
         c1z = vcross cHat_3 (mat_vec (dcm_NB body2Current) (Vec3 0 0 1));
         c1 = (if vnorm c1z < 1 / 10 ^ 9
               then vcross cHat_3 (mat_vec (dcm_NB body2Current) (Vec3 1 0 0)) else c1z);
         cHat_1 = vnormalized c1;
         cHat_2 = vnormalized (vcross cHat_3 cHat_1)
     in Mat3 cHat_1 cHat_2 cHat_3)"

text \<open>One 3 by 3 block of the inverse inertia matrix: the contribution of one body.\<close>

definition inertiaTerm :: "real \<Rightarrow> mat3 \<Rightarrow> mat3 \<Rightarrow> mat3 \<Rightarrow> vec3 \<Rightarrow> vec3 \<Rightarrow> mat3" where
  "inertiaTerm mass Iinv dcm_CN_ii dcm_CB_ii point_ii point_jj =
    mat_sub (mat_scale mat_id (1 / mass))
      (mat_mul (mat_mul (eigenTilde (mat_vec dcm_CN_ii point_ii))
                        (mat_mul (mat_mul dcm_CB_ii Iinv) (mat_transpose dcm_CB_ii)))
               (eigenTilde (mat_vec dcm_CN_ii point_jj)))"

definition inertiaBlock ::
  "geometry \<Rightarrow> geometry \<Rightarrow> mat3 list \<Rightarrow> mat3 list \<Rightarrow> mat3 list \<Rightarrow> impact list \<Rightarrow> nat \<Rightarrow> nat \<Rightarrow> mat3" where
  "inertiaBlock body1 body2 dcm_CN dcm_CB1 dcm_CB2 imps ii jj =
    (let M1 = inertiaTerm (m_SC (states body1)) (ISCPntB_B_inv (states body1))
                (dcm_CN ! ii) (dcm_CB1 ! ii) (fst (imps ! ii)) (fst (imps ! jj));
         M_C = (if isSpice body2 then M1
                else mat_add M1
                       (inertiaTerm (m_SC (states body2)) (ISCPntB_B_inv (states body2))
                          (dcm_CN ! ii) (dcm_CB2 ! ii)
                          (fst (snd (imps ! ii))) (fst (snd (imps ! jj)))))
     in if ii = jj then M_C
        else mat_mul M_C (mat_mul (dcm_CB1 ! ii) (mat_transpose (dcm_CB1 ! jj))))"

definition vec3_list :: "vec3 \<Rightarrow> real list" where
  "vec3_list v = [c0 v, c1 v, c2 v]"

definition mat_rows :: "mat3 \<Rightarrow> vec3 list" where
  "mat_rows m = [row0 m, row1 m, row2 m]"

text \<open>\<open>M_tot\<close>, row by row: block row \<open>ii\<close> contributes three rows, each the
  concatenation over \<open>jj\<close> of the corresponding row of block \<open>(ii, jj)\<close>.\<close>

definition inverseInertiaMatrix ::
  "geometry \<Rightarrow> geometry \<Rightarrow> mat3 list \<Rightarrow> mat3 list \<Rightarrow> mat3 list \<Rightarrow> impact list \<Rightarrow> real list list" where
  "inverseInertiaMatrix body1 body2 dcm_CN dcm_CB1 dcm_CB2 imps =
    concat (map (\<lambda>ii.
                   map (\<lambda>r. concat (map (\<lambda>jj. vec3_list
                                              (mat_rows (inertiaBlock body1 body2 dcm_CN dcm_CB1
                                                           dcm_CB2 imps ii jj) ! r))
                                        [0 ..< length imps]))
                       [0 ..< 3])
                [0 ..< length imps])"

text \<open>The force and torque on both bodies from the integrated impulses: the tuple
  (\<open>forceExternal_N\<close>, \<open>torqueExternalPntB_B\<close>, \<open>forceExternalOther_N\<close>,
  \<open>torqueExternalOtherPntB_B\<close>), accumulated contact by contact from zero.\<close>

definition extractContact ::
  "mat3 list \<Rightarrow> dynamicData \<Rightarrow> dynamicData \<Rightarrow> impact list \<Rightarrow> real list \<Rightarrow> real \<Rightarrow> nat \<Rightarrow>
   vec3 \<times> vec3 \<times> vec3 \<times> vec3 \<Rightarrow> vec3 \<times> vec3 \<times> vec3 \<times> vec3" where
  "extractContact dcm_CN body1Current body2Current imps X_c timeStep impNum acc =
    (let numImpacts = length imps;
         seg = Vec3 (X_c ! (numImpacts * 3 + impNum * 3))
                    (X_c ! (numImpacts * 3 + impNum * 3 + 1))
                    (X_c ! (numImpacts * 3 + impNum * 3 + 2));
         impulse_Body1_N = mat_vec (mat_transpose (dcm_CN ! impNum)) seg;
         force = fst acc;
         torque = fst (snd acc);
         forceOther = fst (snd (snd acc));
         torqueOther = snd (snd (snd acc))
     in (vadd force (vdiv impulse_Body1_N timeStep),
         vadd torque
           (mat_vec (dcm_BN body1Current)
              (vcross (vsub (fst (imps ! impNum)) (r_BN_N body1Current))
                      (vdiv impulse_Body1_N timeStep))),
         vsub forceOther impulse_Body1_N,
         vsub torqueOther
           (mat_vec (dcm_BN body2Current)
              (vcross (vsub (fst (snd (imps ! impNum))) (r_BN_N body2Current))
                      impulse_Body1_N))))"

text \<open>The six draws of the step-rejection signal, in the order the code makes them.\<close>

definition randomComponent :: "externals \<Rightarrow> nat \<Rightarrow> real \<Rightarrow> real" where
  "randomComponent ext n timeStep = (real (rand ext n mod 1000) + 1000) / timeStep"

definition randomForceTorque :: "externals \<Rightarrow> real \<Rightarrow> effector \<Rightarrow> effector" where
  "randomForceTorque ext timeStep e =
    e\<lparr> forceExternal_N := Vec3 (randomComponent ext (randState e) timeStep)
                               (randomComponent ext (randState e + 1) timeStep)
                               (randomComponent ext (randState e + 2) timeStep),
       torqueExternalPntB_B := Vec3 (randomComponent ext (randState e + 3) timeStep)
                                    (randomComponent ext (randState e + 4) timeStep)
                                    (randomComponent ext (randState e + 5) timeStep),
       randState := randState e + 6 \<rparr>"

definition markSubStep :: "real \<Rightarrow> real \<Rightarrow> effector \<Rightarrow> effector" where
  "markSubStep currentTime timeStep e =
    e\<lparr> timeFound := currentTime + timeStep + 1 / 10 ^ 15, integrateTimeStep := timeStep \<rparr>"

text \<open>The impulse solve for a valid manifold, and the queueing of its result on both
  bodies.\<close>

definition solveImpacts ::
  "externals \<Rightarrow> real \<Rightarrow> real \<Rightarrow> nat \<Rightarrow> nat \<Rightarrow> narrowState \<Rightarrow> effector \<Rightarrow> effector" where
  "solveImpacts ext currentTime timeStep bodyA bodyB ns e =
    (let body1 = Bodies e ! bodyA;
         body2 = Bodies e ! bodyB;
         body1Current = predictCurrent ext body1 (currentTime - currentSimSeconds e);
         body2Current = predictCurrent ext body2 (currentTime - currentSimSeconds e);
         imps = ns_impacts ns;
         numImpacts = length imps;
         dcm_CN = map (contactFrame body2Current) imps;
         dcm_CB1 = map (\<lambda>d. mat_mul d (dcm_NB body1Current)) dcm_CN;
         dcm_CB2 = map (\<lambda>d. mat_mul d (dcm_NB body2Current)) dcm_CN;
         M_tot = inverseInertiaMatrix body1 body2 dcm_CN dcm_CB1 dcm_CB2 imps;
         X_c0 = initialCollisionState dcm_CN body1Current body2Current imps;
         X_c = snd (integrateCollision imps M_tot (coefRestitution body1) (coefFriction body1)
                      (collisionIntegrationStep e) 0 X_c0);
         ft = fold (extractContact dcm_CN body1Current body2Current imps X_c timeStep)
                   [0 ..< numImpacts] (vzero, vzero, vzero, vzero);
         e1 = e\<lparr> forceExternal_N := fst ft, torqueExternalPntB_B := fst (snd ft) \<rparr>
     in if ns_currentMaxError ns \<le> maxPosError e
        then (let bs1 = (Bodies e1)[bodyA := (Bodies e1 ! bodyA)
                           \<lparr>bodyForceExternal_N :=
                              bodyForceExternal_N (Bodies e1 ! bodyA) @ [fst ft]\<rparr>];
                  bs2 = bs1[bodyB := (bs1 ! bodyB)
                           \<lparr>bodyForceExternal_N :=
                              bodyForceExternal_N (bs1 ! bodyB) @ [fst (snd (snd ft))]\<rparr>];
                  bs3 = bs2[bodyA := (bs2 ! bodyA)
                           \<lparr>bodyTorqueExternalPntB_B :=
                              bodyTorqueExternalPntB_B (bs2 ! bodyA) @ [fst (snd ft)]\<rparr>];
                  bs4 = bs3[bodyB := (bs3 ! bodyB)
                           \<lparr>bodyTorqueExternalPntB_B :=
                              bodyTorqueExternalPntB_B (bs3 ! bodyB) @ [snd (snd (snd ft))],
                            impactTimes := impactTimes (bs3 ! bodyB) @ [currentTime],
                            impactTimeSteps := impactTimeSteps (bs3 ! bodyB) @ [timeStep]\<rparr>]
              in (markSubStep currentTime timeStep e1)
                   \<lparr>responseFound := True, Bodies := bs4\<rparr>)
        else e1)"

text \<open>
  \<^verbatim>\<open>computeForceTorque\<close> leaves through one of thirteen \<^verbatim>\<open>return\<close>s. The model returns,
  next to the effector after the call, which one was taken: in the first loop (the
  current body is the first of a close pair) the replay of a found response, its expiry,
  the empty manifold, the replay of the step rejection, the over-penetration and the
  solve; in the second loop (the current body is the second of a close pair) the empty
  queue, the replay of a found response, its expiry, the replay of the step rejection,
  the synchronised delivery and the late call; and the end of the function.
\<close>

datatype outcome =
    A_ResponseReplayed | A_ResponseExpired | A_NoContact | A_RandomReplayed
  | A_OverPenetration | A_Solved
  | B_QueueEmpty | B_ResponseReplayed | B_ResponseExpired | B_RandomReplayed
  | B_Synchronised | B_Late
  | NoReturnBeforeEnd

text \<open>The head of the function: outputs zeroed, \<open>currentMinError\<close> reset, the bookkeeping
  of a new macro step, and the advance of the body cycle when the call is at the top time
  and step.\<close>

definition beginCall :: "real \<Rightarrow> real \<Rightarrow> effector \<Rightarrow> effector" where
  "beginCall currentTime timeStep e =
    (let e1 = e\<lparr> forceExternal_N := vzero, forceExternal_B := vzero,
                 torqueExternalPntB_B := vzero, currentMinError := 100 \<rparr>;
         e2 = (if newMacroTimeStep e1
               then e1\<lparr> topTime := currentTime, topTimeStep := timeStep,
                        newMacroTimeStep := False, secondInter := False \<rparr>
               else e1)
     in if \<bar>topTime e2 - currentTime\<bar> < 1 / 10 ^ 15 \<and> \<bar>topTimeStep e2 - timeStep\<bar> < 1 / 10 ^ 15
        then (if secondInter e2 then e2\<lparr> secondInter := False \<rparr>
              else (let c = currentBodyInCycle e2 + 1;
                        c' = (if isSpice (Bodies e2 ! nat c) then c + 1 else c)
                    in e2\<lparr> currentBodyInCycle := c', secondInter := True,
                            responseFound := False, lockedToRand := False \<rparr>))
        else e2)"

text \<open>The body of the first loop for the close pair \<open>(bodyA, bodyB)\<close> whose first index
  is the current body: every path through it returns.\<close>

definition asBodyA ::
  "externals \<Rightarrow> real \<Rightarrow> real \<Rightarrow> nat \<times> nat \<Rightarrow> effector \<Rightarrow> outcome \<times> effector" where
  "asBodyA ext currentTime timeStep pair e =
    (let bodyA = fst pair; bodyB = snd pair
     in if responseFound e
        then (if timeFound e \<ge> currentTime \<and> \<bar>timeStep - integrateTimeStep e\<bar> < 1 / 10 ^ 15
              then (A_ResponseReplayed,
                    e\<lparr> forceExternal_N := last (bodyForceExternal_N (Bodies e ! bodyA)),
                       torqueExternalPntB_B :=
                         last (bodyTorqueExternalPntB_B (Bodies e ! bodyA)) \<rparr>)
              else (A_ResponseExpired, e\<lparr> responseFound := False \<rparr>))
        else (let ns = narrowPhase ext currentTime timeStep bodyA bodyB e;
                  e1 = e\<lparr> currentMinError := ns_currentMinError ns \<rparr>
              in if length (ns_impacts ns) = 0
                 then (A_NoContact, (markSubStep currentTime timeStep e1)\<lparr> lockedToRand := True \<rparr>)
                 else if lockedToRand e1 \<and> \<bar>timeStep - integrateTimeStep e1\<bar> < 1 / 10 ^ 15
                 then (A_RandomReplayed, randomForceTorque ext timeStep e1)
                 else (let e2 = (if lockedToRand e1 then e1\<lparr> lockedToRand := False \<rparr> else e1)
                       in if ns_currentMaxError ns > maxPosError e2
                          then (A_OverPenetration,
                                (markSubStep currentTime timeStep
                                   (randomForceTorque ext timeStep e2))\<lparr> lockedToRand := True \<rparr>)
                          else (A_Solved,
                                solveImpacts ext currentTime timeStep bodyA bodyB ns e2))))"

text \<open>The second loop, over the close pairs that are left to visit.\<close>

fun asBodyB ::
  "externals \<Rightarrow> real \<Rightarrow> real \<Rightarrow> (nat \<times> nat) list \<Rightarrow> effector \<Rightarrow> outcome \<times> effector" where
  "asBodyB ext currentTime timeStep [] e = (NoReturnBeforeEnd, e)"
| "asBodyB ext currentTime timeStep (pair # rest) e =
    (if int (snd pair) \<noteq> currentBodyInCycle e then asBodyB ext currentTime timeStep rest e
     else (let bodyB = snd pair; body = Bodies e ! bodyB
           in if bodyForceExternal_N body = [] then (B_QueueEmpty, e)
              else if responseFound e
              then (if timeFound e \<ge> currentTime
                       \<and> \<bar>timeStep - integrateTimeStep e\<bar> < 1 / 10 ^ 15
                    then (B_ResponseReplayed,
                          e\<lparr> forceExternal_N :=
                               vdiv (bodyForceExternal_N body ! 0) (integrateTimeStep e),
                             torqueExternalPntB_B :=
                               vdiv (bodyTorqueExternalPntB_B body ! 0) (integrateTimeStep e) \<rparr>)
                    else (B_ResponseExpired,
                          e\<lparr> responseFound := False,
                             Bodies := (Bodies e)[bodyB := body
                               \<lparr> bodyForceExternal_N := tl (bodyForceExternal_N body),
                                 bodyTorqueExternalPntB_B := tl (bodyTorqueExternalPntB_B body),
                                 impactTimes := tl (impactTimes body),
                                 impactTimeSteps := tl (impactTimeSteps body) \<rparr>] \<rparr>))
              else if lockedToRand e \<and> timeFound e \<ge> currentTime
                      \<and> \<bar>timeStep - integrateTimeStep e\<bar> < 1 / 10 ^ 15
              then (B_RandomReplayed, randomForceTorque ext timeStep e)
              else (let e1 = (if lockedToRand e then e\<lparr> lockedToRand := False \<rparr> else e)
                    in if \<bar>currentTime - impactTimes body ! 0\<bar> < timeSynchTol e1
                          \<and> \<bar>timeStep - impactTimeSteps body ! 0\<bar> < timeSynchTol e1
                       then (B_Synchronised,
                             (markSubStep currentTime timeStep e1)
                               \<lparr> responseFound := True,
                                 forceExternal_N := vdiv (bodyForceExternal_N body ! 0) timeStep,
                                 torqueExternalPntB_B :=
                                   vdiv (bodyTorqueExternalPntB_B body ! 0) timeStep \<rparr>)
                       else if currentTime + timeStep > impactTimes body ! 0
                       then (B_Late,
                             (markSubStep currentTime timeStep
                                (randomForceTorque ext timeStep e1))\<lparr> lockedToRand := True \<rparr>)
                       else asBodyB ext currentTime timeStep rest e1)))"

text \<open>\<^verbatim>\<open>computeForceTorque\<close>. The first loop skips the pairs whose first index is not the
  current body and returns from the first pair it does not skip.\<close>

definition computeForceTorqueOutcome ::
  "externals \<Rightarrow> real \<Rightarrow> real \<Rightarrow> effector \<Rightarrow> outcome \<times> effector" where
  "computeForceTorqueOutcome ext currentTime timeStep e =
    (let e1 = beginCall currentTime timeStep e
     in case find (\<lambda>pair. int (fst pair) = currentBodyInCycle e1) (closeBodies e1) of
          Some pair \<Rightarrow> asBodyA ext currentTime timeStep pair e1
        | None \<Rightarrow> asBodyB ext currentTime timeStep (closeBodies e1) e1)"

definition computeForceTorque :: "externals \<Rightarrow> real \<Rightarrow> real \<Rightarrow> effector \<Rightarrow> effector" where
  "computeForceTorque ext currentTime timeStep e =
    snd (computeForceTorqueOutcome ext currentTime timeStep e)"

text \<open>The returns that raise the step-rejection signal, each with six fresh draws.\<close>

definition stepRejecting :: "outcome \<Rightarrow> bool" where
  "stepRejecting out \<longleftrightarrow>
     out = A_RandomReplayed \<or> out = A_OverPenetration \<or> out = B_RandomReplayed \<or> out = B_Late"

text \<open>The members that no return but the solve and the expiry of a delivered response
  writes: the bodies, the close pairs, and the configuration.\<close>

definition untouched :: "effector \<Rightarrow> effector \<Rightarrow> bool" where
  "untouched e e' \<longleftrightarrow>
     Bodies e' = Bodies e \<and> closeBodies e' = closeBodies e \<and>
     currentSimSeconds e' = currentSimSeconds e \<and> numBodies e' = numBodies e \<and>
     maxPosError e' = maxPosError e \<and>
     collisionIntegrationStep e' = collisionIntegrationStep e \<and>
     boundingBoxFF e' = boundingBoxFF e \<and> timeSynchTol e' = timeSynchTol e"




text \<open>The members a step-rejecting return leaves as the head of the call set them.\<close>

definition sameCycle :: "effector \<Rightarrow> effector \<Rightarrow> bool" where
  "sameCycle e e' \<longleftrightarrow>
     untouched e e' \<and> currentBodyInCycle e' = currentBodyInCycle e \<and>
     topTime e' = topTime e \<and> topTimeStep e' = topTimeStep e \<and>
     secondInter e' = secondInter e \<and> newMacroTimeStep e' = newMacroTimeStep e"

subsection \<open>Example calls\<close>

text \<open>The examples run at the zero attitude, where both functions of the modified
  Rodrigues parameters give the identity, and with a sample sequence of eighteen draws.
  \<open>queuedBoxes\<close> is the effector of the two separated boxes in the middle of a macro step
  that began at time 0 with step \<open>1/100\<close>: the cycle is at body 1, and body 1 has one
  impulse queued, found at time 0. \<open>lateOnce\<close>, \<open>lateTwice\<close> and \<open>lateThrice\<close> are what
  one, two and three calls at time \<open>1/200\<close> with step \<open>1/100\<close> make of it.\<close>

definition exampleRand :: "nat \<Rightarrow> nat" where
  "exampleRand n =
    (if n < 18
     then [1804289383, 846930886, 1681692777, 1714636915, 1957747793, 424238335,
           719885386, 1649760492, 596516649, 1189641421, 1025202362, 1350490027,
           783368690, 1102520059, 2044897763, 1967513926, 1365180540, 1540383426] ! n
     else 0)"

definition exampleExternals :: externals where
  "exampleExternals = \<lparr> Bmat = (\<lambda>sigma. mat_id), toRotationMatrix = (\<lambda>sigma. mat_id),
                         rand = exampleRand \<rparr>"

definition queuedBoxes :: effector where
  "queuedBoxes =
    (twoBoxes 5)\<lparr> Bodies := [bodyAt (Vec3 0 0 0) (Vec3 0 0 0) 10 [unitCluster],
                              (bodyAt (Vec3 5 0 0) (Vec3 5 0 0) 10 [unitCluster])
                                \<lparr> bodyForceExternal_N := [Vec3 0 0 (- 1)],
                                  bodyTorqueExternalPntB_B := [Vec3 0 0 0],
                                  impactTimes := [0], impactTimeSteps := [1 / 100] \<rparr>],
                   currentBodyInCycle := 1, newMacroTimeStep := False,
                   topTime := 0, topTimeStep := 1 / 100, secondInter := True \<rparr>"

definition lateOnce :: effector where
  "lateOnce = queuedBoxes\<lparr> forceExternal_N := Vec3 138300 188600 177700,
                           torqueExternalPntB_B := Vec3 191500 179300 133500,
                           currentMinError := 100, lockedToRand := True,
                           timeFound := 1 / 200 + 1 / 100 + 1 / 10 ^ 15,
                           integrateTimeStep := 1 / 100, randState := 6 \<rparr>"






lemmas call_defs = beginCall_def queuedBoxes_def twoBoxes_def effectorOf_def Let_def
  markSubStep_def randomForceTorque_def randomComponent_def exampleExternals_def
  exampleRand_def vzero_def

lemma beginCall_twoBoxes:
  "beginCall 0 (1 / 100) (twoBoxes 5) =
     (twoBoxes 5)\<lparr> currentMinError := 100, topTimeStep := 1 / 100, newMacroTimeStep := False,
                   currentBodyInCycle := 0, secondInter := True \<rparr>"
  by (simp add: beginCall_def Let_def twoBoxes_def effectorOf_def bodyAt_def)

lemma narrowPhase_twoBoxes:
  "narrowPhase ext t dt 0 (Suc 0)
     ((twoBoxes 5)\<lparr> currentMinError := 100, topTimeStep := 1 / 100, newMacroTimeStep := False,
                    currentBodyInCycle := 0, secondInter := True \<rparr>)
    = \<lparr> ns_impacts = [], ns_currentMaxError = 0, ns_currentMinError = 100,
        ns_maxErrorInd = - 1 \<rparr>"
  by (simp add: narrowPhase_def Let_def twoBoxes_def effectorOf_def bodyAt_def)

lemma noContact_twoBoxes:
  "computeForceTorqueOutcome ext 0 (1 / 100) (twoBoxes 5) =
     (A_NoContact,
      (twoBoxes 5)\<lparr> currentMinError := 100, topTimeStep := 1 / 100, newMacroTimeStep := False,
                    currentBodyInCycle := 0, secondInter := True, lockedToRand := True,
                    timeFound := 1 / 100 + 1 / 10 ^ 15, integrateTimeStep := 1 / 100 \<rparr>)"
  unfolding computeForceTorqueOutcome_def beginCall_twoBoxes Let_def
  apply (simp add: twoBoxes_close)
  apply (simp add: asBodyA_def Let_def narrowPhase_twoBoxes markSubStep_def)
  apply (simp add: twoBoxes_def effectorOf_def)
  done

lemma first_late_call:
  "computeForceTorqueOutcome exampleExternals (1 / 200) (1 / 100) queuedBoxes
     = (B_Late, lateOnce)"
  unfolding computeForceTorqueOutcome_def
  by (simp add: call_defs lateOnce_def)





subsection \<open>The empty manifold\<close>

lemma outputs_beginCall:
  "forceExternal_B (beginCall t dt e) = vzero"
  "forceExternal_N (beginCall t dt e) = vzero"
  "torqueExternalPntB_B (beginCall t dt e) = vzero"
  by (simp_all add: beginCall_def Let_def)

text \<open>
  C7 (no-contact outcome). Let the current body pair be the first close pair whose first
  index is the body the cycle is at once the head of the call has run, with no response
  already found for the sub-step. Whenever the narrow phase produces an empty manifold for
  that pair, the call returns through the empty-manifold return with \<open>forceExternal_N\<close>,
  \<open>forceExternal_B\<close> and \<open>torqueExternalPntB_B\<close> zero, \<open>lockedToRand\<close> set,
  \<open>timeFound = currentTime + timeStep + 10\<^sup>-\<^sup>1\<^sup>5\<close> and \<open>integrateTimeStep = timeStep\<close>.
\<close>

theorem computeForceTorque_no_contact:
  assumes "find (\<lambda>pair. int (fst pair) = currentBodyInCycle (beginCall currentTime timeStep e))
                (closeBodies e) = Some (bodyA, bodyB)"
    and "\<not> responseFound (beginCall currentTime timeStep e)"
    and "ns_impacts (narrowPhase ext currentTime timeStep bodyA bodyB
                       (beginCall currentTime timeStep e)) = []"
  shows "fst (computeForceTorqueOutcome ext currentTime timeStep e) = A_NoContact
       \<and> forceExternal_N (computeForceTorque ext currentTime timeStep e) = vzero
       \<and> forceExternal_B (computeForceTorque ext currentTime timeStep e) = vzero
       \<and> torqueExternalPntB_B (computeForceTorque ext currentTime timeStep e) = vzero
       \<and> lockedToRand (computeForceTorque ext currentTime timeStep e)
       \<and> timeFound (computeForceTorque ext currentTime timeStep e)
            = currentTime + timeStep + 1 / 10 ^ 15
       \<and> integrateTimeStep (computeForceTorque ext currentTime timeStep e) = timeStep"
proof -
  let ?e1 = "beginCall currentTime timeStep e"
  have cb: "closeBodies ?e1 = closeBodies e"
    by (simp add: beginCall_def Let_def)
  have eq: "computeForceTorqueOutcome ext currentTime timeStep e
              = asBodyA ext currentTime timeStep (bodyA, bodyB) ?e1"
    using assms(1) by (simp add: computeForceTorqueOutcome_def Let_def cb)
  have "asBodyA ext currentTime timeStep (bodyA, bodyB) ?e1
      = (A_NoContact,
         (markSubStep currentTime timeStep
            (?e1\<lparr>currentMinError :=
                    ns_currentMinError (narrowPhase ext currentTime timeStep bodyA bodyB ?e1)\<rparr>))
         \<lparr>lockedToRand := True\<rparr>)"
    using assms(2,3) by (simp add: asBodyA_def Let_def)
  then show ?thesis
    unfolding computeForceTorque_def eq
    by (simp add: markSubStep_def outputs_beginCall)
qed

theorem computeForceTorque_no_contact_witness:
  "find (\<lambda>pair. int (fst pair) = currentBodyInCycle (beginCall 0 (1 / 100) (twoBoxes 5)))
        (closeBodies (twoBoxes 5)) = Some (0, 1) \<and>
   \<not> responseFound (beginCall 0 (1 / 100) (twoBoxes 5)) \<and>
   ns_impacts (narrowPhase exampleExternals 0 (1 / 100) 0 1
                 (beginCall 0 (1 / 100) (twoBoxes 5))) = [] \<and>
   forceExternal_N (computeForceTorque exampleExternals 0 (1 / 100) (twoBoxes 5)) = Vec3 0 0 0 \<and>
   torqueExternalPntB_B (computeForceTorque exampleExternals 0 (1 / 100) (twoBoxes 5))
     = Vec3 0 0 0 \<and>
   lockedToRand (computeForceTorque exampleExternals 0 (1 / 100) (twoBoxes 5)) \<and>
   timeFound (computeForceTorque exampleExternals 0 (1 / 100) (twoBoxes 5))
     = 1 / 100 + 1 / 10 ^ 15 \<and>
   integrateTimeStep (computeForceTorque exampleExternals 0 (1 / 100) (twoBoxes 5)) = 1 / 100"
proof -
  have f: "find (\<lambda>pair. int (fst pair)
                   = currentBodyInCycle (beginCall 0 (1 / 100) (twoBoxes 5)))
        (closeBodies (twoBoxes 5)) = Some (0, 1)"
    by (simp add: beginCall_twoBoxes twoBoxes_close)
  have r: "\<not> responseFound (beginCall 0 (1 / 100) (twoBoxes 5))"
    by (simp add: beginCall_twoBoxes) (simp add: twoBoxes_def effectorOf_def)
  have n: "ns_impacts (narrowPhase exampleExternals 0 (1 / 100) 0 1
             (beginCall 0 (1 / 100) (twoBoxes 5))) = []"
    by (simp add: beginCall_twoBoxes narrowPhase_twoBoxes)
  show ?thesis
    using computeForceTorque_no_contact [OF f r n] f r n
    by (simp add: vzero_def)
qed

subsection \<open>What a call leaves untouched\<close>

lemma untouched_refl: "untouched e e"
  by (simp add: untouched_def)

lemma untouched_trans: "untouched e e' \<Longrightarrow> untouched e' e'' \<Longrightarrow> untouched e e''"
  by (simp add: untouched_def)

lemma untouched_beginCall: "untouched e (beginCall t dt e)"
  by (simp add: beginCall_def untouched_def Let_def)

lemma untouched_unlock: "untouched e (e\<lparr>lockedToRand := False\<rparr>)"
  by (simp add: untouched_def)

lemma untouched_asBodyA:
  "fst (asBodyA ext t dt pair e) \<noteq> A_Solved \<Longrightarrow> untouched e (snd (asBodyA ext t dt pair e))"
  by (auto simp: asBodyA_def Let_def untouched_def randomForceTorque_def markSubStep_def
      split: if_splits)

lemma untouched_asBodyB:
  "fst (asBodyB ext t dt pairs e) \<noteq> B_ResponseExpired \<Longrightarrow>
    untouched e (snd (asBodyB ext t dt pairs e))"
proof (induction pairs arbitrary: e)
  case Nil
  show ?case by (simp add: untouched_refl)
next
  case (Cons pair rest)
  have IH1: "fst (asBodyB ext t dt rest e) \<noteq> B_ResponseExpired \<Longrightarrow>
             untouched e (snd (asBodyB ext t dt rest e))"
    by (rule Cons.IH)
  have IH2: "fst (asBodyB ext t dt rest (e\<lparr>lockedToRand := False\<rparr>)) \<noteq> B_ResponseExpired \<Longrightarrow>
             untouched e (snd (asBodyB ext t dt rest (e\<lparr>lockedToRand := False\<rparr>)))"
    using untouched_trans [OF untouched_unlock Cons.IH] by blast
  show ?case
    using Cons.prems IH1 IH2
    by (auto simp: Let_def untouched_def randomForceTorque_def markSubStep_def
        split: if_splits)
qed

lemma computeForceTorqueOutcome_cases:
  "computeForceTorqueOutcome ext t dt e
     = (case find (\<lambda>pair. int (fst pair) = currentBodyInCycle (beginCall t dt e))
                  (closeBodies (beginCall t dt e)) of
          Some pair \<Rightarrow> asBodyA ext t dt pair (beginCall t dt e)
        | None \<Rightarrow> asBodyB ext t dt (closeBodies (beginCall t dt e)) (beginCall t dt e))"
  by (simp add: computeForceTorqueOutcome_def Let_def)

lemma untouched_computeForceTorque:
  assumes "fst (computeForceTorqueOutcome ext t dt e) \<noteq> A_Solved"
    and "fst (computeForceTorqueOutcome ext t dt e) \<noteq> B_ResponseExpired"
  shows "untouched e (computeForceTorque ext t dt e)"
proof -
  let ?e1 = "beginCall t dt e"
  show ?thesis
  proof (cases "find (\<lambda>pair. int (fst pair) = currentBodyInCycle ?e1) (closeBodies ?e1)")
    case None
    then have eq: "computeForceTorqueOutcome ext t dt e
                     = asBodyB ext t dt (closeBodies ?e1) ?e1"
      by (simp add: computeForceTorqueOutcome_cases)
    show ?thesis
      using assms(2) untouched_trans [OF untouched_beginCall untouched_asBodyB]
      by (simp add: computeForceTorque_def eq)
  next
    case (Some pair)
    then have eq: "computeForceTorqueOutcome ext t dt e = asBodyA ext t dt pair ?e1"
      by (simp add: computeForceTorqueOutcome_cases)
    show ?thesis
      using assms(1) untouched_trans [OF untouched_beginCall untouched_asBodyA]
      by (simp add: computeForceTorque_def eq)
  qed
qed

text \<open>
  C10 as stated (on the no-contact and the pseudo-random paths only the three outputs and
  the four latches \<open>lockedToRand\<close>, \<open>responseFound\<close>, \<open>timeFound\<close>, \<open>integrateTimeStep\<close>
  may change) fails. The first call of a macro step on the two separated boxes leaves
  through the empty-manifold return and has changed \<open>currentMinError\<close> from 1 to 100,
  \<open>currentBodyInCycle\<close> from \<open>-1\<close> to 0, \<open>newMacroTimeStep\<close>, \<open>secondInter\<close> and
  \<open>topTimeStep\<close>.
\<close>

theorem computeForceTorque_changes_cycle_members:
  "fst (computeForceTorqueOutcome exampleExternals 0 (1 / 100) (twoBoxes 5)) = A_NoContact \<and>
   currentMinError (twoBoxes 5) = 1 \<and>
   currentMinError (computeForceTorque exampleExternals 0 (1 / 100) (twoBoxes 5)) = 100 \<and>
   currentBodyInCycle (twoBoxes 5) = - 1 \<and>
   currentBodyInCycle (computeForceTorque exampleExternals 0 (1 / 100) (twoBoxes 5)) = 0 \<and>
   newMacroTimeStep (twoBoxes 5) \<and>
   \<not> newMacroTimeStep (computeForceTorque exampleExternals 0 (1 / 100) (twoBoxes 5)) \<and>
   \<not> secondInter (twoBoxes 5) \<and>
   secondInter (computeForceTorque exampleExternals 0 (1 / 100) (twoBoxes 5)) \<and>
   topTimeStep (twoBoxes 5) = 0 \<and>
   topTimeStep (computeForceTorque exampleExternals 0 (1 / 100) (twoBoxes 5)) = 1 / 100"
  unfolding computeForceTorque_def noContact_twoBoxes
  by (simp add: twoBoxes_def effectorOf_def)

text \<open>
  C10, amended. When \<^verbatim>\<open>computeForceTorque\<close> returns through the empty-manifold return or
  through one of the returns that raise the step-rejection signal, it modifies no
  per-body data: the list of bodies, with every body's vertices, polyhedron, states,
  future states and queues, is what it was. Nor does it change \<open>closeBodies\<close>,
  \<open>currentSimSeconds\<close>, \<open>numBodies\<close> or the configuration. The members that may change
  are the three outputs, the four latches, and the members of the cycle coordinator:
  \<open>currentMinError\<close>, \<open>newMacroTimeStep\<close>, \<open>topTime\<close>, \<open>topTimeStep\<close>, \<open>secondInter\<close> and
  \<open>currentBodyInCycle\<close> (and the position of the random generator).
\<close>

theorem computeForceTorque_frame:
  assumes "fst (computeForceTorqueOutcome ext currentTime timeStep e) = A_NoContact
           \<or> stepRejecting (fst (computeForceTorqueOutcome ext currentTime timeStep e))"
  shows "Bodies (computeForceTorque ext currentTime timeStep e) = Bodies e
       \<and> closeBodies (computeForceTorque ext currentTime timeStep e) = closeBodies e
       \<and> currentSimSeconds (computeForceTorque ext currentTime timeStep e) = currentSimSeconds e
       \<and> numBodies (computeForceTorque ext currentTime timeStep e) = numBodies e
       \<and> maxPosError (computeForceTorque ext currentTime timeStep e) = maxPosError e
       \<and> collisionIntegrationStep (computeForceTorque ext currentTime timeStep e)
            = collisionIntegrationStep e
       \<and> boundingBoxFF (computeForceTorque ext currentTime timeStep e) = boundingBoxFF e
       \<and> timeSynchTol (computeForceTorque ext currentTime timeStep e) = timeSynchTol e"
proof -
  have "fst (computeForceTorqueOutcome ext currentTime timeStep e) \<noteq> A_Solved"
    "fst (computeForceTorqueOutcome ext currentTime timeStep e) \<noteq> B_ResponseExpired"
    using assms by (auto simp: stepRejecting_def)
  then have "untouched e (computeForceTorque ext currentTime timeStep e)"
    by (rule untouched_computeForceTorque)
  then show ?thesis by (simp add: untouched_def)
qed

theorem computeForceTorque_frame_witness:
  "fst (computeForceTorqueOutcome exampleExternals 0 (1 / 100) (twoBoxes 5)) = A_NoContact \<and>
   fst (computeForceTorqueOutcome exampleExternals (1 / 200) (1 / 100) queuedBoxes) = B_Late \<and>
   Bodies (computeForceTorque exampleExternals 0 (1 / 100) (twoBoxes 5)) = Bodies (twoBoxes 5) \<and>
   closeBodies (computeForceTorque exampleExternals 0 (1 / 100) (twoBoxes 5)) = [(0, 1)] \<and>
   Bodies (computeForceTorque exampleExternals (1 / 200) (1 / 100) queuedBoxes)
     = Bodies queuedBoxes"
proof -
  have o: "fst (computeForceTorqueOutcome exampleExternals 0 (1 / 100) (twoBoxes 5))
             = A_NoContact"
    by (simp add: noContact_twoBoxes)
  have l: "fst (computeForceTorqueOutcome exampleExternals (1 / 200) (1 / 100) queuedBoxes)
             = B_Late"
    by (simp add: first_late_call)
  have 1: "fst (computeForceTorqueOutcome exampleExternals 0 (1 / 100) (twoBoxes 5))
             = A_NoContact
           \<or> stepRejecting
                (fst (computeForceTorqueOutcome exampleExternals 0 (1 / 100) (twoBoxes 5)))"
    using o by simp
  have 2: "fst (computeForceTorqueOutcome exampleExternals (1 / 200) (1 / 100) queuedBoxes)
             = A_NoContact
           \<or> stepRejecting
                (fst (computeForceTorqueOutcome exampleExternals (1 / 200) (1 / 100)
                        queuedBoxes))"
    using l by (simp add: stepRejecting_def)
  from computeForceTorque_frame [OF 1] computeForceTorque_frame [OF 2] o l show ?thesis
    by (simp add: twoBoxes_close)
qed

subsection \<open>Replaying a rejected step\<close>







lemma sameCycle_refl: "sameCycle e e"
  by (simp add: sameCycle_def untouched_def)
















end
